theory Spec2Isabelle
  imports Complex_Main "HOL-Library.While_Combinator"
begin

section \<open>Single-precision arithmetic\<close>

text \<open>
  \<^verbatim>\<open>tpFloat\<close> is \<^verbatim>\<open>float\<close>.  Where nothing else is said, the numbers of this theory are real
  numbers and the arithmetic is exact.  This section has the rounding of float arithmetic; the
  value that is not a number comes with the flattening loop on floats further down.

  An arithmetic operation on floats returns the exact result rounded to the nearest number
  with a significand of 24 bits, a tie going to the even significand (IEEE 754 binary32 in the
  default rounding mode, every operation evaluated in \<^verbatim>\<open>float\<close>).  \<open>toFloat\<close> is that rounding.
  The range of the exponent is not limited here, so that overflow and the subnormal numbers
  are left out.  \<open>bitLength n\<close> is the number of binary digits of \<open>n\<close>, and \<open>floatExponent x\<close>
  is the \<open>e\<close> with \<open>2\<^sup>e \<le> \<bar>x\<bar> < 2\<^sup>e\<^sup>+\<^sup>1\<close>.
\<close>

fun bitLength :: "nat \<Rightarrow> nat" where
  "bitLength n = (if n = 0 then 0 else Suc (bitLength (n div 2)))"

declare bitLength.simps [simp del]

definition pow2 :: "int \<Rightarrow> real" where
  "pow2 e = (if 0 \<le> e then 2 ^ nat e else 1 / 2 ^ nat (- e))"

definition floatExponent :: "real \<Rightarrow> int" where
  "floatExponent x =
     (if 1 \<le> \<bar>x\<bar> then int (bitLength (nat \<lfloor>\<bar>x\<bar>\<rfloor>)) - 1
      else - int (bitLength (nat (\<lceil>1 / \<bar>x\<bar>\<rceil> - 1))))"

definition roundHalfEven :: "real \<Rightarrow> int" where
  "roundHalfEven q =
     (let f = \<lfloor>q\<rfloor>; r = q - of_int f
      in if r < 1 / 2 then f else if 1 / 2 < r then f + 1 else if even f then f else f + 1)"

definition toFloat :: "real \<Rightarrow> real" where
  "toFloat x =
     (if x = 0 then 0
      else let g = pow2 (floatExponent x - 23) in of_int (roundHalfEven (x / g)) * g)"

text \<open>The sum, the difference and the product of two floats, and the reals that are floats.\<close>

definition roundedAdd :: "real \<Rightarrow> real \<Rightarrow> real" where
  "roundedAdd a b = toFloat (a + b)"

definition roundedMult :: "real \<Rightarrow> real \<Rightarrow> real" where
  "roundedMult a b = toFloat (a * b)"


definition isFloat :: "real \<Rightarrow> bool" where
  "isFloat x \<longleftrightarrow> toFloat x = x"

section \<open>Geometry primitives\<close>

text \<open>
  The library computes with \<^verbatim>\<open>tpFloat\<close> (a C \<^verbatim>\<open>float\<close>).  In the sections that follow a
  \<^verbatim>\<open>tpFloat\<close> is a real number and the arithmetic is exact: rounding, overflow and the IEEE
  special values are left out, except where it is said otherwise.  Where the C code divides,
  the division by zero is written out wherever a property depends on it.  The sections on
  transforms in float arithmetic and on the flattening loop on floats that may be NaN have
  the rounding and the NaN for the functions where a claim depends on them.
\<close>

datatype tpVec2 = tpVec2Make (vx: real) (vy: real)

text \<open>\<^verbatim>\<open>tpMat2\<close> holds \<^verbatim>\<open>v[4]\<close> in column-major order.\<close>

datatype tpMat2 = Mat2 (v0: real) (v1: real) (v2: real) (v3: real)

record tpTransform =
  tr_m :: tpMat2
  tr_t :: tpVec2

definition tpVec2Add :: "tpVec2 \<Rightarrow> tpVec2 \<Rightarrow> tpVec2" where
  "tpVec2Add a b = tpVec2Make (vx a + vx b) (vy a + vy b)"

definition tpVec2Sub :: "tpVec2 \<Rightarrow> tpVec2 \<Rightarrow> tpVec2" where
  "tpVec2Sub a b = tpVec2Make (vx a - vx b) (vy a - vy b)"

definition tpVec2MultScalar :: "tpVec2 \<Rightarrow> real \<Rightarrow> tpVec2" where
  "tpVec2MultScalar a b = tpVec2Make (vx a * b) (vy a * b)"

definition tpVec2Equals :: "tpVec2 \<Rightarrow> tpVec2 \<Rightarrow> bool" where
  "tpVec2Equals a b \<longleftrightarrow> vx a = vx b \<and> vy a = vy b"

definition tpVec2Length :: "tpVec2 \<Rightarrow> real" where
  "tpVec2Length v = sqrt (vx v * vx v + vy v * vy v)"

definition tpVec2Cross :: "tpVec2 \<Rightarrow> tpVec2 \<Rightarrow> real" where
  "tpVec2Cross a b = vx a * vy b - vy a * vx b"

definition tpVec2Dot :: "tpVec2 \<Rightarrow> tpVec2 \<Rightarrow> real" where
  "tpVec2Dot a b = vx a * vx b + vy a * vy b"

definition tpVec2Perp :: "tpVec2 \<Rightarrow> tpVec2" where
  "tpVec2Perp a = tpVec2Make (vy a) (- vx a)"

definition tpVec2Distance :: "tpVec2 \<Rightarrow> tpVec2 \<Rightarrow> real" where
  "tpVec2Distance a b = tpVec2Length (tpVec2Sub a b)"

definition tpVec2Lerp :: "tpVec2 \<Rightarrow> tpVec2 \<Rightarrow> real \<Rightarrow> tpVec2" where
  "tpVec2Lerp a b s = tpVec2Add (tpVec2MultScalar a (1 - s)) (tpVec2MultScalar b s)"

definition tpMat2MultVec2 :: "tpMat2 \<Rightarrow> tpVec2 \<Rightarrow> tpVec2" where
  "tpMat2MultVec2 mat vec =
     tpVec2Make (vx vec * v0 mat + vy vec * v2 mat) (vx vec * v1 mat + vy vec * v3 mat)"

definition tpMat2Mult :: "tpMat2 \<Rightarrow> tpMat2 \<Rightarrow> tpMat2" where
  "tpMat2Mult a b =
     Mat2 (v0 b * v0 a + v1 b * v2 a) (v0 b * v1 a + v1 b * v3 a)
          (v2 b * v0 a + v3 b * v2 a) (v2 b * v1 a + v3 b * v3 a)"

definition tpTransformApply :: "tpTransform \<Rightarrow> tpVec2 \<Rightarrow> tpVec2" where
  "tpTransformApply trafo vec = tpVec2Add (tpMat2MultVec2 (tr_m trafo) vec) (tr_t trafo)"

definition tpTransformCombine :: "tpTransform \<Rightarrow> tpTransform \<Rightarrow> tpTransform" where
  "tpTransformCombine a b = \<lparr> tr_m = tpMat2Mult (tr_m a) (tr_m b), tr_t = tpTransformApply a (tr_t b) \<rparr>"


section \<open>Path and builder state\<close>

record tpSegment =
  handleIn :: tpVec2
  position :: tpVec2
  handleOut :: tpVec2

definition tpSegmentMake :: "real \<Rightarrow> real \<Rightarrow> real \<Rightarrow> real \<Rightarrow> real \<Rightarrow> real \<Rightarrow> tpSegment" where
  "tpSegmentMake h0x h0y px py h1x h1y =
     \<lparr> handleIn = tpVec2Make h0x h0y, position = tpVec2Make px py,
       handleOut = tpVec2Make h1x h1y \<rparr>"

text \<open>
  \<^verbatim>\<open>_tpGLContour\<close>: the segment array and the flags the builder reads and writes.  The
  rendering fields (vertex offsets and counts, bounds, length) are not touched by the builder
  functions below and are left out.
\<close>

record tpGLContour =
  segments :: "tpSegment list"
  bDirty :: bool
  bIsClosed :: bool
  bLengthDirty :: bool
  lastSegmentIndex :: int

record tpGLPath =
  contours :: "tpGLContour list"
  currentContourIndex :: int
  bPathGeometryDirty :: bool

text \<open>
  The state a builder call works on: the path behind the handle, the thread-local error string
  \<^verbatim>\<open>__g_error\<close>, and whether the allocator refuses the next request (the array template of
  \<^verbatim>\<open>TarpArray.h\<close> reports that as a non-zero result of an append).  A builder function returns
  the \<^verbatim>\<open>tpBool\<close> of the C function (\<open>True\<close>: an error occurred) and the new state.
\<close>

record tpState =
  st_path :: tpGLPath
  st_error :: string
  st_allocFails :: bool

definition tpGLSetErrorMessage :: "string \<Rightarrow> tpState \<Rightarrow> tpState" where
  "tpGLSetErrorMessage message s = s\<lparr>st_error := message\<rparr>"

definition tpPathCreate :: tpGLPath where
  "tpPathCreate = \<lparr> contours = [], currentContourIndex = - 1, bPathGeometryDirty = True \<rparr>"

text \<open>A contour pointer is the index of the contour in the path; \<open>None\<close> is \<^verbatim>\<open>NULL\<close>.\<close>

definition tpGLCurrentContour :: "tpGLPath \<Rightarrow> nat option" where
  "tpGLCurrentContour p =
     (if currentContourIndex p \<noteq> - 1 then Some (nat (currentContourIndex p)) else None)"

definition tpGLPathCreateNextContour :: "tpGLPath \<Rightarrow> nat \<times> tpGLPath" where
  "tpGLPathCreateNextContour p =
     (let contour = \<lparr> segments = [], bDirty = True, bIsClosed = False, bLengthDirty = True,
                       lastSegmentIndex = - 1 \<rparr>
      in (length (contours p),
          p\<lparr> currentContourIndex := int (length (contours p)),
             contours := contours p @ [contour] \<rparr>))"

definition tpGLPathNextEmptyContour :: "tpGLPath \<Rightarrow> nat \<times> tpGLPath" where
  "tpGLPathNextEmptyContour p =
     (case tpGLCurrentContour p of
        None \<Rightarrow> tpGLPathCreateNextContour p
      | Some c \<Rightarrow>
          if segments (contours p ! c) \<noteq> [] then tpGLPathCreateNextContour p else (c, p))"

definition tpGLContourAddSegments :: "nat \<Rightarrow> tpSegment list \<Rightarrow> tpState \<Rightarrow> bool \<times> tpState" where
  "tpGLContourAddSegments c segs s =
     (if st_allocFails s
      then (True, tpGLSetErrorMessage ''Could not allocate memory for segments.'' s)
      else
        let p = st_path s;
            old = contours p ! c;
            new = old\<lparr> segments := segments old @ segs,
                       lastSegmentIndex := int (length (segments old @ segs)) - 1,
                       bDirty := True \<rparr>
        in (False,
            s\<lparr> st_path := p\<lparr> contours := (contours p)[c := new],
                               bPathGeometryDirty := True \<rparr> \<rparr>))"

definition tpGLContourAddSegment ::
  "nat \<Rightarrow> real \<Rightarrow> real \<Rightarrow> real \<Rightarrow> real \<Rightarrow> real \<Rightarrow> real \<Rightarrow> tpState \<Rightarrow> bool \<times> tpState" where
  "tpGLContourAddSegment c h0x h0y px py h1x h1y s =
     tpGLContourAddSegments c [tpSegmentMake h0x h0y px py h1x h1y] s"

text \<open>
  The guard shared by \<^verbatim>\<open>tpPathLineTo\<close>, \<^verbatim>\<open>tpPathCubicCurveTo\<close>,
  \<^verbatim>\<open>tpPathQuadraticCurveTo\<close> and \<^verbatim>\<open>tpPathArcTo\<close>:
  \<^verbatim>\<open>!c || c->lastSegmentIndex == -1\<close>.
\<close>

definition noContourStarted :: "tpGLPath \<Rightarrow> bool" where
  "noContourStarted p =
     (case tpGLCurrentContour p of
        None \<Rightarrow> True
      | Some c \<Rightarrow> lastSegmentIndex (contours p ! c) = - 1)"

definition tpPathLineTo :: "real \<Rightarrow> real \<Rightarrow> tpState \<Rightarrow> bool \<times> tpState" where
  "tpPathLineTo px py s =
     (if noContourStarted (st_path s)
      then (True, tpGLSetErrorMessage
              ''You have to start a contour before issuing this command (see tpPathMoveTo).'' s)
      else tpGLContourAddSegment (the (tpGLCurrentContour (st_path s))) px py px py px py s)"

definition tpPathMoveTo :: "real \<Rightarrow> real \<Rightarrow> tpState \<Rightarrow> bool \<times> tpState" where
  "tpPathMoveTo px py s =
     (let (c, p) = tpGLPathNextEmptyContour (st_path s)
      in tpGLContourAddSegment c px py px py px py (s\<lparr>st_path := p\<rparr>))"

text \<open>
  \<^verbatim>\<open>_tpSegmentArrayAtPtr(&c->segments, c->lastSegmentIndex)->handleOut = ...\<close>: the write
  goes to the last segment; \<open>lastSegmentIndex\<close> is \<open>count - 1\<close> in every state the functions
  of this section build.
\<close>

definition setLastHandleOut :: "nat \<Rightarrow> tpVec2 \<Rightarrow> tpState \<Rightarrow> tpState" where
  "setLastHandleOut c h s =
     (let p = st_path s;
          old = contours p ! c;
          i = nat (lastSegmentIndex old);
          new = old\<lparr> segments := (segments old)[i := (segments old ! i)\<lparr>handleOut := h\<rparr>] \<rparr>
      in s\<lparr> st_path := p\<lparr> contours := (contours p)[c := new] \<rparr> \<rparr>)"

definition tpPathCubicCurveTo ::
  "real \<Rightarrow> real \<Rightarrow> real \<Rightarrow> real \<Rightarrow> real \<Rightarrow> real \<Rightarrow> tpState \<Rightarrow> bool \<times> tpState" where
  "tpPathCubicCurveTo h0x h0y h1x h1y px py s =
     (if noContourStarted (st_path s)
      then (True, tpGLSetErrorMessage
              ''You have to start a contour before issuing this command (see tpPathMoveTo).'' s)
      else
        let c = the (tpGLCurrentContour (st_path s))
        in tpGLContourAddSegment c h1x h1y px py px py
             (setLastHandleOut c (tpVec2Make h0x h0y) s))"

definition tpPathQuadraticCurveTo ::
  "real \<Rightarrow> real \<Rightarrow> real \<Rightarrow> real \<Rightarrow> tpState \<Rightarrow> bool \<times> tpState" where
  "tpPathQuadraticCurveTo hx hy px py s =
     (if noContourStarted (st_path s)
      then (True, tpGLSetErrorMessage
              ''You have to start a contour before issuing this command (see tpPathMoveTo).'' s)
      else
        let c = the (tpGLCurrentContour (st_path s))
        in tpGLContourAddSegment c hx hy px py px py
             (setLastHandleOut c (tpVec2Make hx hy) s))"

definition tpPathClose :: "tpState \<Rightarrow> bool \<times> tpState" where
  "tpPathClose s =
     (let p = st_path s in
      case tpGLCurrentContour p of
        None \<Rightarrow>
          (False, tpGLSetErrorMessage
             ''tpPathClose failed because the path has no contour or the current contour is empty.'' s)
      | Some c \<Rightarrow>
          if length (segments (contours p ! c)) > 1
          then (False,
                s\<lparr> st_path :=
                     p\<lparr> contours := (contours p)[c := (contours p ! c)\<lparr>bIsClosed := True, bDirty := True\<rparr>],
                        currentContourIndex := - 1,
                        bPathGeometryDirty := True \<rparr> \<rparr>)
          else
            (False, tpGLSetErrorMessage
               ''tpPathClose failed because the path has no contour or the current contour is empty.'' s))"

subsection \<open>The SVG arc command\<close>

text \<open>
  \<^verbatim>\<open>#define TARP_PI 3.14159265358979323846f\<close>: the float nearest to that decimal, which is
  \<open>13176795 / 2\<^sup>2\<^sup>2\<close>.
\<close>

definition TARP_PI :: real where
  "TARP_PI = 13176795 / 4194304"

definition TARP_HALF_PI :: real where
  "TARP_HALF_PI = TARP_PI * 0.5"

definition nsvg_sqr :: "real \<Rightarrow> real" where
  "nsvg_sqr a = a * a"

definition nsvg_vmag :: "real \<Rightarrow> real \<Rightarrow> real" where
  "nsvg_vmag a b = sqrt (a * a + b * b)"

definition nsvg_vecrat :: "real \<Rightarrow> real \<Rightarrow> real \<Rightarrow> real \<Rightarrow> real" where
  "nsvg_vecrat ux uy wx wy = (ux * wx + uy * wy) / (nsvg_vmag ux uy * nsvg_vmag wx wy)"

definition nsvg_vecang :: "real \<Rightarrow> real \<Rightarrow> real \<Rightarrow> real \<Rightarrow> real" where
  "nsvg_vecang ux uy wx wy =
     (let r0 = nsvg_vecrat ux uy wx wy;
          r1 = (if r0 < - 1 then - 1 else r0);
          r2 = (if r1 > 1 then 1 else r1)
      in (if ux * wy < uy * wx then - 1 else 1) * arccos r2)"

text \<open>
  The loop of \<^verbatim>\<open>tpPathArcTo\<close> over the end points \<open>i = 0, ..., ndivs\<close>.  The matrix
  \<^verbatim>\<open>t[6]\<close> is \<open>(cosrx, sinrx, -sinrx, cosrx, cx, cy)\<close>; \<open>prev\<close> holds
  \<open>(px, py, ptanx, ptany)\<close>.
\<close>

fun arcToLoop ::
  "nat list \<Rightarrow> nat \<Rightarrow> real \<Rightarrow> real \<Rightarrow> real \<Rightarrow> real \<Rightarrow> real \<Rightarrow> real \<Rightarrow> real \<Rightarrow> real \<Rightarrow> real \<Rightarrow>
   real \<times> real \<times> real \<times> real \<Rightarrow> tpState \<Rightarrow> bool \<times> tpState" where
  "arcToLoop [] ndivs a1 da rx ry kappa cosrx sinrx cx cy prev s = (False, s)"
| "arcToLoop (i # rest) ndivs a1 da rx ry kappa cosrx sinrx cx cy prev s =
     (let a = a1 + da * (real i / real ndivs);
          dx = cos a;
          dy = sin a;
          px' = (dx * rx) * cosrx + (dy * ry) * (- sinrx) + cx;
          py' = (dx * rx) * sinrx + (dy * ry) * cosrx + cy;
          tanx = (- dy * rx * kappa) * cosrx + (dx * ry * kappa) * (- sinrx);
          tany = (- dy * rx * kappa) * sinrx + (dx * ry * kappa) * cosrx
      in case prev of (px, py, ptanx, ptany) \<Rightarrow>
           if i > 0
           then (case tpPathCubicCurveTo (px + ptanx) (py + ptany) (px' - tanx) (py' - tany) px' py' s of
                   (ret, s') \<Rightarrow>
                     if ret then (ret, s')
                     else arcToLoop rest ndivs a1 da rx ry kappa cosrx sinrx cx cy
                            (px', py', tanx, tany) s')
           else arcToLoop rest ndivs a1 da rx ry kappa cosrx sinrx cx cy (px', py', tanx, tany) s)"

definition tpPathArcTo ::
  "real \<Rightarrow> real \<Rightarrow> real \<Rightarrow> real \<Rightarrow> real \<Rightarrow> real \<Rightarrow> real \<Rightarrow> tpState \<Rightarrow> bool \<times> tpState" where
  "tpPathArcTo rx0 ry0 rotx0 fl swfl ex ey s =
     (if noContourStarted (st_path s)
      then (True, tpGLSetErrorMessage
              ''You have to start a contour before issuing this command (see tpPathArcTo).'' s)
      else
        let c = contours (st_path s) ! the (tpGLCurrentContour (st_path s));
            rotx = rotx0 / 180 * 3.14;
            fa = (if \<bar>fl\<bar> > 1 / 10 ^ 6 then 1 else 0 :: int);
            fs = (if \<bar>swfl\<bar> > 1 / 10 ^ 6 then 1 else 0 :: int);
            x1 = vx (position (segments c ! nat (lastSegmentIndex c)));
            y1 = vy (position (segments c ! nat (lastSegmentIndex c)));
            x2 = ex;
            y2 = ey;
            dx = x1 - x2;
            dy = y1 - y2;
            d = sqrt (dx * dx + dy * dy)
        in if d < 1 / 10 ^ 6 \<or> rx0 < 1 / 10 ^ 6 \<or> ry0 < 1 / 10 ^ 6
           then tpPathLineTo x2 y2 s
           else
             let sinrx = sin rotx;
                 cosrx = cos rotx;
                 x1p = cosrx * dx / 2 + sinrx * dy / 2;
                 y1p = - sinrx * dx / 2 + cosrx * dy / 2;
                 d1 = nsvg_sqr x1p / nsvg_sqr rx0 + nsvg_sqr y1p / nsvg_sqr ry0;
                 rx = (if d1 > 1 then rx0 * sqrt d1 else rx0);
                 ry = (if d1 > 1 then ry0 * sqrt d1 else ry0);
                 sa0 = nsvg_sqr rx * nsvg_sqr ry - nsvg_sqr rx * nsvg_sqr y1p
                         - nsvg_sqr ry * nsvg_sqr x1p;
                 sb = nsvg_sqr rx * nsvg_sqr y1p + nsvg_sqr ry * nsvg_sqr x1p;
                 sa = (if sa0 < 0 then 0 else sa0);
                 s0 = (if sb > 0 then sqrt (sa / sb) else 0);
                 s1 = (if fa = fs then - s0 else s0);
                 cxp = s1 * rx * y1p / ry;
                 cyp = s1 * - ry * x1p / rx;
                 cx = (x1 + x2) / 2 + cosrx * cxp - sinrx * cyp;
                 cy = (y1 + y2) / 2 + sinrx * cxp + cosrx * cyp;
                 ux = (x1p - cxp) / rx;
                 uy = (y1p - cyp) / ry;
                 wx = (- x1p - cxp) / rx;
                 wy = (- y1p - cyp) / ry;
                 a1 = nsvg_vecang 1 0 ux uy;
                 da0 = nsvg_vecang ux uy wx wy;
                 da = (if fs = 0 \<and> da0 > 0 then da0 - 2 * TARP_PI
                       else if fs = 1 \<and> da0 < 0 then da0 + 2 * TARP_PI else da0);
                 ndivs = nat \<lfloor>\<bar>da\<bar> / TARP_HALF_PI + 1\<rfloor>;
                 hda = (da / real ndivs) / 2;
                 kappa0 = \<bar>4 / 3 * (1 - cos hda) / sin hda\<bar>;
                 kappa = (if da < 0 then - kappa0 else kappa0)
             in arcToLoop [0 ..< ndivs + 1] ndivs a1 da rx ry kappa cosrx sinrx cx cy (0, 0, 0, 0) s)"

section \<open>Curves and the flattener\<close>

definition TARP_MIN :: "real \<Rightarrow> real \<Rightarrow> real" where
  "TARP_MIN a b = (if a < b then a else b)"

definition TARP_MAX :: "real \<Rightarrow> real \<Rightarrow> real" where
  "TARP_MAX a b = (if a > b then a else b)"

definition TARP_MAX_CURVE_SUBDIVISIONS :: nat where
  "TARP_MAX_CURVE_SUBDIVISIONS = 16"

text \<open>The constants of \<^verbatim>\<open>float.h\<close> for an IEEE single.\<close>

definition FLT_EPSILON :: real where
  "FLT_EPSILON = 1 / 2 ^ 23"

definition FLT_MAX :: real where
  "FLT_MAX = (2 - 1 / 2 ^ 23) * 2 ^ 127"

record tpGLRect =
  rect_min :: tpVec2
  rect_max :: tpVec2

datatype tpGLCurve = Curve (c_p0: tpVec2) (c_h0: tpVec2) (c_h1: tpVec2) (c_p1: tpVec2)

record tpGLCurvePair =
  cp_first :: tpGLCurve
  cp_second :: tpGLCurve

definition tpGLIsClose :: "real \<Rightarrow> real \<Rightarrow> real \<Rightarrow> bool" where
  "tpGLIsClose a b epsilon =
     (let maxXYOne = TARP_MAX 1 (TARP_MAX \<bar>a\<bar> \<bar>b\<bar>) in \<bar>a - b\<bar> \<le> epsilon * maxXYOne)"

definition tpGLIsCurveLinear :: "tpGLCurve \<Rightarrow> bool" where
  "tpGLIsCurveLinear curve \<longleftrightarrow>
     tpGLIsClose (vx (c_p0 curve)) (vx (c_h0 curve)) FLT_EPSILON \<and>
     tpGLIsClose (vy (c_p0 curve)) (vy (c_h0 curve)) FLT_EPSILON \<and>
     tpGLIsClose (vx (c_p1 curve)) (vx (c_h1 curve)) FLT_EPSILON \<and>
     tpGLIsClose (vy (c_p1 curve)) (vy (c_h1 curve)) FLT_EPSILON"

definition tpGLIsCurveFlatEnough :: "tpGLCurve \<Rightarrow> real \<Rightarrow> bool" where
  "tpGLIsCurveFlatEnough curve tolerance =
     (if tpGLIsCurveLinear curve then True
      else
        let ux = vx (c_h0 curve) * 3 - vx (c_p0 curve) * 2 - vx (c_p1 curve);
            uy = vy (c_h0 curve) * 3 - vy (c_p0 curve) * 2 - vy (c_p1 curve);
            wx = vx (c_h1 curve) * 3 - vx (c_p1 curve) * 2 - vx (c_p0 curve);
            wy = vy (c_h1 curve) * 3 - vy (c_p1 curve) * 2 - vy (c_p0 curve)
        in TARP_MAX (ux * ux) (wx * wx) + TARP_MAX (uy * uy) (wy * wy)
             < 10 * tolerance * tolerance)"

definition tpGLSubdivideCurve :: "tpGLCurve \<Rightarrow> real \<Rightarrow> tpGLCurvePair" where
  "tpGLSubdivideCurve curve s =
     (let p0h0 = tpVec2Lerp (c_p0 curve) (c_h0 curve) s;
          h0h1 = tpVec2Lerp (c_h0 curve) (c_h1 curve) s;
          h1p1 = tpVec2Lerp (c_h1 curve) (c_p1 curve) s;
          p0h0h1 = tpVec2Lerp p0h0 h0h1 s;
          h0h1p1 = tpVec2Lerp h0h1 h1p1 s;
          p0h0h1p1 = tpVec2Lerp p0h0h1 h0h1p1 s
      in \<lparr> cp_first = Curve (c_p0 curve) p0h0 p0h0h1 p0h0h1p1,
           cp_second = Curve p0h0h1p1 h0h1p1 h1p1 (c_p1 curve) \<rparr>)"

definition tpGLEvaluatePointForBounds :: "tpVec2 \<Rightarrow> tpGLRect \<Rightarrow> tpGLRect" where
  "tpGLEvaluatePointForBounds vec bounds =
     \<lparr> rect_min = tpVec2Make (TARP_MIN (vx vec) (vx (rect_min bounds)))
                             (TARP_MIN (vy vec) (vy (rect_min bounds))),
       rect_max = tpVec2Make (TARP_MAX (vx vec) (vx (rect_max bounds)))
                             (TARP_MAX (vy vec) (vy (rect_max bounds))) \<rparr>"

definition tpGLInitBounds :: tpGLRect where
  "tpGLInitBounds =
     \<lparr> rect_min = tpVec2Make FLT_MAX FLT_MAX, rect_max = tpVec2Make (- FLT_MAX) (- FLT_MAX) \<rparr>"

definition tpGLMergeBounds :: "tpGLRect \<Rightarrow> tpGLRect \<Rightarrow> tpGLRect" where
  "tpGLMergeBounds a b =
     tpGLEvaluatePointForBounds (rect_max b) (tpGLEvaluatePointForBounds (rect_min b) a)"

text \<open>
  The output parameters of \<^verbatim>\<open>_tpGLFlattenCurve\<close>: the vertex array, the parallel array of
  joint flags, the bounds and the vertex counter.  The results of the array appends are not
  looked at by the C code.
\<close>

record flattenOut =
  fo_vertices :: "tpVec2 list"
  fo_joints :: "bool list"
  fo_bounds :: tpGLRect
  fo_vertexCount :: int

text \<open>
  The loop state of \<^verbatim>\<open>_tpGLFlattenCurve\<close>.  \<open>fs_stack\<close> lists the live entries
  \<^verbatim>\<open>stack[stackIndex], ..., stack[0]\<close> of the C array, the current frame first, so that
  \<^verbatim>\<open>stackIndex\<close> is the length of its tail and the loop runs while the list is not empty.
\<close>

record flattenState =
  fs_stack :: "tpGLCurve list"
  fs_bFirstCurve :: bool
  fs_out :: flattenOut

definition flattenStep :: "tpGLCurve \<Rightarrow> real \<Rightarrow> bool \<Rightarrow> bool \<Rightarrow> flattenState \<Rightarrow> flattenState" where
  "flattenStep curve angleTolerance isClosed lastCurve s =
     (case fs_stack s of
        [] \<Rightarrow> s
      | current # rest \<Rightarrow>
          if length rest < TARP_MAX_CURVE_SUBDIVISIONS - 1 \<and>
             \<not> tpGLIsCurveFlatEnough current angleTolerance
          then
            let cp = tpGLSubdivideCurve current 0.5
            in s\<lparr> fs_stack := cp_first cp # cp_second cp # rest \<rparr>
          else
            let out = fs_out s in
            if fs_bFirstCurve s
            then
              s\<lparr> fs_stack := rest,
                 fs_bFirstCurve := False,
                 fs_out :=
                   \<lparr> fo_vertices = fo_vertices out @ [c_p0 current, c_p1 current],
                     fo_joints = fo_joints out @
                       [False, tpVec2Equals (c_p1 current) (c_p1 curve) \<and> \<not> lastCurve],
                     fo_bounds = tpGLEvaluatePointForBounds (c_p1 current)
                                   (tpGLEvaluatePointForBounds (c_p0 current) (fo_bounds out)),
                     fo_vertexCount = fo_vertexCount out + 2 \<rparr> \<rparr>
            else
              s\<lparr> fs_stack := rest,
                 fs_out :=
                   \<lparr> fo_vertices = fo_vertices out @ [c_p1 current],
                     fo_joints = fo_joints out @
                       [if isClosed then tpVec2Equals (c_p1 current) (c_p1 curve)
                        else tpVec2Equals (c_p1 current) (c_p1 curve) \<and> \<not> lastCurve],
                     fo_bounds = tpGLEvaluatePointForBounds (c_p1 current) (fo_bounds out),
                     fo_vertexCount = fo_vertexCount out + 1 \<rparr> \<rparr>)"

definition flattenInit :: "tpGLCurve \<Rightarrow> bool \<Rightarrow> flattenOut \<Rightarrow> flattenState" where
  "flattenInit curve firstCurve out =
     \<lparr> fs_stack = [curve], fs_bFirstCurve = firstCurve, fs_out = out \<rparr>"

text \<open>
  \<^verbatim>\<open>_tpGLFlattenCurve\<close>: \<^verbatim>\<open>while (stackIndex >= 0)\<close>.  The result is \<open>None\<close> when the loop
  does not end.
\<close>

definition tpGLFlattenCurve ::
  "tpGLCurve \<Rightarrow> real \<Rightarrow> bool \<Rightarrow> bool \<Rightarrow> bool \<Rightarrow> flattenOut \<Rightarrow> flattenOut option" where
  "tpGLFlattenCurve curve angleTolerance isClosed firstCurve lastCurve out =
     map_option fs_out
       (while_option (\<lambda>s. fs_stack s \<noteq> [])
          (flattenStep curve angleTolerance isClosed lastCurve)
          (flattenInit curve firstCurve out))"

text \<open>The cubic between two consecutive segments, as \<^verbatim>\<open>_tpGLFlattenContour\<close> builds it.\<close>

definition segmentCurve :: "tpSegment \<Rightarrow> tpSegment \<Rightarrow> tpGLCurve" where
  "segmentCurve l c =
     Curve (tpVec2Make (vx (position l)) (vy (position l)))
           (tpVec2Make (vx (handleOut l)) (vy (handleOut l)))
           (tpVec2Make (vx (handleIn c)) (vy (handleIn c)))
           (tpVec2Make (vx (position c)) (vy (position c)))"

text \<open>
  The curve that \<^verbatim>\<open>_tpGLFlattenContour\<close> flattens for the segments \<open>l\<close> (\<^verbatim>\<open>last\<close>) and
  \<open>current\<close> in its loop \<^verbatim>\<open>for (j = 1; j < count; ++j)\<close>, together with the new value of the
  local \<^verbatim>\<open>lastTransformedPos\<close>.  \<open>isFirst\<close> is \<^verbatim>\<open>j == 1\<close>; \<open>ltp\<close> is
  \<^verbatim>\<open>lastTransformedPos\<close>, \<open>None\<close> as long as it is uninitialised.  Reading it uninitialised
  gives \<open>None\<close>.
\<close>

definition loopCurve ::
  "tpTransform option \<Rightarrow> bool \<Rightarrow> tpSegment \<Rightarrow> tpVec2 option \<Rightarrow> tpSegment \<Rightarrow>
   (tpGLCurve \<times> tpVec2 option) option" where
  "loopCurve tr isFirst l ltp current =
     (case tr of
        None \<Rightarrow> Some (segmentCurve l current, ltp)
      | Some T \<Rightarrow>
          (case (if \<not> isFirst then ltp
                 else Some (tpTransformApply T (c_p0 (segmentCurve l current)))) of
             None \<Rightarrow> None
           | Some q0 \<Rightarrow>
               let q1 = tpTransformApply T (c_p1 (segmentCurve l current))
               in Some (Curve q0 (tpTransformApply T (c_h0 (segmentCurve l current)))
                                (tpTransformApply T (c_h1 (segmentCurve l current))) q1,
                        Some q1)))"

text \<open>
  The loop itself.  The result is \<open>None\<close> when \<^verbatim>\<open>lastTransformedPos\<close> is read uninitialised
  or a flattening loop does not end.
\<close>

fun flattenSegments ::
  "real \<Rightarrow> bool \<Rightarrow> tpTransform option \<Rightarrow> bool \<Rightarrow> tpSegment \<Rightarrow> tpVec2 option \<Rightarrow>
   tpSegment list \<Rightarrow> flattenOut \<Rightarrow> (tpSegment \<times> tpVec2 option \<times> flattenOut) option" where
  "flattenSegments tol isClosed tr isFirst l ltp [] out = Some (l, ltp, out)"
| "flattenSegments tol isClosed tr isFirst l ltp (current # rest) out =
     (case loopCurve tr isFirst l ltp current of
        None \<Rightarrow> None
      | Some (curve, ltp') \<Rightarrow>
          (case tpGLFlattenCurve curve tol isClosed isFirst False out of
             None \<Rightarrow> None
           | Some out' \<Rightarrow> flattenSegments tol isClosed tr False current ltp' rest out'))"

text \<open>The closing curve from the last segment \<open>l\<close> back to the first segment \<open>s0\<close>.\<close>

definition closingCurve ::
  "tpTransform option \<Rightarrow> tpSegment \<Rightarrow> tpVec2 option \<Rightarrow> tpSegment \<Rightarrow> tpGLCurve option" where
  "closingCurve tr l ltp s0 =
     (case tr of
        None \<Rightarrow> Some (segmentCurve l s0)
      | Some T \<Rightarrow>
          (case ltp of
             None \<Rightarrow> None
           | Some q0 \<Rightarrow>
               Some (Curve q0
                       (tpTransformApply T (c_h0 (segmentCurve l s0)))
                       (tpTransformApply T (c_h1 (segmentCurve l s0)))
                       (tpTransformApply T (c_p1 (segmentCurve l s0))))))"

record tpGLRenderCacheContour =
  fillVertexOffset :: int
  fillVertexCount :: int
  strokeVertexOffset :: int
  strokeVertexCount :: int
  rc_bIsClosed :: bool

text \<open>
  What \<^verbatim>\<open>_tpGLFlattenContour\<close> leaves behind: the two output arrays, the merged bounds, the
  render contour written to \<^verbatim>\<open>*_outContour\<close> and the bounds stored in the contour.  The
  stroke fields of the local \<^verbatim>\<open>renderContour\<close> are not initialised by the C function (the
  stroker writes them before they are read); they are \<open>0\<close> here.
\<close>

record flattenResult =
  fr_vertices :: "tpVec2 list"
  fr_joints :: "bool list"
  fr_mergeBounds :: tpGLRect
  fr_outContour :: tpGLRenderCacheContour
  fr_contourBounds :: tpGLRect

text \<open>The end of \<^verbatim>\<open>_tpGLFlattenContour\<close>, from \<^verbatim>\<open>renderContour.fillVertexOffset = off\<close> on.\<close>

definition finishFlatten ::
  "tpVec2 list \<Rightarrow> tpGLRect \<Rightarrow> bool \<Rightarrow> flattenOut \<Rightarrow> flattenResult" where
  "finishFlatten outVertices mergeBounds isClosed out =
     \<lparr> fr_vertices = fo_vertices out, fr_joints = fo_joints out,
       fr_mergeBounds = tpGLMergeBounds mergeBounds (fo_bounds out),
       fr_outContour =
         \<lparr> fillVertexOffset = int (length outVertices), fillVertexCount = fo_vertexCount out,
           strokeVertexOffset = 0, strokeVertexCount = 0, rc_bIsClosed = isClosed \<rparr>,
       fr_contourBounds = fo_bounds out \<rparr>"

text \<open>
  \<^verbatim>\<open>_tpGLFlattenContour\<close>, for the segments and the closed flag of the contour.  The arguments
  \<open>outVertices\<close> and \<open>outJoints\<close> are the two arrays on entry (\<^verbatim>\<open>off\<close> is the length of the
  first).
\<close>

definition tpGLFlattenContour ::
  "tpSegment list \<Rightarrow> bool \<Rightarrow> real \<Rightarrow> tpTransform option \<Rightarrow> tpVec2 list \<Rightarrow> bool list \<Rightarrow>
   tpGLRect \<Rightarrow> flattenResult option" where
  "tpGLFlattenContour segs isClosed angleTolerance tr outVertices outJoints mergeBounds =
     (case segs of
        [] \<Rightarrow>
          Some (finishFlatten outVertices mergeBounds isClosed
                  \<lparr> fo_vertices = outVertices, fo_joints = outJoints,
                    fo_bounds = tpGLInitBounds, fo_vertexCount = 0 \<rparr>)
      | s0 # rest \<Rightarrow>
          (case flattenSegments angleTolerance isClosed tr True s0 None rest
                  \<lparr> fo_vertices = outVertices, fo_joints = outJoints,
                    fo_bounds = tpGLInitBounds, fo_vertexCount = 0 \<rparr> of
             None \<Rightarrow> None
           | Some (l, ltp, out1) \<Rightarrow>
               if isClosed \<and>
                  tpVec2Distance (position s0) (position (last (s0 # rest))) > FLT_EPSILON
               then
                 (case closingCurve tr l ltp s0 of
                    None \<Rightarrow> None
                  | Some curve \<Rightarrow>
                      (case tpGLFlattenCurve curve angleTolerance isClosed False True out1 of
                         None \<Rightarrow> None
                       | Some out2 \<Rightarrow>
                           Some (finishFlatten outVertices mergeBounds isClosed out2)))
               else Some (finishFlatten outVertices mergeBounds isClosed out1)))"

text \<open>
  The point of a cubic at parameter \<open>s\<close>, read off de Casteljau's scheme as
  \<^verbatim>\<open>_tpGLSubdivideCurve\<close> computes it: the point where the two halves meet.
\<close>

definition curvePointAt :: "tpGLCurve \<Rightarrow> real \<Rightarrow> tpVec2" where
  "curvePointAt curve s = c_p1 (cp_first (tpGLSubdivideCurve curve s))"

text \<open>
  The quadratic Bezier curve with end points \<open>a\<close>, \<open>b\<close> and control point \<open>h\<close>, as the
  documentation of \<^verbatim>\<open>tpPathQuadraticCurveTo\<close> names it:
  \<open>(1 - s)\<^sup>2 a + 2 (1 - s) s h + s\<^sup>2 b\<close>.
\<close>

definition quadraticBezierPoint :: "tpVec2 \<Rightarrow> tpVec2 \<Rightarrow> tpVec2 \<Rightarrow> real \<Rightarrow> tpVec2" where
  "quadraticBezierPoint a h b s =
     tpVec2Add (tpVec2Add (tpVec2MultScalar a ((1 - s) * (1 - s)))
                          (tpVec2MultScalar h (2 * (1 - s) * s)))
               (tpVec2MultScalar b (s * s))"

definition freshState :: tpState where
  "freshState = \<lparr> st_path = tpPathCreate, st_error = [], st_allocFails = False \<rparr>"

section \<open>The clipping stack\<close>

definition kTpGLFillRasterStencilPlane :: int where
  "kTpGLFillRasterStencilPlane = 31"

definition kTpGLClippingStencilPlaneOne :: int where
  "kTpGLClippingStencilPlaneOne = 32"

definition kTpGLClippingStencilPlaneTwo :: int where
  "kTpGLClippingStencilPlaneTwo = 64"

definition kTpGLStrokeRasterStencilPlane :: int where
  "kTpGLStrokeRasterStencilPlane = 128"

definition TARP_GL_MAX_CLIPPING_STACK_DEPTH :: nat where
  "TARP_GL_MAX_CLIPPING_STACK_DEPTH = 64"

datatype tpFillRule = kTpFillRuleEvenOdd | kTpFillRuleNonZero

text \<open>
  A render cache on the clipping stack is named by a number.  The commands sent to the GL are
  kept as a log; the stencil and draw commands that \<^verbatim>\<open>_tpGLDrawRenderCacheImpl\<close> issues for
  one cache are one entry of it.
\<close>

type_synonym renderCacheRef = nat

datatype glCommand =
    GlStencilMask int
  | GlClearStencil int
  | GlClearStencilBuffer
  | GlDrawRenderCache renderCacheRef bool

text \<open>
  The fields of \<^verbatim>\<open>_tpGLContext\<close> that the clipping functions read and write.
  \<open>clippingStack\<close> is the C array of \<^verbatim>\<open>TARP_GL_MAX_CLIPPING_STACK_DEPTH\<close> entries.
\<close>

record tpGLContext =
  clippingStack :: "renderCacheRef list"
  clippingStackDepth :: int
  currentClipStencilPlane :: int
  bCanSwapStencilPlanes :: bool
  clippingStyleFillRule :: tpFillRule
  glLog :: "glCommand list"

definition glDo :: "glCommand list \<Rightarrow> tpGLContext \<Rightarrow> tpGLContext" where
  "glDo cmds ctx = ctx\<lparr> glLog := glLog ctx @ cmds \<rparr>"

text \<open>
  The clipping state that \<^verbatim>\<open>tpContextCreate\<close> and \<^verbatim>\<open>tpPrepareDrawing\<close> set up.
\<close>

definition tpPrepareDrawing :: "tpGLContext \<Rightarrow> tpGLContext" where
  "tpPrepareDrawing ctx =
     (glDo [GlStencilMask 255, GlClearStencil 0, GlClearStencilBuffer] ctx)
       \<lparr> bCanSwapStencilPlanes := True,
         currentClipStencilPlane := kTpGLClippingStencilPlaneOne,
         clippingStackDepth := 0 \<rparr>"

definition contextCreate :: tpGLContext where
  "contextCreate =
     \<lparr> clippingStack = replicate TARP_GL_MAX_CLIPPING_STACK_DEPTH 0,
       clippingStackDepth = 0,
       currentClipStencilPlane = kTpGLClippingStencilPlaneOne,
       bCanSwapStencilPlanes = True,
       clippingStyleFillRule = kTpFillRuleEvenOdd,
       glLog = [] \<rparr>"

text \<open>
  \<^verbatim>\<open>_tpGLDrawRenderCacheImpl\<close> returns \<^verbatim>\<open>tpFalse\<close> on each of its paths, and writes none of
  the context fields above.
\<close>

definition tpGLDrawRenderCacheImpl ::
  "tpGLContext \<Rightarrow> renderCacheRef \<Rightarrow> bool \<Rightarrow> bool \<times> tpGLContext" where
  "tpGLDrawRenderCacheImpl ctx cache isClipPath =
     (False, glDo [GlDrawRenderCache cache isClipPath] ctx)"

definition flipPlane :: "int \<Rightarrow> int" where
  "flipPlane plane =
     (if plane = kTpGLClippingStencilPlaneOne then kTpGLClippingStencilPlaneTwo
      else kTpGLClippingStencilPlaneOne)"

text \<open>
  \<^verbatim>\<open>_tpGLGenerateClippingMaskForRenderCache\<close>.  The result is \<open>None\<close> when the store to
  \<^verbatim>\<open>clippingStack[clippingStackDepth++]\<close> falls outside the array.
\<close>

definition tpGLGenerateClippingMaskForRenderCache ::
  "tpGLContext \<Rightarrow> renderCacheRef \<Rightarrow> bool \<Rightarrow> (bool \<times> tpGLContext) option" where
  "tpGLGenerateClippingMaskForRenderCache ctx cache isRebuilding =
     (if \<not> isRebuilding \<and>
         \<not> (0 \<le> clippingStackDepth ctx \<and>
            clippingStackDepth ctx < int TARP_GL_MAX_CLIPPING_STACK_DEPTH)
      then None
      else
        let ctx1 = (if \<not> isRebuilding
                    then ctx\<lparr> clippingStack :=
                                 (clippingStack ctx)[nat (clippingStackDepth ctx) := cache],
                               clippingStackDepth := clippingStackDepth ctx + 1 \<rparr>
                    else ctx);
            ctx2 = glDo [GlStencilMask (currentClipStencilPlane ctx1), GlClearStencil (- 1),
                         GlClearStencilBuffer] ctx1
        in case tpGLDrawRenderCacheImpl ctx2 cache True of
             (drawResult, ctx3) \<Rightarrow>
               if drawResult then Some (True, ctx3)
               else Some (False,
                      ctx3\<lparr> currentClipStencilPlane :=
                               flipPlane (currentClipStencilPlane ctx3) \<rparr>))"

text \<open>
  \<^verbatim>\<open>_tpGLGenerateClippingMask\<close> first brings the path's internal render cache up to date
  (\<^verbatim>\<open>_tpGLUpdateInternalPathCache\<close>).  That call writes none of the context fields modelled
  here but \<open>clippingStyleFillRule\<close>; its outcome is the argument \<open>upd\<close>: whether it reported an
  error, and the path's render cache.
\<close>

definition tpGLGenerateClippingMask ::
  "tpGLContext \<Rightarrow> bool \<times> renderCacheRef \<Rightarrow> tpFillRule \<Rightarrow> (bool \<times> tpGLContext) option" where
  "tpGLGenerateClippingMask ctx upd fillRule =
     (let ctx1 = ctx\<lparr> clippingStyleFillRule := fillRule \<rparr>
      in if fst upd then Some (True, ctx1)
         else tpGLGenerateClippingMaskForRenderCache ctx1 (snd upd) False)"

definition tpBeginClippingWithFillRule ::
  "tpGLContext \<Rightarrow> bool \<times> renderCacheRef \<Rightarrow> tpFillRule \<Rightarrow> (bool \<times> tpGLContext) option" where
  "tpBeginClippingWithFillRule ctx upd rule = tpGLGenerateClippingMask ctx upd rule"

definition tpBeginClipping ::
  "tpGLContext \<Rightarrow> bool \<times> renderCacheRef \<Rightarrow> (bool \<times> tpGLContext) option" where
  "tpBeginClipping ctx upd = tpBeginClippingWithFillRule ctx upd kTpFillRuleEvenOdd"

definition tpBeginClippingFromRenderCache ::
  "tpGLContext \<Rightarrow> renderCacheRef \<Rightarrow> (bool \<times> tpGLContext) option" where
  "tpBeginClippingFromRenderCache ctx cache =
     tpGLGenerateClippingMaskForRenderCache ctx cache False"

text \<open>The rebuild loop of \<^verbatim>\<open>tpEndClipping\<close>; the results of the calls are not looked at.\<close>

fun rebuildClippingMasks :: "nat list \<Rightarrow> tpGLContext \<Rightarrow> tpGLContext option" where
  "rebuildClippingMasks [] ctx = Some ctx"
| "rebuildClippingMasks (i # rest) ctx =
     (case tpGLGenerateClippingMaskForRenderCache ctx (clippingStack ctx ! i) True of
        None \<Rightarrow> None
      | Some (r, ctx') \<Rightarrow> rebuildClippingMasks rest ctx')"

text \<open>\<^verbatim>\<open>tpEndClipping\<close>; \<open>None\<close> when \<^verbatim>\<open>assert(ctx->clippingStackDepth)\<close> fails.\<close>

definition tpEndClipping :: "tpGLContext \<Rightarrow> (bool \<times> tpGLContext) option" where
  "tpEndClipping ctx0 =
     (if clippingStackDepth ctx0 = 0 then None
      else
        let ctx = ctx0\<lparr> clippingStackDepth := clippingStackDepth ctx0 - 1 \<rparr>
        in if clippingStackDepth ctx \<noteq> 0
           then
             if bCanSwapStencilPlanes ctx
             then Some (False,
                    ctx\<lparr> currentClipStencilPlane := flipPlane (currentClipStencilPlane ctx),
                         bCanSwapStencilPlanes := False \<rparr>)
             else
               let ctx1 = glDo [GlStencilMask
                                  (kTpGLClippingStencilPlaneOne + kTpGLClippingStencilPlaneTwo),
                                GlClearStencil 0, GlClearStencilBuffer]
                            (ctx\<lparr> currentClipStencilPlane := kTpGLClippingStencilPlaneOne,
                                  bCanSwapStencilPlanes := True \<rparr>)
               in map_option (Pair False)
                    (rebuildClippingMasks [0 ..< nat (clippingStackDepth ctx1)] ctx1)
           else
             Some (False,
               glDo [GlStencilMask (kTpGLClippingStencilPlaneOne + kTpGLClippingStencilPlaneTwo),
                     GlClearStencil 0, GlClearStencilBuffer]
                 (ctx\<lparr> currentClipStencilPlane := kTpGLClippingStencilPlaneOne,
                       bCanSwapStencilPlanes := True \<rparr>)))"

section \<open>The start of the dash pattern\<close>

record tpGLDashStartState =
  startDashIndex :: int
  bStartDashOn :: bool
  startDashLen :: real

text \<open>
  What the C code does outside its defined behaviour is a value of the model: a read of
  \<^verbatim>\<open>dashArray[i]\<close> outside the \<^verbatim>\<open>dashCount\<close> entries, and \<^verbatim>\<open>fmod\<close> by zero (not a
  number).
\<close>

datatype dashError = DashArrayOutOfBounds int | FmodByZero

text \<open>
  \<^verbatim>\<open>fmod\<close> of the C library: \<open>a - n * b\<close>, where \<open>n\<close> is \<open>a / b\<close> with its fractional part
  cut off.
\<close>

definition c_fmod :: "real \<Rightarrow> real \<Rightarrow> real" where
  "c_fmod a b =
     a - b * of_int (if a / b \<ge> 0 then \<lfloor>a / b\<rfloor> else \<lceil>a / b\<rceil>)"

text \<open>
  \<^verbatim>\<open>while (startDashLen <= 0.0) { startDashLen += dashArray[startDashIndex]; startDashIndex++; }\<close>
\<close>

function dashForward :: "real list \<Rightarrow> int \<Rightarrow> real \<Rightarrow> dashError + int \<times> real" where
  "dashForward dashArray idx len =
     (if len \<le> 0
      then
        if 0 \<le> idx \<and> idx < int (length dashArray)
        then dashForward dashArray (idx + 1) (len + dashArray ! nat idx)
        else Inl (DashArrayOutOfBounds idx)
      else Inr (idx, len))"
  by pat_completeness auto
termination
  by (relation "measure (\<lambda>(dashArray, idx, len). nat (int (length dashArray) - idx))") auto

text \<open>
  \<^verbatim>\<open>while (startDashLen > 0.0f) { startDashIndex--; startDashLen -= dashArray[startDashIndex]; }\<close>
\<close>

function dashBackward :: "real list \<Rightarrow> int \<Rightarrow> real \<Rightarrow> dashError + int \<times> real" where
  "dashBackward dashArray idx len =
     (if len > 0
      then
        if 0 \<le> idx - 1 \<and> idx - 1 < int (length dashArray)
        then dashBackward dashArray (idx - 1) (len - dashArray ! nat (idx - 1))
        else Inl (DashArrayOutOfBounds (idx - 1))
      else Inr (idx, len))"
  by pat_completeness auto
termination
  by (relation "measure (\<lambda>(dashArray, idx, len). nat idx)") auto

definition readDash :: "real list \<Rightarrow> int \<Rightarrow> dashError + real" where
  "readDash dashArray idx =
     (if 0 \<le> idx \<and> idx < int (length dashArray) then Inr (dashArray ! nat idx)
      else Inl (DashArrayOutOfBounds idx))"

text \<open>
  The block of \<^verbatim>\<open>_tpGLStroke\<close> that computes the dash start state, entered when
  \<^verbatim>\<open>_style->dashCount\<close> is not zero; \<open>dashCount\<close> is the length of the dash array.
\<close>

definition dashStartState :: "real list \<Rightarrow> real \<Rightarrow> dashError + tpGLDashStartState" where
  "dashStartState dashArray dashOffset =
     (if dashOffset = 0
      then
        (case readDash dashArray 0 of
           Inl e \<Rightarrow> Inl e
         | Inr d \<Rightarrow> Inr \<lparr> startDashIndex = 0, bStartDashOn = True, startDashLen = d \<rparr>)
      else
        let patternLen = sum_list dashArray in
        case (if \<bar>dashOffset\<bar> \<ge> patternLen
              then (if patternLen = 0 then Inl FmodByZero
                    else Inr (c_fmod dashOffset patternLen))
              else Inr dashOffset) of
          Inl e \<Rightarrow> Inl e
        | Inr offsetIntoPattern \<Rightarrow>
            if dashOffset > 0
            then
              (case dashForward dashArray 0 (- offsetIntoPattern) of
                 Inl e \<Rightarrow> Inl e
               | Inr (idx, len) \<Rightarrow>
                   let idx' = (if 0 > idx - 1 then 0 else idx - 1)
                   in Inr \<lparr> startDashIndex = idx', bStartDashOn = (idx' mod 2 = 0),
                            startDashLen = len \<rparr>)
            else
              (case dashBackward dashArray (int (length dashArray)) (- offsetIntoPattern) of
                 Inl e \<Rightarrow> Inl e
               | Inr (idx, len) \<Rightarrow>
                   let idx' = (if 0 > idx then 0 else idx)
                   in case readDash dashArray idx' of
                        Inl e \<Rightarrow> Inl e
                      | Inr d \<Rightarrow>
                          Inr \<lparr> startDashIndex = idx', bStartDashOn = (idx' mod 2 = 0),
                                startDashLen = d + len \<rparr>))"

section \<open>Gradient colour stops\<close>

datatype tpColor = tpColorMake (col_r: real) (col_g: real) (col_b: real) (col_a: real)

record tpColorStop =
  color :: tpColor
  offset :: real

definition tpGLColorStopComp :: "tpColorStop \<Rightarrow> tpColorStop \<Rightarrow> int" where
  "tpGLColorStopComp a b = (if offset a < offset b then - 1 else 1)"

text \<open>
  The first loop of \<^verbatim>\<open>_tpGLFinalizeColorStops\<close> (``remove duplicates'') over the stops of the
  gradient: \<open>tmp\<close> is \<^verbatim>\<open>_ctx->tmpColorStops\<close>, \<open>hs\<close> and \<open>he\<close> are \<^verbatim>\<open>bHasStartStop\<close> and
  \<^verbatim>\<open>bHasEndStop\<close>.
\<close>

fun removeDuplicateStops ::
  "tpColorStop list \<Rightarrow> tpColorStop list \<Rightarrow> bool \<Rightarrow> bool \<Rightarrow> tpColorStop list \<times> bool \<times> bool" where
  "removeDuplicateStops [] tmp hs he = (tmp, hs, he)"
| "removeDuplicateStops (current # rest) tmp hs he =
     (let hs' = (if offset current = 0 then True else hs);
          he' = (if offset current = 0 then he else if offset current = 1 then True else he);
          bAdd = (offset current \<notin> set (map offset tmp))
      in removeDuplicateStops rest
           (if bAdd \<and> offset current \<ge> 0 \<and> offset current \<le> 1 then tmp @ [current] else tmp)
           hs' he')"

text \<open>
  \<^verbatim>\<open>qsort\<close> of the C library with the comparator \<^verbatim>\<open>_tpGLColorStopComp\<close>, as an insertion
  sort driven by that comparator.  The array sorted here holds no two stops of the same offset, so
  every sorting procedure returns the same array.
\<close>

fun qsortInsert :: "tpColorStop \<Rightarrow> tpColorStop list \<Rightarrow> tpColorStop list" where
  "qsortInsert a [] = [a]"
| "qsortInsert a (b # bs) =
     (if tpGLColorStopComp a b < 0 then a # b # bs else b # qsortInsert a bs)"

definition qsortStops :: "tpColorStop list \<Rightarrow> tpColorStop list" where
  "qsortStops stops = foldr qsortInsert stops []"

text \<open>
  \<^verbatim>\<open>_tpGLFinalizeColorStops\<close>, from the stops of the gradient to its stops afterwards.  \<open>None\<close>
  stands for the read of element \<open>0\<close> (and of the last element) of the empty
  \<^verbatim>\<open>tmpColorStops\<close>.
\<close>

definition tpGLFinalizeColorStops :: "tpColorStop list \<Rightarrow> tpColorStop list option" where
  "tpGLFinalizeColorStops stops =
     (if stops = [] then Some stops
      else
        case removeDuplicateStops stops [] False False of
          (tmp0, bHasStartStop, bHasEndStop) \<Rightarrow>
            let tmp = qsortStops tmp0 in
            if \<not> bHasStartStop \<or> \<not> bHasEndStop
            then
              if tmp = [] then None
              else
                Some ((if \<not> bHasStartStop then [\<lparr> color = color (tmp ! 0), offset = 0 \<rparr>] else [])
                      @ tmp @
                      (if \<not> bHasEndStop then [\<lparr> color = color (last tmp), offset = 1 \<rparr>] else []))
            else Some tmp)"

section \<open>Stroke geometry\<close>

datatype tpStrokeCap = kTpStrokeCapRound | kTpStrokeCapSquare | kTpStrokeCapButt

datatype tpStrokeJoin = kTpStrokeJoinMiter | kTpStrokeJoinRound | kTpStrokeJoinBevel

datatype tpPaintType = kTpPaintTypeNone | kTpPaintTypeColor | kTpPaintTypeGradient

text \<open>\<^verbatim>\<open>tpStyle\<close>; of a paint only its type is read by the functions modelled here.\<close>

record tpStyle =
  fillType :: tpPaintType
  strokeType :: tpPaintType
  strokeWidth :: real
  strokeCap :: tpStrokeCap
  strokeJoin :: tpStrokeJoin
  fillRule :: tpFillRule
  dashArray :: "real list"
  dashOffset :: real
  miterLimit :: real
  scaleStroke :: bool

text \<open>
  A stroke computation ends in one of three ways.  \<open>Some (Inr v)\<close>: it returns \<open>v\<close>.
  \<open>Some (Inl e)\<close>: it leaves the real numbers.  \<open>DivisionByZero\<close> is the division \<open>1 / 0\<close> of
  \<^verbatim>\<open>tpVec2NormalizeSelf\<close> on the zero vector, after which IEEE arithmetic multiplies
  \<open>0 * infinity\<close> and every coordinate computed from the result is not a number;
  \<open>UninitialisedRead\<close> is the read of a local variable that was never written.  \<open>None\<close>: a loop
  does not end.
\<close>

datatype strokeError = DivisionByZero | UninitialisedRead

type_synonym 'a strokeResult = "(strokeError + 'a) option"

definition strokeBind :: "'a strokeResult \<Rightarrow> ('a \<Rightarrow> 'b strokeResult) \<Rightarrow> 'b strokeResult" where
  "strokeBind r f = (case r of None \<Rightarrow> None | Some (Inl e) \<Rightarrow> Some (Inl e) | Some (Inr v) \<Rightarrow> f v)"

definition tpVec2NormalizeSelf :: "tpVec2 \<Rightarrow> strokeError + tpVec2" where
  "tpVec2NormalizeSelf vec =
     (if tpVec2Length vec = 0 then Inl DivisionByZero
      else let s = 1 / tpVec2Length vec in Inr (tpVec2Make (vx vec * s) (vy vec * s)))"

definition tpMat2Make :: "real \<Rightarrow> real \<Rightarrow> real \<Rightarrow> real \<Rightarrow> tpMat2" where
  "tpMat2Make a b c d = Mat2 a c b d"

definition tpMat2MakeRotation :: "real \<Rightarrow> tpMat2" where
  "tpMat2MakeRotation angle = tpMat2Make (cos angle) (- sin angle) (sin angle) (cos angle)"

definition tpGLPushTriangle :: "tpVec2 list \<Rightarrow> tpVec2 \<Rightarrow> tpVec2 \<Rightarrow> tpVec2 \<Rightarrow> tpVec2 list" where
  "tpGLPushTriangle vertices a b c = vertices @ [a, b, c]"

definition tpGLPushQuad ::
  "tpVec2 list \<Rightarrow> tpVec2 \<Rightarrow> tpVec2 \<Rightarrow> tpVec2 \<Rightarrow> tpVec2 \<Rightarrow> tpVec2 list" where
  "tpGLPushQuad vertices a b c d = vertices @ [a, b, c, c, d, a]"

text \<open>
  \<^verbatim>\<open>_tpGLMakeCircleSector\<close>: the \<^verbatim>\<open>for (;;)\<close> loop, entered with \<open>r\<close> rotated once; its
  state is \<open>(r, last, vertices)\<close>.
\<close>

definition circleSectorStep ::
  "tpMat2 \<Rightarrow> tpVec2 \<Rightarrow> tpVec2 \<times> tpVec2 \<times> tpVec2 list \<Rightarrow> tpVec2 \<times> tpVec2 \<times> tpVec2 list" where
  "circleSectorStep rot center st =
     (case st of (r, l, vertices) \<Rightarrow>
        let current = tpVec2Add center r
        in (tpMat2MultVec2 rot r, current, tpGLPushTriangle vertices center l current))"

definition tpGLMakeCircleSector ::
  "tpVec2 \<Rightarrow> tpVec2 \<Rightarrow> tpVec2 \<Rightarrow> tpVec2 list \<Rightarrow> tpVec2 list option" where
  "tpGLMakeCircleSector center r0 r1 outVertices =
     (let stepSize = TARP_PI / 16;
          rot = tpMat2MakeRotation stepSize
      in case while_option (\<lambda>(r, l, vertices). \<not> tpVec2Cross r r1 < 0)
                (circleSectorStep rot center)
                (tpMat2MultVec2 rot r0, tpVec2Add center r0, outVertices) of
           None \<Rightarrow> None
         | Some (r, l, vertices) \<Rightarrow>
             Some (tpGLPushTriangle vertices center l (tpVec2Add center r1)))"

definition tpGLMakeJoinBevel ::
  "tpVec2 \<Rightarrow> tpVec2 \<Rightarrow> tpVec2 \<Rightarrow> tpVec2 \<Rightarrow> real \<Rightarrow> tpVec2 list \<Rightarrow> tpVec2 list" where
  "tpGLMakeJoinBevel lePrev rePrev le re crs outVertices =
     tpGLPushTriangle outVertices lePrev (if crs < 0 then le else re) rePrev"

text \<open>
  \<^verbatim>\<open>_tpGLIntersectLines\<close>: \<open>None\<close> is the result \<^verbatim>\<open>tpFalse\<close>, which leaves
  \<^verbatim>\<open>*_outResult\<close> as it was.
\<close>

definition tpGLIntersectLines :: "tpVec2 \<Rightarrow> tpVec2 \<Rightarrow> tpVec2 \<Rightarrow> tpVec2 \<Rightarrow> tpVec2 option" where
  "tpGLIntersectLines q0 d0 q1 d1 =
     (let delta = tpVec2Sub q0 q1;
          crs = tpVec2Cross d0 d1
      in if crs = 0 then None
         else Some (tpVec2Add q0 (tpVec2MultScalar d0 (tpVec2Cross d1 delta / crs))))"

text \<open>
  \<^verbatim>\<open>_tpGLMakeJoinMiter\<close> does not look at the result of \<^verbatim>\<open>_tpGLIntersectLines\<close>: for
  parallel lines it pushes its uninitialised local \<^verbatim>\<open>intersection\<close>.
\<close>

definition tpGLMakeJoinMiter ::
  "tpVec2 \<Rightarrow> tpVec2 \<Rightarrow> tpVec2 \<Rightarrow> tpVec2 \<Rightarrow> tpVec2 \<Rightarrow> real \<Rightarrow> tpVec2 list \<Rightarrow> strokeError + tpVec2 list" where
  "tpGLMakeJoinMiter q e0 e1 dir0 dir1 crs outVertices =
     (case tpGLIntersectLines e0 dir0 e1 dir1 of
        None \<Rightarrow> Inl UninitialisedRead
      | Some intersection \<Rightarrow> Inr (tpGLPushQuad outVertices q e0 intersection e1))"

text \<open>
  \<^verbatim>\<open>_tpGLMakeJoin\<close>.  In the miter case \<^verbatim>\<open>miterLen = 1.0 / sin(theta / 2.0)\<close> is infinite
  when the sine is zero, and the test \<^verbatim>\<open>miterLen < _miterLimit\<close> then fails: the join falls
  back to a bevel.
\<close>

definition tpGLMakeJoin ::
  "tpStrokeJoin \<Rightarrow> tpVec2 \<Rightarrow> tpVec2 \<Rightarrow> tpVec2 \<Rightarrow> tpVec2 \<Rightarrow> tpVec2 \<Rightarrow> tpVec2 \<Rightarrow> tpVec2 \<Rightarrow> tpVec2 \<Rightarrow> tpVec2 \<Rightarrow>
   real \<Rightarrow> real \<Rightarrow> tpVec2 list \<Rightarrow> tpVec2 list strokeResult" where
  "tpGLMakeJoin type q dir0 dir1 perp0 perp1 lePrev rePrev le re crs mLimit outVertices =
     (case type of
        kTpStrokeJoinRound \<Rightarrow>
          map_option Inr
            (if crs < 0 then tpGLMakeCircleSector q perp0 perp1 outVertices
             else tpGLMakeCircleSector q (tpVec2Make (- vx perp1) (- vy perp1))
                    (tpVec2Make (- vx perp0) (- vy perp0)) outVertices)
      | kTpStrokeJoinMiter \<Rightarrow>
          let nperp0 = tpVec2Perp dir0;
              nperp1 = tpVec2Perp dir1;
              theta0 = arccos (tpVec2Dot nperp0 nperp1);
              theta = (if theta0 > TARP_HALF_PI then TARP_PI - theta0 else theta0)
          in if sin (theta / 2) \<noteq> 0 \<and> 1 / sin (theta / 2) < mLimit
             then
               Some (if crs < 0 then tpGLMakeJoinMiter q lePrev le dir0 dir1 crs outVertices
                     else tpGLMakeJoinMiter q rePrev re dir0 dir1 crs outVertices)
             else Some (Inr (tpGLMakeJoinBevel lePrev rePrev le re crs outVertices))
      | kTpStrokeJoinBevel \<Rightarrow>
          Some (Inr (tpGLMakeJoinBevel lePrev rePrev le re crs outVertices)))"

definition tpGLMakeCapSquare ::
  "tpVec2 \<Rightarrow> tpVec2 \<Rightarrow> tpVec2 \<Rightarrow> tpVec2 \<Rightarrow> tpVec2 list \<Rightarrow> tpVec2 list" where
  "tpGLMakeCapSquare q dir le re outVertices =
     tpGLPushQuad outVertices re (tpVec2Add re dir) (tpVec2Add le dir) le"

definition tpGLMakeCap ::
  "tpStrokeCap \<Rightarrow> tpVec2 \<Rightarrow> tpVec2 \<Rightarrow> tpVec2 \<Rightarrow> tpVec2 \<Rightarrow> tpVec2 \<Rightarrow> bool \<Rightarrow> tpVec2 list \<Rightarrow>
   tpVec2 list strokeResult" where
  "tpGLMakeCap type q dir perp le re bStart outVertices =
     (case type of
        kTpStrokeCapRound \<Rightarrow>
          map_option Inr
            (tpGLMakeCircleSector q perp (tpVec2Make (- vx perp) (- vy perp)) outVertices)
      | kTpStrokeCapSquare \<Rightarrow> Some (Inr (tpGLMakeCapSquare q dir le re outVertices))
      | kTpStrokeCapButt \<Rightarrow> Some (Inr outVertices))"

text \<open>
  The locals of \<^verbatim>\<open>_tpGLRenderCacheContourContinousStrokeGeometry\<close> that live across
  iterations of its loop.  None of them is read before the loop has written it (the
  \<open>Prev\<close> values are read from the second edge on, the \<open>first\<close> values at the last join of a
  closed contour), so their initial values, zero vectors here, do not matter.
\<close>

record strokeLocals =
  sl_perpPrev :: tpVec2
  sl_dirPrev :: tpVec2
  sl_lePrev :: tpVec2
  sl_rePrev :: tpVec2
  sl_firstDir :: tpVec2
  sl_firstPerp :: tpVec2
  sl_firstLe :: tpVec2
  sl_firstRe :: tpVec2

definition strokeLocalsInit :: strokeLocals where
  "strokeLocalsInit =
     \<lparr> sl_perpPrev = tpVec2Make 0 0, sl_dirPrev = tpVec2Make 0 0, sl_lePrev = tpVec2Make 0 0,
       sl_rePrev = tpVec2Make 0 0, sl_firstDir = tpVec2Make 0 0, sl_firstPerp = tpVec2Make 0 0,
       sl_firstLe = tpVec2Make 0 0, sl_firstRe = tpVec2Make 0 0 \<rparr>"

text \<open>
  One iteration of the loop, for the edge from vertex \<open>j\<close> to vertex \<open>j + 1\<close> of the vertex array,
  in three parts.  The fill vertices of the contour and the stroke vertices pushed here share
  the array: the reads go to the fill vertices, the pushes to the end.

  The first part, before the quad of the edge is pushed: the start cap of an open contour or
  the values cached for the last join of a closed one at the first edge, the join with the
  previous edge otherwise.
\<close>

definition strokeEdgeStart ::
  "tpGLRenderCacheContour \<Rightarrow> tpStyle \<Rightarrow> bool list \<Rightarrow> int \<Rightarrow> real \<Rightarrow> tpVec2 \<Rightarrow> tpVec2 \<Rightarrow> tpVec2 \<Rightarrow>
   tpVec2 \<Rightarrow> tpVec2 \<Rightarrow> strokeLocals \<times> tpVec2 list \<Rightarrow> (strokeLocals \<times> tpVec2 list) strokeResult" where
  "strokeEdgeStart contour style outJoints j halfSw q0 dir perp le0 re0 st =
     (case st of (loc, outVertices) \<Rightarrow>
        if j = fillVertexOffset contour
        then
          if \<not> rc_bIsClosed contour
          then
            let firstDir = tpVec2MultScalar dir (- 1 * halfSw);
                firstPerp = tpVec2Make (vy firstDir) (- vx firstDir)
            in strokeBind
                 (tpGLMakeCap (strokeCap style) q0 firstDir firstPerp le0 re0 True outVertices)
                 (\<lambda>vs. Some (Inr (loc\<lparr> sl_firstDir := firstDir,
                                          sl_firstPerp := firstPerp \<rparr>, vs)))
          else
            Some (Inr (loc\<lparr> sl_firstDir := dir, sl_firstPerp := perp,
                            sl_firstLe := le0, sl_firstRe := re0 \<rparr>, outVertices))
        else
          let crs = tpVec2Cross perp (sl_perpPrev loc)
          in strokeBind
               (if outJoints ! nat j
                then tpGLMakeJoin (strokeJoin style) q0 (sl_dirPrev loc) dir
                       (sl_perpPrev loc) perp (sl_lePrev loc) (sl_rePrev loc) le0 re0
                       crs (miterLimit style) outVertices
                else Some (Inr (tpGLMakeJoinBevel (sl_lePrev loc) (sl_rePrev loc)
                                  le0 re0 crs outVertices)))
               (\<lambda>vs. Some (Inr (loc, vs))))"

text \<open>
  The last part, after the quad of the edge has been pushed: at the last edge, the last join
  of a closed contour or the end cap.
\<close>

definition strokeEdgeEnd ::
  "tpGLRenderCacheContour \<Rightarrow> tpStyle \<Rightarrow> bool list \<Rightarrow> int \<Rightarrow> real \<Rightarrow> tpVec2 \<Rightarrow> tpVec2 \<Rightarrow> tpVec2 \<Rightarrow>
   tpVec2 \<Rightarrow> tpVec2 \<Rightarrow> strokeLocals \<times> tpVec2 list \<Rightarrow> (strokeLocals \<times> tpVec2 list) strokeResult" where
  "strokeEdgeEnd contour style outJoints j halfSw q1 dir perp le1 re1 st =
     (case st of (loc1, vs2) \<Rightarrow>
        if j = fillVertexOffset contour + fillVertexCount contour - 2 \<or>
           fillVertexCount contour = 2
        then
          if outJoints ! nat (j + 1) \<and> rc_bIsClosed contour
          then
            let crs = tpVec2Cross (sl_firstPerp loc1) perp
            in strokeBind
                 (tpGLMakeJoin (strokeJoin style) q1 dir (sl_firstDir loc1)
                    perp (sl_firstPerp loc1) le1 re1 (sl_firstLe loc1)
                    (sl_firstRe loc1) crs (miterLimit style) vs2)
                 (\<lambda>vs. Some (Inr (loc1, vs)))
          else
            let firstDir = tpVec2MultScalar dir halfSw
            in strokeBind
                 (tpGLMakeCap (strokeCap style) q1 firstDir perp le1 re1 False vs2)
                 (\<lambda>vs. Some (Inr (loc1\<lparr> sl_firstDir := firstDir \<rparr>, vs)))
        else Some (Inr (loc1, vs2)))"

text \<open>The whole iteration: the direction of the edge, its two sides, and the three parts.\<close>

definition strokeEdge ::
  "tpGLRenderCacheContour \<Rightarrow> tpStyle \<Rightarrow> bool list \<Rightarrow> int \<Rightarrow> strokeLocals \<times> tpVec2 list \<Rightarrow>
   (strokeLocals \<times> tpVec2 list) strokeResult" where
  "strokeEdge contour style outJoints j st =
     (case st of (loc, outVertices) \<Rightarrow>
      let halfSw = strokeWidth style * 0.5;
          q0 = outVertices ! nat j;
          q1 = outVertices ! nat (j + 1)
      in case tpVec2NormalizeSelf (tpVec2Sub q1 q0) of
           Inl e \<Rightarrow> Some (Inl e)
         | Inr dir \<Rightarrow>
             let perp = tpVec2Make (vy dir * halfSw) (- vx dir * halfSw);
                 le0 = tpVec2Add q0 perp;
                 re0 = tpVec2Sub q0 perp;
                 le1 = tpVec2Add q1 perp;
                 re1 = tpVec2Sub q1 perp
             in strokeBind
                  (strokeEdgeStart contour style outJoints j halfSw q0 dir perp le0 re0
                     (loc, outVertices))
                  (\<lambda>(loc1, vs1).
                     strokeBind
                       (strokeEdgeEnd contour style outJoints j halfSw q1 dir perp le1 re1
                          (loc1, tpGLPushQuad vs1 le1 le0 re0 re1))
                       (\<lambda>(loc2, vs3).
                          Some (Inr (loc2\<lparr> sl_perpPrev := perp, sl_dirPrev := dir,
                                           sl_lePrev := le1, sl_rePrev := re1 \<rparr>, vs3)))))"

fun strokeEdges ::
  "tpGLRenderCacheContour \<Rightarrow> tpStyle \<Rightarrow> bool list \<Rightarrow> int list \<Rightarrow> strokeLocals \<times> tpVec2 list \<Rightarrow>
   (strokeLocals \<times> tpVec2 list) strokeResult" where
  "strokeEdges contour style outJoints [] st = Some (Inr st)"
| "strokeEdges contour style outJoints (j # js) st =
     strokeBind (strokeEdge contour style outJoints j st)
       (strokeEdges contour style outJoints js)"

text \<open>
  \<^verbatim>\<open>_tpGLRenderCacheContourContinousStrokeGeometry\<close>: the contour with its stroke offset and
  count set, and the vertex array with the stroke triangles appended.
\<close>

definition tpGLRenderCacheContourContinousStrokeGeometry ::
  "tpGLRenderCacheContour \<Rightarrow> tpStyle \<Rightarrow> tpVec2 list \<Rightarrow> bool list \<Rightarrow>
   (tpGLRenderCacheContour \<times> tpVec2 list) strokeResult" where
  "tpGLRenderCacheContourContinousStrokeGeometry contour style outVertices outJoints =
     (let voff = int (length outVertices);
          contour1 = contour\<lparr> strokeVertexOffset := voff \<rparr>
      in if fillVertexCount contour1 \<le> 1
         then Some (Inr (contour1\<lparr> strokeVertexCount := 0 \<rparr>, outVertices))
         else
           strokeBind
             (strokeEdges contour1 style outJoints
                [fillVertexOffset contour1 ..
                 fillVertexOffset contour1 + fillVertexCount contour1 - 2]
                (strokeLocalsInit, outVertices))
             (\<lambda>(loc, vs).
                Some (Inr (contour1\<lparr> strokeVertexCount := int (length vs) - voff \<rparr>, vs))))"


text \<open>
  The axis-aligned bounding box of a list of points, accumulated as the flattener accumulates
  the fill bounds.
\<close>

definition boundsOfPoints :: "tpVec2 list \<Rightarrow> tpGLRect" where
  "boundsOfPoints vs = foldl (\<lambda>b v. tpGLEvaluatePointForBounds v b) tpGLInitBounds vs"





text \<open>
  The calls \<^verbatim>\<open>tpPathMoveTo(path, 0, 0); tpPathQuadraticCurveTo(path, 1, 1, 2, 0);\<close> on a new
  path.
\<close>

definition quadScenario :: "bool \<times> tpState" where
  "quadScenario = tpPathQuadraticCurveTo 1 1 2 0 (snd (tpPathMoveTo 0 0 freshState))"

text \<open>
  The sequence \<^verbatim>\<open>tpBeginClippingFromRenderCache(ctx, 1); tpBeginClippingFromRenderCache(ctx, 2);
  tpEndClipping(ctx); tpBeginClippingFromRenderCache(ctx, 3);\<close> on a new context.
\<close>

definition clipScenario :: "(bool \<times> tpGLContext) option" where
  "clipScenario =
     Option.bind (tpBeginClippingFromRenderCache contextCreate 1) (\<lambda>(r1, c1).
     Option.bind (tpBeginClippingFromRenderCache c1 2) (\<lambda>(r2, c2).
     Option.bind (tpEndClipping c2) (\<lambda>(r3, c3).
       tpBeginClippingFromRenderCache c3 3)))"

text \<open>
  The stops that pass the test \<^verbatim>\<open>current->offset >= 0 && current->offset <= 1\<close>, and among
  a list of stops the first one of the lowest and the first one of the highest offset.
\<close>

definition inRangeStops :: "tpColorStop list \<Rightarrow> tpColorStop list" where
  "inRangeStops stops = filter (\<lambda>s. 0 \<le> offset s \<and> offset s \<le> 1) stops"

definition lowestStop :: "tpColorStop list \<Rightarrow> tpColorStop" where
  "lowestStop stops = the (find (\<lambda>s. offset s = Min (set (map offset stops))) stops)"

definition highestStop :: "tpColorStop list \<Rightarrow> tpColorStop" where
  "highestStop stops = the (find (\<lambda>s. offset s = Max (set (map offset stops))) stops)"

text \<open>
  Measures for the termination of the flattening loop.  The spread of a curve is the largest
  coordinate distance between consecutive control points; bisecting a curve halves it at least,
  and a curve with a spread of at most \<^verbatim>\<open>FLT_EPSILON\<close> is linear.
\<close>

definition curveSpread :: "tpGLCurve \<Rightarrow> real" where
  "curveSpread c =
     max (max (max \<bar>vx (c_p0 c) - vx (c_h0 c)\<bar> \<bar>vy (c_p0 c) - vy (c_h0 c)\<bar>)
              (max \<bar>vx (c_h0 c) - vx (c_h1 c)\<bar> \<bar>vy (c_h0 c) - vy (c_h1 c)\<bar>))
         (max \<bar>vx (c_h1 c) - vx (c_p1 c)\<bar> \<bar>vy (c_h1 c) - vy (c_p1 c)\<bar>)"

definition curveRank :: "tpGLCurve \<Rightarrow> nat" where
  "curveRank c = (LEAST n. curveSpread c \<le> FLT_EPSILON * 2 ^ n)"

definition curveWeight :: "tpGLCurve \<Rightarrow> nat" where
  "curveWeight c = 2 ^ (curveRank c + 1) - 1"

definition stackMeasure :: "flattenState \<Rightarrow> nat" where
  "stackMeasure s = sum_list (map curveWeight (fs_stack s))"





text \<open>
  A cubic that is not flat at the tolerance \<open>3 / 20\<close> (an arch over the unit interval), and the
  empty output that a flattening call starts from.
\<close>

definition archCurve :: tpGLCurve where
  "archCurve = Curve (tpVec2Make 0 0) (tpVec2Make 0 1) (tpVec2Make 1 1) (tpVec2Make 1 0)"

definition emptyOut :: flattenOut where
  "emptyOut = \<lparr> fo_vertices = [], fo_joints = [], fo_bounds = tpGLInitBounds,
                fo_vertexCount = 0 \<rparr>"


text \<open>
  Two closed contours of three corner segments (handles on the positions, as
  \<^verbatim>\<open>tpPathMoveTo\<close> and \<^verbatim>\<open>tpPathLineTo\<close> make them): a triangle, and a sliver whose last
  corner lies \<open>1 / 10\<^sup>7\<close> away from the first one, which is less than \<^verbatim>\<open>FLT_EPSILON\<close>.
\<close>

definition cornerSegment :: "real \<Rightarrow> real \<Rightarrow> tpSegment" where
  "cornerSegment x y = tpSegmentMake x y x y x y"




text \<open>\<^verbatim>\<open>tpStyleMake\<close>: the default style (no dashes: \<^verbatim>\<open>dashCount = 0\<close>).\<close>

definition tpStyleMake :: tpStyle where
  "tpStyleMake =
     \<lparr> fillType = kTpPaintTypeColor, strokeType = kTpPaintTypeColor, strokeWidth = 1,
       strokeCap = kTpStrokeCapButt, strokeJoin = kTpStrokeJoinBevel,
       fillRule = kTpFillRuleEvenOdd, dashArray = [], dashOffset = 0, miterLimit = 4,
       scaleStroke = True \<rparr>"

text \<open>
  The calls \<^verbatim>\<open>tpPathMoveTo(path, 0, 0); tpPathLineTo(path, x, y);\<close> on a new path, and the
  segments of the contour they build.
\<close>

definition lineScenario :: "real \<Rightarrow> real \<Rightarrow> bool \<times> tpState" where
  "lineScenario x y = tpPathLineTo x y (snd (tpPathMoveTo 0 0 freshState))"

definition scenarioSegments :: "bool \<times> tpState \<Rightarrow> tpSegment list" where
  "scenarioSegments r = segments (contours (st_path (snd r)) ! 0)"

text \<open>
  Caching a path with one open contour, as \<^verbatim>\<open>_tpGLCachePathImpl\<close> does it for a style with
  \<^verbatim>\<open>scaleStroke\<close>, a stroke and no dashes, on a context with the identity transform and empty
  temporary arrays: the contour is flattened with the tolerance \<open>0.15\<close> and no transform, then
  \<^verbatim>\<open>_tpGLStroke\<close> makes the continuous stroke geometry from the flattened vertices and joints.
  \<open>None\<close> stands for a loop that does not end.
\<close>

definition strokeOpenContour ::
  "tpSegment list \<Rightarrow> tpStyle \<Rightarrow> (tpGLRenderCacheContour \<times> tpVec2 list) strokeResult" where
  "strokeOpenContour segs style =
     (case tpGLFlattenContour segs False (15 / 100) None [] [] tpGLInitBounds of
        None \<Rightarrow> None
      | Some r \<Rightarrow>
          tpGLRenderCacheContourContinousStrokeGeometry (fr_outContour r) style
            (fr_vertices r) (fr_joints r))"


section \<open>Transforms in float arithmetic\<close>

text \<open>
  \<^verbatim>\<open>tpVec2Add\<close>, \<^verbatim>\<open>tpMat2MultVec2\<close>, \<^verbatim>\<open>tpMat2Mult\<close>, \<^verbatim>\<open>tpTransformApply\<close> and
  \<^verbatim>\<open>tpTransformCombine\<close> once more, with every sum and every product rounded.
\<close>

definition tpVec2Add_float :: "tpVec2 \<Rightarrow> tpVec2 \<Rightarrow> tpVec2" where
  "tpVec2Add_float a b = tpVec2Make (roundedAdd (vx a) (vx b)) (roundedAdd (vy a) (vy b))"

definition tpMat2MultVec2_float :: "tpMat2 \<Rightarrow> tpVec2 \<Rightarrow> tpVec2" where
  "tpMat2MultVec2_float mat vec =
     tpVec2Make (roundedAdd (roundedMult (vx vec) (v0 mat)) (roundedMult (vy vec) (v2 mat)))
                (roundedAdd (roundedMult (vx vec) (v1 mat)) (roundedMult (vy vec) (v3 mat)))"

definition tpMat2Mult_float :: "tpMat2 \<Rightarrow> tpMat2 \<Rightarrow> tpMat2" where
  "tpMat2Mult_float a b =
     Mat2 (roundedAdd (roundedMult (v0 b) (v0 a)) (roundedMult (v1 b) (v2 a)))
          (roundedAdd (roundedMult (v0 b) (v1 a)) (roundedMult (v1 b) (v3 a)))
          (roundedAdd (roundedMult (v2 b) (v0 a)) (roundedMult (v3 b) (v2 a)))
          (roundedAdd (roundedMult (v2 b) (v1 a)) (roundedMult (v3 b) (v3 a)))"

definition tpTransformApply_float :: "tpTransform \<Rightarrow> tpVec2 \<Rightarrow> tpVec2" where
  "tpTransformApply_float trafo vec =
     tpVec2Add_float (tpMat2MultVec2_float (tr_m trafo) vec) (tr_t trafo)"

definition tpTransformCombine_float :: "tpTransform \<Rightarrow> tpTransform \<Rightarrow> tpTransform" where
  "tpTransformCombine_float a b =
     \<lparr> tr_m = tpMat2Mult_float (tr_m a) (tr_m b), tr_t = tpTransformApply_float a (tr_t b) \<rparr>"

text \<open>\<^verbatim>\<open>tpTransformMakeTranslation\<close>, and the transforms and points whose entries are floats.\<close>

definition tpMat2MakeIdentity :: tpMat2 where
  "tpMat2MakeIdentity = Mat2 1 0 0 1"

definition tpTransformMakeTranslation :: "real \<Rightarrow> real \<Rightarrow> tpTransform" where
  "tpTransformMakeTranslation x y = \<lparr> tr_m = tpMat2MakeIdentity, tr_t = tpVec2Make x y \<rparr>"

definition isFloatVec :: "tpVec2 \<Rightarrow> bool" where
  "isFloatVec v \<longleftrightarrow> isFloat (vx v) \<and> isFloat (vy v)"

definition isFloatTransform :: "tpTransform \<Rightarrow> bool" where
  "isFloatTransform t \<longleftrightarrow>
     isFloat (v0 (tr_m t)) \<and> isFloat (v1 (tr_m t)) \<and> isFloat (v2 (tr_m t)) \<and>
     isFloat (v3 (tr_m t)) \<and> isFloatVec (tr_t t)"

section \<open>The flattening loop on floats that may be NaN\<close>

text \<open>
  A float that is a number or NaN.  An operation with a NaN operand returns NaN, and every
  comparison with a NaN operand is false (also \<^verbatim>\<open>==\<close>).  On numbers the operations are
  exact here.  With them, the functions of the flattening loop once more:
  \<^verbatim>\<open>_tpGLIsClose\<close>, \<^verbatim>\<open>_tpGLIsCurveLinear\<close>, \<^verbatim>\<open>_tpGLIsCurveFlatEnough\<close>,
  \<^verbatim>\<open>tpVec2Lerp\<close>, \<^verbatim>\<open>_tpGLSubdivideCurve\<close>, \<^verbatim>\<open>_tpGLEvaluatePointForBounds\<close> and
  \<^verbatim>\<open>_tpGLFlattenCurve\<close>.
\<close>

datatype tpFloat = Num real | NaN

fun nanAdd :: "tpFloat \<Rightarrow> tpFloat \<Rightarrow> tpFloat" where
  "nanAdd (Num a) (Num b) = Num (a + b)"
| "nanAdd _ _ = NaN"

fun nanSub :: "tpFloat \<Rightarrow> tpFloat \<Rightarrow> tpFloat" where
  "nanSub (Num a) (Num b) = Num (a - b)"
| "nanSub _ _ = NaN"

fun nanMult :: "tpFloat \<Rightarrow> tpFloat \<Rightarrow> tpFloat" where
  "nanMult (Num a) (Num b) = Num (a * b)"
| "nanMult _ _ = NaN"

fun nanAbs :: "tpFloat \<Rightarrow> tpFloat" where
  "nanAbs (Num a) = Num \<bar>a\<bar>"
| "nanAbs NaN = NaN"

fun nanLess :: "tpFloat \<Rightarrow> tpFloat \<Rightarrow> bool" where
  "nanLess (Num a) (Num b) = (a < b)"
| "nanLess _ _ = False"

fun nanLessEq :: "tpFloat \<Rightarrow> tpFloat \<Rightarrow> bool" where
  "nanLessEq (Num a) (Num b) = (a \<le> b)"
| "nanLessEq _ _ = False"

fun nanEq :: "tpFloat \<Rightarrow> tpFloat \<Rightarrow> bool" where
  "nanEq (Num a) (Num b) = (a = b)"
| "nanEq _ _ = False"

definition TARP_MIN_nan :: "tpFloat \<Rightarrow> tpFloat \<Rightarrow> tpFloat" where
  "TARP_MIN_nan a b = (if nanLess a b then a else b)"

definition TARP_MAX_nan :: "tpFloat \<Rightarrow> tpFloat \<Rightarrow> tpFloat" where
  "TARP_MAX_nan a b = (if nanLess b a then a else b)"

datatype tpVec2_nan = tpVec2Make_nan (nx: tpFloat) (ny: tpFloat)

datatype tpGLCurve_nan =
  Curve_nan (n_p0: tpVec2_nan) (n_h0: tpVec2_nan) (n_h1: tpVec2_nan) (n_p1: tpVec2_nan)

record tpGLRect_nan =
  rect_min_nan :: tpVec2_nan
  rect_max_nan :: tpVec2_nan

definition tpVec2Add_nan :: "tpVec2_nan \<Rightarrow> tpVec2_nan \<Rightarrow> tpVec2_nan" where
  "tpVec2Add_nan a b = tpVec2Make_nan (nanAdd (nx a) (nx b)) (nanAdd (ny a) (ny b))"

definition tpVec2MultScalar_nan :: "tpVec2_nan \<Rightarrow> tpFloat \<Rightarrow> tpVec2_nan" where
  "tpVec2MultScalar_nan a b = tpVec2Make_nan (nanMult (nx a) b) (nanMult (ny a) b)"

definition tpVec2Equals_nan :: "tpVec2_nan \<Rightarrow> tpVec2_nan \<Rightarrow> bool" where
  "tpVec2Equals_nan a b \<longleftrightarrow> nanEq (nx a) (nx b) \<and> nanEq (ny a) (ny b)"

definition tpVec2Lerp_nan :: "tpVec2_nan \<Rightarrow> tpVec2_nan \<Rightarrow> tpFloat \<Rightarrow> tpVec2_nan" where
  "tpVec2Lerp_nan a b s =
     tpVec2Add_nan (tpVec2MultScalar_nan a (nanSub (Num 1) s)) (tpVec2MultScalar_nan b s)"

definition tpGLIsClose_nan :: "tpFloat \<Rightarrow> tpFloat \<Rightarrow> tpFloat \<Rightarrow> bool" where
  "tpGLIsClose_nan a b epsilon =
     (let maxXYOne = TARP_MAX_nan (Num 1) (TARP_MAX_nan (nanAbs a) (nanAbs b))
      in nanLessEq (nanAbs (nanSub a b)) (nanMult epsilon maxXYOne))"

definition tpGLIsCurveLinear_nan :: "tpGLCurve_nan \<Rightarrow> bool" where
  "tpGLIsCurveLinear_nan curve \<longleftrightarrow>
     tpGLIsClose_nan (nx (n_p0 curve)) (nx (n_h0 curve)) (Num FLT_EPSILON) \<and>
     tpGLIsClose_nan (ny (n_p0 curve)) (ny (n_h0 curve)) (Num FLT_EPSILON) \<and>
     tpGLIsClose_nan (nx (n_p1 curve)) (nx (n_h1 curve)) (Num FLT_EPSILON) \<and>
     tpGLIsClose_nan (ny (n_p1 curve)) (ny (n_h1 curve)) (Num FLT_EPSILON)"

definition tpGLIsCurveFlatEnough_nan :: "tpGLCurve_nan \<Rightarrow> tpFloat \<Rightarrow> bool" where
  "tpGLIsCurveFlatEnough_nan curve tolerance =
     (if tpGLIsCurveLinear_nan curve then True
      else
        let ux = nanSub (nanSub (nanMult (nx (n_h0 curve)) (Num 3))
                                (nanMult (nx (n_p0 curve)) (Num 2))) (nx (n_p1 curve));
            uy = nanSub (nanSub (nanMult (ny (n_h0 curve)) (Num 3))
                                (nanMult (ny (n_p0 curve)) (Num 2))) (ny (n_p1 curve));
            wx = nanSub (nanSub (nanMult (nx (n_h1 curve)) (Num 3))
                                (nanMult (nx (n_p1 curve)) (Num 2))) (nx (n_p0 curve));
            wy = nanSub (nanSub (nanMult (ny (n_h1 curve)) (Num 3))
                                (nanMult (ny (n_p1 curve)) (Num 2))) (ny (n_p0 curve))
        in nanLess (nanAdd (TARP_MAX_nan (nanMult ux ux) (nanMult wx wx))
                           (TARP_MAX_nan (nanMult uy uy) (nanMult wy wy)))
                   (nanMult (nanMult (Num 10) tolerance) tolerance))"

definition tpGLSubdivideCurve_nan ::
  "tpGLCurve_nan \<Rightarrow> tpFloat \<Rightarrow> tpGLCurve_nan \<times> tpGLCurve_nan" where
  "tpGLSubdivideCurve_nan curve s =
     (let p0h0 = tpVec2Lerp_nan (n_p0 curve) (n_h0 curve) s;
          h0h1 = tpVec2Lerp_nan (n_h0 curve) (n_h1 curve) s;
          h1p1 = tpVec2Lerp_nan (n_h1 curve) (n_p1 curve) s;
          p0h0h1 = tpVec2Lerp_nan p0h0 h0h1 s;
          h0h1p1 = tpVec2Lerp_nan h0h1 h1p1 s;
          p0h0h1p1 = tpVec2Lerp_nan p0h0h1 h0h1p1 s
      in (Curve_nan (n_p0 curve) p0h0 p0h0h1 p0h0h1p1,
          Curve_nan p0h0h1p1 h0h1p1 h1p1 (n_p1 curve)))"

definition tpGLEvaluatePointForBounds_nan :: "tpVec2_nan \<Rightarrow> tpGLRect_nan \<Rightarrow> tpGLRect_nan" where
  "tpGLEvaluatePointForBounds_nan vec bounds =
     \<lparr> rect_min_nan = tpVec2Make_nan (TARP_MIN_nan (nx vec) (nx (rect_min_nan bounds)))
                                     (TARP_MIN_nan (ny vec) (ny (rect_min_nan bounds))),
       rect_max_nan = tpVec2Make_nan (TARP_MAX_nan (nx vec) (nx (rect_max_nan bounds)))
                                     (TARP_MAX_nan (ny vec) (ny (rect_max_nan bounds))) \<rparr>"

record flattenOut_nan =
  fo_vertices_nan :: "tpVec2_nan list"
  fo_joints_nan :: "bool list"
  fo_bounds_nan :: tpGLRect_nan
  fo_vertexCount_nan :: int

record flattenState_nan =
  fs_stack_nan :: "tpGLCurve_nan list"
  fs_bFirstCurve_nan :: bool
  fs_out_nan :: flattenOut_nan

definition flattenStep_nan ::
  "tpGLCurve_nan \<Rightarrow> tpFloat \<Rightarrow> bool \<Rightarrow> bool \<Rightarrow> flattenState_nan \<Rightarrow> flattenState_nan" where
  "flattenStep_nan curve angleTolerance isClosed lastCurve s =
     (case fs_stack_nan s of
        [] \<Rightarrow> s
      | current # rest \<Rightarrow>
          if length rest < TARP_MAX_CURVE_SUBDIVISIONS - 1 \<and>
             \<not> tpGLIsCurveFlatEnough_nan current angleTolerance
          then
            let cp = tpGLSubdivideCurve_nan current (Num (1 / 2))
            in s\<lparr> fs_stack_nan := fst cp # snd cp # rest \<rparr>
          else
            let out = fs_out_nan s in
            if fs_bFirstCurve_nan s
            then
              s\<lparr> fs_stack_nan := rest,
                 fs_bFirstCurve_nan := False,
                 fs_out_nan :=
                   \<lparr> fo_vertices_nan = fo_vertices_nan out @ [n_p0 current, n_p1 current],
                     fo_joints_nan = fo_joints_nan out @
                       [False, tpVec2Equals_nan (n_p1 current) (n_p1 curve) \<and> \<not> lastCurve],
                     fo_bounds_nan = tpGLEvaluatePointForBounds_nan (n_p1 current)
                                   (tpGLEvaluatePointForBounds_nan (n_p0 current)
                                      (fo_bounds_nan out)),
                     fo_vertexCount_nan = fo_vertexCount_nan out + 2 \<rparr> \<rparr>
            else
              s\<lparr> fs_stack_nan := rest,
                 fs_out_nan :=
                   \<lparr> fo_vertices_nan = fo_vertices_nan out @ [n_p1 current],
                     fo_joints_nan = fo_joints_nan out @
                       [if isClosed then tpVec2Equals_nan (n_p1 current) (n_p1 curve)
                        else tpVec2Equals_nan (n_p1 current) (n_p1 curve) \<and> \<not> lastCurve],
                     fo_bounds_nan = tpGLEvaluatePointForBounds_nan (n_p1 current)
                                       (fo_bounds_nan out),
                     fo_vertexCount_nan = fo_vertexCount_nan out + 1 \<rparr> \<rparr>)"

definition flattenInit_nan :: "tpGLCurve_nan \<Rightarrow> bool \<Rightarrow> flattenOut_nan \<Rightarrow> flattenState_nan" where
  "flattenInit_nan curve firstCurve out =
     \<lparr> fs_stack_nan = [curve], fs_bFirstCurve_nan = firstCurve, fs_out_nan = out \<rparr>"

definition tpGLFlattenCurve_nan ::
  "tpGLCurve_nan \<Rightarrow> tpFloat \<Rightarrow> bool \<Rightarrow> bool \<Rightarrow> bool \<Rightarrow> flattenOut_nan \<Rightarrow> flattenOut_nan option" where
  "tpGLFlattenCurve_nan curve angleTolerance isClosed firstCurve lastCurve out =
     map_option fs_out_nan
       (while_option (\<lambda>s. fs_stack_nan s \<noteq> [])
          (flattenStep_nan curve angleTolerance isClosed lastCurve)
          (flattenInit_nan curve firstCurve out))"

text \<open>
  The numbers among these floats: a vector, a curve, a rectangle, an output and a loop state
  of real numbers as the same thing of floats.
\<close>

definition numVec :: "tpVec2 \<Rightarrow> tpVec2_nan" where
  "numVec v = tpVec2Make_nan (Num (vx v)) (Num (vy v))"

definition numCurve :: "tpGLCurve \<Rightarrow> tpGLCurve_nan" where
  "numCurve c = Curve_nan (numVec (c_p0 c)) (numVec (c_h0 c)) (numVec (c_h1 c)) (numVec (c_p1 c))"

definition numRect :: "tpGLRect \<Rightarrow> tpGLRect_nan" where
  "numRect b = \<lparr> rect_min_nan = numVec (rect_min b), rect_max_nan = numVec (rect_max b) \<rparr>"

definition numOut :: "flattenOut \<Rightarrow> flattenOut_nan" where
  "numOut out =
     \<lparr> fo_vertices_nan = map numVec (fo_vertices out), fo_joints_nan = fo_joints out,
       fo_bounds_nan = numRect (fo_bounds out), fo_vertexCount_nan = fo_vertexCount out \<rparr>"

definition numState :: "flattenState \<Rightarrow> flattenState_nan" where
  "numState s =
     \<lparr> fs_stack_nan = map numCurve (fs_stack s), fs_bFirstCurve_nan = fs_bFirstCurve s,
       fs_out_nan = numOut (fs_out s) \<rparr>"

text \<open>The arch with a first control point whose \<open>x\<close> is NaN.\<close>

definition nanCurve :: tpGLCurve_nan where
  "nanCurve = Curve_nan (tpVec2Make_nan NaN (Num 0)) (tpVec2Make_nan (Num 0) (Num 1))
                        (tpVec2Make_nan (Num 1) (Num 1)) (tpVec2Make_nan (Num 1) (Num 0))"

text \<open>
  A curve whose start point or end point has NaN as its \<open>x\<close>, and a loop state whose stack
  holds such curves only and is not empty.
\<close>

definition nanInCurve :: "tpGLCurve_nan \<Rightarrow> bool" where
  "nanInCurve c \<longleftrightarrow> nx (n_p0 c) = NaN \<or> nx (n_p1 c) = NaN"

definition nanStack :: "flattenState_nan \<Rightarrow> bool" where
  "nanStack s \<longleftrightarrow> fs_stack_nan s \<noteq> [] \<and> list_all nanInCurve (fs_stack_nan s)"

section \<open>Transforms compose\<close>

text \<open>In exact arithmetic the combination of two transforms is their composition.\<close>

lemma tpTransformCombine_apply_exact:
  "tpTransformApply (tpTransformCombine A B) p = tpTransformApply A (tpTransformApply B p)"
  by (simp add: tpTransformApply_def tpTransformCombine_def tpMat2MultVec2_def tpMat2Mult_def
      tpVec2Add_def algebra_simps)

text \<open>
  What \<open>toFloat\<close> returns for \<open>x \<noteq> 0\<close>: a whole number of at least 23 and at most 24 bits
  (\<open>2\<^sup>2\<^sup>4\<close> at most), scaled by the power of two that belongs to the binade of \<open>x\<close>; it is off
  by half a unit in the last place at most, which is at most \<open>\<bar>x\<bar> / 2\<^sup>2\<^sup>4\<close>.
\<close>

lemma bitLength_bounds:
  "0 < n \<Longrightarrow> 2 ^ (bitLength n - 1) \<le> n \<and> n < 2 ^ bitLength n"
proof (induction n rule: bitLength.induct)
  case (1 n)
  show ?case
  proof (cases "n div 2 = 0")
    case True
    with 1(2) have "n = 1" by (simp add: div_eq_0_iff, (linarith+)?)
    then show ?thesis
      by (simp add: bitLength.simps[of "Suc 0"] bitLength.simps[of 0])
  next
    case False
    then have pos: "0 < n div 2" by simp
    define k where "k = bitLength (n div 2)"
    from 1(1)[OF _ pos] 1(2) have ih: "2 ^ (k - 1) \<le> n div 2" "n div 2 < 2 ^ k"
      by (simp_all add: k_def)
    have kpos: "0 < k"
      using pos by (simp add: k_def bitLength.simps[of "n div 2"])
    have bl: "bitLength n = Suc k"
      using 1(2) by (simp add: k_def bitLength.simps[of n])
    have "2 ^ k = 2 * (2::nat) ^ (k - 1)"
      using kpos by (cases k) simp_all
    with ih(1) have lo: "2 ^ k \<le> n" by linarith
    from ih(2) have hi: "n < 2 ^ Suc k" by (simp, (linarith+)?)
    from lo hi show ?thesis by (simp add: bl)
  qed
qed

lemma pow2_nonneg: "0 \<le> e \<Longrightarrow> pow2 e = 2 ^ nat e"
  by (simp add: pow2_def)

lemma pow2_neg: "e \<le> 0 \<Longrightarrow> pow2 e = 1 / 2 ^ nat (- e)"
  by (cases "e = 0") (simp_all add: pow2_def)

lemma pow2_pos: "0 < pow2 e"
  by (simp add: pow2_def)

lemma pow2_Suc: "pow2 (e + 1) = 2 * pow2 e"
proof (cases "0 \<le> e")
  case True
  then show ?thesis by (simp add: pow2_def nat_add_distrib)
next
  case False
  then have "nat (- e) = Suc (nat (- (e + 1)))" by simp
  then show ?thesis
    using False by (simp add: pow2_neg)
qed

lemma floatExponent_bounds:
  assumes "x \<noteq> 0"
  shows "pow2 (floatExponent x) \<le> \<bar>x\<bar>" and "\<bar>x\<bar> < pow2 (floatExponent x + 1)"
proof -
  have "pow2 (floatExponent x) \<le> \<bar>x\<bar> \<and> \<bar>x\<bar> < pow2 (floatExponent x + 1)"
  proof (cases "1 \<le> \<bar>x\<bar>")
    case True
    define n where "n = nat \<lfloor>\<bar>x\<bar>\<rfloor>"
    have npos: "0 < n" using True by (simp add: n_def)
    have nle: "real n \<le> \<bar>x\<bar>" "\<bar>x\<bar> < real n + 1"
      using True by (simp_all add: n_def, (linarith+)?)
    from bitLength_bounds[OF npos] have b: "2 ^ (bitLength n - 1) \<le> n" "n < 2 ^ bitLength n"
      by simp_all
    have bpos: "0 < bitLength n" using npos by (simp add: bitLength.simps[of n])
    have e: "floatExponent x = int (bitLength n) - 1"
      using True by (simp add: floatExponent_def n_def)
    have p: "pow2 (floatExponent x) = 2 ^ (bitLength n - 1)"
      using bpos by (simp add: e pow2_def nat_diff_distrib')
    have q: "pow2 (floatExponent x + 1) = 2 ^ bitLength n"
      by (simp add: e pow2_def)
    have r1: "(2::real) ^ (bitLength n - 1) \<le> real n"
      using of_nat_mono[OF b(1), where 'a = real] by simp
    have lo: "pow2 (floatExponent x) \<le> \<bar>x\<bar>"
      unfolding p using r1 nle(1) by linarith
    have "n + 1 \<le> 2 ^ bitLength n" using b(2) by simp
    from of_nat_mono[OF this, where 'a = real]
    have r2: "real n + 1 \<le> (2::real) ^ bitLength n" by simp
    have hi: "\<bar>x\<bar> < pow2 (floatExponent x + 1)"
      unfolding q using r2 nle(2) by linarith
    from lo hi show ?thesis ..
  next
    case False
    define y where "y = 1 / \<bar>x\<bar>"
    have xpos: "0 < \<bar>x\<bar>" using assms by simp
    have y1: "1 < y" using False xpos by (simp add: y_def)
    define m where "m = nat (\<lceil>y\<rceil> - 1)"
    have mb: "real m < y" "y \<le> real m + 1"
      using y1 by (simp_all add: m_def, (linarith+)?)
    have mpos: "0 < m" using y1 by (simp add: m_def, (linarith+)?)
    define k where "k = bitLength m"
    from bitLength_bounds[OF mpos] have b: "2 ^ (k - 1) \<le> m" "m < 2 ^ k"
      by (simp_all add: k_def)
    have kpos: "0 < k" using mpos by (simp add: k_def bitLength.simps[of m])
    have e: "floatExponent x = - int k"
      using False by (simp add: floatExponent_def k_def m_def y_def)
    have p: "pow2 (floatExponent x) = 1 / 2 ^ k"
      by (simp add: e pow2_neg)
    have q: "pow2 (floatExponent x + 1) = 1 / 2 ^ (k - 1)"
      using kpos by (simp add: e pow2_neg nat_diff_distrib')
    have "m + 1 \<le> 2 ^ k" using b(2) by simp
    from of_nat_mono[OF this, where 'a = real]
    have r2: "real m + 1 \<le> (2::real) ^ k" by simp
    with mb(2) have yk: "y \<le> 2 ^ k" by linarith
    have r1: "(2::real) ^ (k - 1) \<le> real m"
      using of_nat_mono[OF b(1), where 'a = real] by simp
    with mb(1) have yk1: "2 ^ (k - 1) < y" by linarith
    have lo: "pow2 (floatExponent x) \<le> \<bar>x\<bar>"
      unfolding p using yk xpos by (simp add: y_def field_simps)
    have hi: "\<bar>x\<bar> < pow2 (floatExponent x + 1)"
      unfolding q using yk1 xpos by (simp add: y_def field_simps)
    from lo hi show ?thesis ..
  qed
  then show "pow2 (floatExponent x) \<le> \<bar>x\<bar>" and "\<bar>x\<bar> < pow2 (floatExponent x + 1)"
    by simp_all
qed



lemma pow2_add: "pow2 (a + b) = pow2 a * pow2 b"
proof -
  have "pow2 e = 2 powr (of_int e)" for e
    by (cases "0 \<le> e") (simp_all add: pow2_def powr_realpow[symmetric] powr_minus field_simps
        flip: powr_realpow)
  then show ?thesis by (simp add: powr_add)
qed


lemma roundHalfEven_lower: "of_int a \<le> q \<Longrightarrow> a \<le> roundHalfEven q"
proof -
  assume "of_int a \<le> q"
  then have "a \<le> \<lfloor>q\<rfloor>" by (simp add: le_floor_iff)
  then show ?thesis by (simp add: roundHalfEven_def Let_def)
qed

lemma roundHalfEven_upper: "q \<le> of_int b \<Longrightarrow> roundHalfEven q \<le> b"
proof -
  assume a: "q \<le> of_int b"
  then have f: "\<lfloor>q\<rfloor> \<le> b" by (simp add: floor_le_iff, (linarith+)?)
  show ?thesis
  proof (cases "\<lfloor>q\<rfloor> = b")
    case True
    then have "of_int \<lfloor>q\<rfloor> = q" using a by linarith
    then show ?thesis using True by (simp add: roundHalfEven_def Let_def)
  next
    case False
    with f have "\<lfloor>q\<rfloor> + 1 \<le> b" by simp
    then show ?thesis by (simp add: roundHalfEven_def Let_def)
  qed
qed

lemma toFloat_significand:
  assumes "x \<noteq> 0"
  shows "\<exists>m. toFloat x = of_int m * pow2 (floatExponent x - 23) \<and>
             2 ^ 23 \<le> \<bar>m\<bar> \<and> \<bar>m\<bar> \<le> 2 ^ 24"
proof -
  define g where "g = pow2 (floatExponent x - 23)"
  define q where "q = x / g"
  define m where "m = roundHalfEven q"
  have gpos: "0 < g" by (simp add: g_def pow2_pos)
  have p23: "pow2 23 = 2 ^ 23" and p24: "pow2 24 = 2 ^ 24"
    by (simp_all add: pow2_def)
  have g1: "pow2 (floatExponent x) = g * 2 ^ 23"
    using pow2_add[of "floatExponent x - 23" 23] by (simp add: g_def p23)
  have g2: "pow2 (floatExponent x + 1) = g * 2 ^ 24"
    using pow2_add[of "floatExponent x - 23" 24] by (simp add: g_def p24 add.commute)
  from floatExponent_bounds[OF assms] have b: "g * 2 ^ 23 \<le> \<bar>x\<bar>" "\<bar>x\<bar> < g * 2 ^ 24"
    by (simp_all add: g1 g2)
  have aq: "\<bar>q\<bar> = \<bar>x\<bar> / g" using gpos by (simp add: q_def)
  have qb: "2 ^ 23 \<le> \<bar>q\<bar>" "\<bar>q\<bar> < 2 ^ 24"
    using b gpos by (simp_all add: aq field_simps)
  have t: "toFloat x = of_int m * g"
    using assms by (simp add: toFloat_def Let_def g_def m_def q_def)
  have "2 ^ 23 \<le> \<bar>m\<bar> \<and> \<bar>m\<bar> \<le> 2 ^ 24"
  proof (cases "0 \<le> q")
    case True
    with qb have "of_int (2 ^ 23) \<le> q" "q \<le> of_int (2 ^ 24)" by simp_all
    from roundHalfEven_lower[OF this(1)] roundHalfEven_upper[OF this(2)]
    show ?thesis by (simp add: m_def)
  next
    case False
    with qb have "of_int (- (2 ^ 24)) \<le> q" "q \<le> of_int (- (2 ^ 23))" by simp_all
    from roundHalfEven_lower[OF this(1)] roundHalfEven_upper[OF this(2)]
    show ?thesis by (simp add: m_def)
  qed
  with t show ?thesis unfolding g_def by blast
qed


text \<open>
  Rounding to float, evaluated: \<open>1/3\<close> becomes \<^verbatim>\<open>0x3EAAAAAB\<close>, \<open>2\<^sup>2\<^sup>4 + 1\<close> is a tie and goes to the
  even neighbour, and next to \<open>2\<^sup>2\<^sup>0\<close> the floats are \<open>1/8\<close> apart.
\<close>

lemma bitLength_numeral [simp]:
  "bitLength 0 = 0"
  "bitLength (Suc 0) = 1"
  "bitLength (numeral k) = Suc (bitLength (numeral k div 2))"
  by (simp_all add: bitLength.simps[of 0] bitLength.simps[of "Suc 0"]
        bitLength.simps[of "numeral k"])

lemmas toFloat_eval = toFloat_def floatExponent_def roundHalfEven_def pow2_def Let_def

lemma toFloat_samples:
  "toFloat 0 = 0" "toFloat 1 = 1" "toFloat (1 / 3) = 11184811 / 2 ^ 25"
  "toFloat (2 ^ 24 + 1) = 2 ^ 24" "toFloat (2 ^ 24 + 3) = 2 ^ 24 + 4"
  "toFloat (- (2 ^ 20)) = - (2 ^ 20)" "toFloat (2 ^ 20) = 2 ^ 20"
  "toFloat (1 / 2 ^ 10) = 1 / 2 ^ 10"
  "toFloat (2 ^ 20 + 1 / 2 ^ 10) = 2 ^ 20"
  by (simp_all add: toFloat_eval)

lemma TARP_PI_literal: "TARP_PI = toFloat 3.14159265358979323846"
  by (simp add: TARP_PI_def toFloat_eval)

text \<open>
  In float arithmetic the translations by \<open>-2\<^sup>2\<^sup>0\<close> and by \<open>2\<^sup>2\<^sup>0\<close> combine to the identity, which
  leaves the point \<open>(2\<^sup>-\<^sup>1\<^sup>0, 0)\<close> where it is.  Applied one after the other, the first one moves
  the point to \<open>2\<^sup>2\<^sup>0 + 2\<^sup>-\<^sup>1\<^sup>0\<close>, which rounds to \<open>2\<^sup>2\<^sup>0\<close>, and the second one moves it to \<open>0\<close>.
\<close>

lemma float_combine_example:
  "tpTransformApply_float
     (tpTransformCombine_float (tpTransformMakeTranslation (- (2 ^ 20)) 0)
                               (tpTransformMakeTranslation (2 ^ 20) 0))
     (tpVec2Make (1 / 2 ^ 10) 0) = tpVec2Make (1 / 2 ^ 10) 0"
  "tpTransformApply_float (tpTransformMakeTranslation (- (2 ^ 20)) 0)
     (tpTransformApply_float (tpTransformMakeTranslation (2 ^ 20) 0)
        (tpVec2Make (1 / 2 ^ 10) 0)) = tpVec2Make 0 0"
  by (simp_all add: tpTransformApply_float_def tpTransformCombine_float_def
        tpTransformMakeTranslation_def tpMat2MakeIdentity_def tpMat2Mult_float_def
        tpMat2MultVec2_float_def tpVec2Add_float_def roundedAdd_def roundedMult_def
        toFloat_eval)

lemma float_combine_inputs:
  "isFloatTransform (tpTransformMakeTranslation (- (2 ^ 20)) 0)"
  "isFloatTransform (tpTransformMakeTranslation (2 ^ 20) 0)"
  "isFloatVec (tpVec2Make (1 / 2 ^ 10) 0)"
  by (simp_all add: isFloatTransform_def isFloatVec_def isFloat_def
        tpTransformMakeTranslation_def tpMat2MakeIdentity_def toFloat_eval)

text \<open>
  Claim C9.  Applying the combination of two affine transforms to a point is the same as
  applying the second transform and then the first,
  \<open>apply (combine A B) p = apply A (apply B p)\<close>, for all transforms \<open>A\<close>, \<open>B\<close> and every point
  \<open>p\<close>, exactly, in real arithmetic.  In float arithmetic the two sides are not always within
  \<^verbatim>\<open>FLT_EPSILON\<close> of each other: there are transforms and a point, all of floats, for which the
  \<open>x\<close> coordinates of the two sides differ by more than \<open>8000\<close> times \<^verbatim>\<open>FLT_EPSILON\<close> and are not
  close by the library's own test \<^verbatim>\<open>_tpGLIsClose\<close>.
\<close>

theorem tpTransformCombine_apply:
  "tpTransformApply (tpTransformCombine A B) p = tpTransformApply A (tpTransformApply B p) \<and>
   (\<exists>a b q. isFloatTransform a \<and> isFloatTransform b \<and> isFloatVec q \<and>
      8000 * FLT_EPSILON <
        \<bar>vx (tpTransformApply_float (tpTransformCombine_float a b) q) -
         vx (tpTransformApply_float a (tpTransformApply_float b q))\<bar> \<and>
      \<not> tpGLIsClose (vx (tpTransformApply_float (tpTransformCombine_float a b) q))
                     (vx (tpTransformApply_float a (tpTransformApply_float b q))) FLT_EPSILON)"
proof (intro conjI)
  show "tpTransformApply (tpTransformCombine A B) p = tpTransformApply A (tpTransformApply B p)"
    by (rule tpTransformCombine_apply_exact)
  show "\<exists>a b q. isFloatTransform a \<and> isFloatTransform b \<and> isFloatVec q \<and>
      8000 * FLT_EPSILON <
        \<bar>vx (tpTransformApply_float (tpTransformCombine_float a b) q) -
         vx (tpTransformApply_float a (tpTransformApply_float b q))\<bar> \<and>
      \<not> tpGLIsClose (vx (tpTransformApply_float (tpTransformCombine_float a b) q))
                     (vx (tpTransformApply_float a (tpTransformApply_float b q))) FLT_EPSILON"
    apply (rule exI[of _ "tpTransformMakeTranslation (- (2 ^ 20)) 0"])
    apply (rule exI[of _ "tpTransformMakeTranslation (2 ^ 20) 0"])
    apply (rule exI[of _ "tpVec2Make (1 / 2 ^ 10) 0"])
    unfolding float_combine_example
    using float_combine_inputs
    apply (simp add: FLT_EPSILON_def tpGLIsClose_def TARP_MAX_def Let_def)
    done
qed

text \<open>
  The claim as stated, within float epsilon over floats, fails at \<open>A\<close> the translation by
  \<open>(-2\<^sup>2\<^sup>0, 0)\<close>, \<open>B\<close> the translation by \<open>(2\<^sup>2\<^sup>0, 0)\<close> and \<open>p = (2\<^sup>-\<^sup>1\<^sup>0, 0)\<close>: the one side is
  \<open>(2\<^sup>-\<^sup>1\<^sup>0, 0)\<close>, the other \<open>(0, 0)\<close>.
\<close>

theorem tpTransformCombine_float_counterexample:
  "isFloatTransform (tpTransformMakeTranslation (- (2 ^ 20)) 0) \<and>
   isFloatTransform (tpTransformMakeTranslation (2 ^ 20) 0) \<and>
   isFloatVec (tpVec2Make (1 / 2 ^ 10) 0) \<and>
   tpTransformApply_float
     (tpTransformCombine_float (tpTransformMakeTranslation (- (2 ^ 20)) 0)
                               (tpTransformMakeTranslation (2 ^ 20) 0))
     (tpVec2Make (1 / 2 ^ 10) 0) = tpVec2Make (1 / 2 ^ 10) 0 \<and>
   tpTransformApply_float (tpTransformMakeTranslation (- (2 ^ 20)) 0)
     (tpTransformApply_float (tpTransformMakeTranslation (2 ^ 20) 0)
        (tpVec2Make (1 / 2 ^ 10) 0)) = tpVec2Make 0 0 \<and>
   FLT_EPSILON < \<bar>1 / 2 ^ 10 - 0\<bar> \<and>
   \<not> tpGLIsClose (1 / 2 ^ 10) 0 FLT_EPSILON"
  unfolding float_combine_example
  using float_combine_inputs
  by (simp add: FLT_EPSILON_def tpGLIsClose_def TARP_MAX_def Let_def)

section \<open>Builder calls before a contour is started\<close>

lemma noContourStarted_fresh: "noContourStarted tpPathCreate"
  by (simp add: noContourStarted_def tpGLCurrentContour_def tpPathCreate_def)

text \<open>
  Four of the five builder functions report the misuse: with no current contour, or a current
  contour that holds no segment, they return \<^verbatim>\<open>tpTrue\<close> and store their message.
\<close>

lemma builder_misuse_reported:
  assumes "noContourStarted (st_path s)"
  shows "tpPathLineTo px py s = (True, s\<lparr>st_error :=
           ''You have to start a contour before issuing this command (see tpPathMoveTo).''\<rparr>)"
    and "tpPathCubicCurveTo h0x h0y h1x h1y px py s = (True, s\<lparr>st_error :=
           ''You have to start a contour before issuing this command (see tpPathMoveTo).''\<rparr>)"
    and "tpPathQuadraticCurveTo hx hy px py s = (True, s\<lparr>st_error :=
           ''You have to start a contour before issuing this command (see tpPathMoveTo).''\<rparr>)"
    and "tpPathArcTo rx ry rotx fl swfl ex ey s = (True, s\<lparr>st_error :=
           ''You have to start a contour before issuing this command (see tpPathArcTo).''\<rparr>)"
  using assms
  by (simp_all add: tpPathLineTo_def tpPathCubicCurveTo_def tpPathQuadraticCurveTo_def
      tpPathArcTo_def tpGLSetErrorMessage_def)

text \<open>\<^verbatim>\<open>tpPathClose\<close> returns \<^verbatim>\<open>tpFalse\<close> on each of its paths.\<close>

lemma tpPathClose_never_reports: "fst (tpPathClose s) = False"
  by (simp add: tpPathClose_def Let_def split: option.splits)

text \<open>
  C3.  Called on a new path, before any \<^verbatim>\<open>tpPathMoveTo\<close>, \<^verbatim>\<open>tpPathClose\<close> stores its
  error message but returns \<^verbatim>\<open>tpFalse\<close> (no error), where the claim has it return
  \<^verbatim>\<open>tpTrue\<close> as the other four builder functions do.
\<close>

theorem tpPathClose_before_moveTo:
  "tpPathClose freshState =
     (False, freshState\<lparr>st_error :=
        ''tpPathClose failed because the path has no contour or the current contour is empty.''\<rparr>)"
  by (simp add: tpPathClose_def freshState_def tpPathCreate_def tpGLCurrentContour_def
      tpGLSetErrorMessage_def)

section \<open>Quadratic curves\<close>

lemma moveTo_fresh:
  "tpPathMoveTo a b freshState =
    (False, freshState\<lparr> st_path := \<lparr> contours = [\<lparr> segments = [tpSegmentMake a b a b a b],
        bDirty = True, bIsClosed = False, bLengthDirty = True, lastSegmentIndex = 0 \<rparr>],
        currentContourIndex = 0, bPathGeometryDirty = True \<rparr> \<rparr>)"
  by (simp add: tpPathMoveTo_def freshState_def tpPathCreate_def tpGLPathNextEmptyContour_def
      tpGLCurrentContour_def tpGLPathCreateNextContour_def tpGLContourAddSegment_def
      tpGLContourAddSegments_def Let_def)

text \<open>
  Raising the degree of the quadratic with control point \<open>h\<close> gives the cubic with the handles
  \<open>a + 2/3 (h - a)\<close> and \<open>b + 2/3 (h - b)\<close>, which is the same curve.
\<close>

lemma degree_elevation_is_quadratic:
  "curvePointAt (Curve a (tpVec2Lerp a h (2 / 3)) (tpVec2Lerp b h (2 / 3)) b) s
     = quadraticBezierPoint a h b s"
  by (simp add: curvePointAt_def tpGLSubdivideCurve_def tpVec2Lerp_def tpVec2Add_def
      tpVec2MultScalar_def quadraticBezierPoint_def Let_def field_simps)

text \<open>The cubic with both handles at \<open>h\<close>, which is what the builder appends.\<close>

lemma doubled_handle_point:
  "curvePointAt (Curve a h h b) s =
     tpVec2Add (tpVec2Add (tpVec2MultScalar a ((1 - s) ^ 3))
                          (tpVec2MultScalar h (3 * (1 - s) * s)))
               (tpVec2MultScalar b (s ^ 3))"
  by (simp add: curvePointAt_def tpGLSubdivideCurve_def tpVec2Lerp_def tpVec2Add_def
      tpVec2MultScalar_def Let_def algebra_simps power3_eq_cube)

text \<open>
  C5.  After \<^verbatim>\<open>tpPathMoveTo(0, 0)\<close>, the call \<^verbatim>\<open>tpPathQuadraticCurveTo(1, 1, 2, 0)\<close>
  succeeds and leaves the segments \<open>(0,0)\<close> with outgoing handle \<open>(1,1)\<close> and \<open>(2,0)\<close> with
  incoming handle \<open>(1,1)\<close>.  The cubic between them passes through \<open>(1, 3/4)\<close> at parameter
  \<open>1/2\<close>; the quadratic Bezier curve from \<open>(0,0)\<close> through the control point \<open>(1,1)\<close> to
  \<open>(2,0)\<close> passes through \<open>(1, 1/2)\<close>.  The appended cubic is not the quadratic curve.
\<close>

theorem tpPathQuadraticCurveTo_not_quadratic:
  "fst quadScenario = False \<and>
   segments (contours (st_path (snd quadScenario)) ! 0) =
     [tpSegmentMake 0 0 0 0 1 1, tpSegmentMake 1 1 2 0 2 0] \<and>
   curvePointAt (segmentCurve (tpSegmentMake 0 0 0 0 1 1) (tpSegmentMake 1 1 2 0 2 0)) (1 / 2)
     = tpVec2Make 1 (3 / 4) \<and>
   quadraticBezierPoint (tpVec2Make 0 0) (tpVec2Make 1 1) (tpVec2Make 2 0) (1 / 2)
     = tpVec2Make 1 (1 / 2)"
  unfolding quadScenario_def moveTo_fresh
  by (simp add: tpPathQuadraticCurveTo_def noContourStarted_def
      tpGLCurrentContour_def freshState_def setLastHandleOut_def tpGLContourAddSegment_def
      tpGLContourAddSegments_def Let_def tpSegmentMake_def curvePointAt_def segmentCurve_def
      tpGLSubdivideCurve_def tpVec2Lerp_def tpVec2Add_def tpVec2MultScalar_def
      quadraticBezierPoint_def)

section \<open>Clipping planes\<close>

text \<open>
  Emitting a clip mask flips the current clip plane and does not write the swap flag.
\<close>

lemma generate_mask_planes:
  assumes "tpGLGenerateClippingMaskForRenderCache ctx cache rb = Some (r, ctx')"
  shows "r = False \<and> currentClipStencilPlane ctx' = flipPlane (currentClipStencilPlane ctx) \<and>
         bCanSwapStencilPlanes ctx' = bCanSwapStencilPlanes ctx"
  using assms
  by (auto simp: tpGLGenerateClippingMaskForRenderCache_def tpGLDrawRenderCacheImpl_def
      glDo_def Let_def split: if_splits)

lemma flipPlane_other: "flipPlane plane \<noteq> plane"
  by (simp add: flipPlane_def kTpGLClippingStencilPlaneOne_def kTpGLClippingStencilPlaneTwo_def)

lemma flipPlane_planes:
  "flipPlane kTpGLClippingStencilPlaneOne = kTpGLClippingStencilPlaneTwo"
  "flipPlane kTpGLClippingStencilPlaneTwo = kTpGLClippingStencilPlaneOne"
  by (simp_all add: flipPlane_def kTpGLClippingStencilPlaneOne_def
      kTpGLClippingStencilPlaneTwo_def)

text \<open>
  C1, as the code has it.  When \<^verbatim>\<open>tpBeginClipping\<close>, \<^verbatim>\<open>tpBeginClippingWithFillRule\<close> or
  \<^verbatim>\<open>tpBeginClippingFromRenderCache\<close> returns without error, the current clip plane of the
  context is the other plane, and the flag \<^verbatim>\<open>bCanSwapStencilPlanes\<close> is what it was before
  the call: it is not set.
\<close>

theorem beginClipping_flips_plane_keeps_canSwap:
  assumes "tpBeginClipping ctx upd = Some (False, ctx') \<or>
           tpBeginClippingWithFillRule ctx upd rule = Some (False, ctx') \<or>
           tpBeginClippingFromRenderCache ctx cache = Some (False, ctx')"
  shows "currentClipStencilPlane ctx' = flipPlane (currentClipStencilPlane ctx) \<and>
         currentClipStencilPlane ctx' \<noteq> currentClipStencilPlane ctx \<and>
         bCanSwapStencilPlanes ctx' = bCanSwapStencilPlanes ctx"
proof -
  have "\<exists>c0 ch. tpGLGenerateClippingMaskForRenderCache c0 ch False = Some (False, ctx') \<and>
          currentClipStencilPlane c0 = currentClipStencilPlane ctx \<and>
          bCanSwapStencilPlanes c0 = bCanSwapStencilPlanes ctx"
    using assms
  proof (elim disjE)
    assume "tpBeginClipping ctx upd = Some (False, ctx')"
    then show ?thesis
      by (intro exI[of _ "ctx\<lparr>clippingStyleFillRule := kTpFillRuleEvenOdd\<rparr>"] exI[of _ "snd upd"])
         (simp add: tpBeginClipping_def tpBeginClippingWithFillRule_def
            tpGLGenerateClippingMask_def Let_def split: if_splits)
  next
    assume "tpBeginClippingWithFillRule ctx upd rule = Some (False, ctx')"
    then show ?thesis
      by (intro exI[of _ "ctx\<lparr>clippingStyleFillRule := rule\<rparr>"] exI[of _ "snd upd"])
         (simp add: tpBeginClippingWithFillRule_def tpGLGenerateClippingMask_def Let_def
            split: if_splits)
  next
    assume "tpBeginClippingFromRenderCache ctx cache = Some (False, ctx')"
    then show ?thesis
      by (intro exI[of _ ctx] exI[of _ cache]) (simp add: tpBeginClippingFromRenderCache_def)
  qed
  then obtain c0 ch where
    g: "tpGLGenerateClippingMaskForRenderCache c0 ch False = Some (False, ctx')" and
    p: "currentClipStencilPlane c0 = currentClipStencilPlane ctx" and
    s: "bCanSwapStencilPlanes c0 = bCanSwapStencilPlanes ctx"
    by blast
  from generate_mask_planes[OF g] p s show ?thesis
    by (simp add: flipPlane_other)
qed

theorem beginClipping_flips_plane_keeps_canSwap_witness:
  "\<exists>ctx'. tpBeginClippingFromRenderCache contextCreate 1 = Some (False, ctx') \<and>
          currentClipStencilPlane ctx' = kTpGLClippingStencilPlaneTwo \<and>
          bCanSwapStencilPlanes ctx' = True"
proof -
  obtain ctx' where h: "tpBeginClippingFromRenderCache contextCreate 1 = Some (False, ctx')"
    by (simp add: tpBeginClippingFromRenderCache_def tpGLGenerateClippingMaskForRenderCache_def
        contextCreate_def tpGLDrawRenderCacheImpl_def Let_def
        TARP_GL_MAX_CLIPPING_STACK_DEPTH_def)
  from beginClipping_flips_plane_keeps_canSwap[OF disjI2[OF disjI2[OF h]]] h
  show ?thesis
    by (simp add: contextCreate_def flipPlane_planes)
qed

text \<open>
  The claim as stated fails: after two masks and one \<^verbatim>\<open>tpEndClipping\<close>, which swaps the
  planes back and clears the flag, the next mask is emitted without error and leaves the flag
  cleared.
\<close>

theorem beginClipping_canSwap_counterexample:
  "\<exists>ctx'. clipScenario = Some (False, ctx') \<and> bCanSwapStencilPlanes ctx' = False \<and>
          clippingStackDepth ctx' = 2"
  by (simp add: clipScenario_def tpBeginClippingFromRenderCache_def
      tpGLGenerateClippingMaskForRenderCache_def contextCreate_def tpGLDrawRenderCacheImpl_def
      glDo_def Let_def TARP_GL_MAX_CLIPPING_STACK_DEPTH_def tpEndClipping_def flipPlane_def
      kTpGLClippingStencilPlaneOne_def kTpGLClippingStencilPlaneTwo_def)

section \<open>The dash start state\<close>

text \<open>
  C6.  For the dash array \<open>[10, 5]\<close> and the dash offset \<open>-15\<close>, the negated length of the
  pattern, the offset into the pattern is zero after \<^verbatim>\<open>fmod\<close>, the rewinding loop does not
  run, and \<^verbatim>\<open>startDashIndex\<close> stays at \<^verbatim>\<open>dashCount\<close>, which is \<open>2\<close>: the code then reads
  \<^verbatim>\<open>dashArray[2]\<close>, past the end of the array.
\<close>

theorem dashStartState_negative_pattern_length:
  "dashStartState [10, 5] (- 15) = Inl (DashArrayOutOfBounds 2)"
  by (simp add: dashStartState_def c_fmod_def readDash_def Let_def)

text \<open>The same offset forwards, and offsets inside the pattern, give the state of the claim.\<close>

lemma dashStartState_samples:
  "dashStartState [10, 5] 15 = Inr \<lparr> startDashIndex = 0, bStartDashOn = True, startDashLen = 10 \<rparr>"
  "dashStartState [10, 5] 12 = Inr \<lparr> startDashIndex = 1, bStartDashOn = False, startDashLen = 3 \<rparr>"
  "dashStartState [10, 5] (- 3) = Inr \<lparr> startDashIndex = 1, bStartDashOn = False, startDashLen = 3 \<rparr>"
  "dashStartState [10, 5] (- 18) = Inr \<lparr> startDashIndex = 1, bStartDashOn = False, startDashLen = 3 \<rparr>"
  by (simp_all add: dashStartState_def c_fmod_def readDash_def Let_def)

section \<open>Finalizing the colour stops\<close>

lemma qsortStops_Nil: "qsortStops [] = []"
  by (simp add: qsortStops_def)

lemma qsortStops_Cons: "qsortStops (a # xs) = qsortInsert a (qsortStops xs)"
  by (simp add: qsortStops_def)

lemma qsortInsert_set: "set (qsortInsert a bs) = insert a (set bs)"
  by (induction bs) auto

lemma qsortInsert_distinct:
  "distinct (map offset (qsortInsert a bs)) \<longleftrightarrow>
     offset a \<notin> offset ` set bs \<and> distinct (map offset bs)"
  by (induction bs) (auto simp: qsortInsert_set)

lemma qsortInsert_sorted:
  "sorted (map offset bs) \<Longrightarrow> sorted (map offset (qsortInsert a bs))"
  by (induction bs) (auto simp: tpGLColorStopComp_def qsortInsert_set)

lemma qsortStops_set: "set (qsortStops xs) = set xs"
  by (induction xs) (auto simp: qsortStops_Nil qsortStops_Cons qsortInsert_set)

lemma qsortStops_distinct: "distinct (map offset (qsortStops xs)) \<longleftrightarrow> distinct (map offset xs)"
  by (induction xs) (auto simp: qsortStops_Nil qsortStops_Cons qsortInsert_distinct qsortStops_set)

lemma qsortStops_sorted: "sorted (map offset (qsortStops xs))"
  by (induction xs) (auto simp: qsortStops_Nil qsortStops_Cons qsortInsert_sorted)

text \<open>What the first loop leaves in \<open>tmp\<close>.\<close>

lemma removeDuplicateStops_flags:
  "removeDuplicateStops stops tmp hs he = (tmp', hs', he') \<Longrightarrow>
     (hs' \<longleftrightarrow> hs \<or> 0 \<in> offset ` set stops) \<and>
     (he' \<longleftrightarrow> he \<or> 1 \<in> offset ` set stops)"
  by (induction stops arbitrary: tmp hs he) (auto simp: Let_def split: if_splits)

lemma removeDuplicateStops_offsets:
  "removeDuplicateStops stops tmp hs he = (tmp', hs', he') \<Longrightarrow>
     offset ` set tmp' = offset ` set tmp \<union> offset ` set (inRangeStops stops)"
  by (induction stops arbitrary: tmp hs he) (auto simp: Let_def inRangeStops_def split: if_splits)

lemma removeDuplicateStops_distinct:
  "removeDuplicateStops stops tmp hs he = (tmp', hs', he') \<Longrightarrow> distinct (map offset tmp) \<Longrightarrow>
     distinct (map offset tmp')"
  by (induction stops arbitrary: tmp hs he) (auto simp: Let_def split: if_splits)

lemma removeDuplicateStops_first:
  "removeDuplicateStops stops tmp hs he = (tmp', hs', he') \<Longrightarrow> u \<in> set tmp' \<Longrightarrow>
     u \<in> set tmp \<or>
     (offset u \<notin> offset ` set tmp \<and> 0 \<le> offset u \<and> offset u \<le> 1 \<and>
      find (\<lambda>s. offset s = offset u) stops = Some u)"
proof (induction stops arbitrary: tmp hs he)
  case Nil
  then show ?case by simp
next
  case (Cons current rest)
  let ?add = "offset current \<notin> offset ` set tmp \<and> offset current \<ge> 0 \<and> offset current \<le> 1"
  let ?tmp1 = "if ?add then tmp @ [current] else tmp"
  from Cons.prems(1) obtain hs1 he1 where
    r: "removeDuplicateStops rest ?tmp1 hs1 he1 = (tmp', hs', he')"
    by (auto simp: Let_def split: if_splits)
  from Cons.IH[OF r Cons.prems(2)] consider
      (old) "u \<in> set ?tmp1"
    | (new) "offset u \<notin> offset ` set ?tmp1" "0 \<le> offset u" "offset u \<le> 1"
            "find (\<lambda>s. offset s = offset u) rest = Some u"
    by blast
  then show ?case
  proof cases
    case old
    show ?thesis
    proof (cases ?add)
      case True
      with old have "u \<in> set tmp \<or> u = current" by auto
      with True show ?thesis by auto
    next
      case False
      with old show ?thesis by auto
    qed
  next
    case new
    show ?thesis
    proof (cases ?add)
      case True
      with new(1) have "offset u \<noteq> offset current" "offset u \<notin> offset ` set tmp" by auto
      with new show ?thesis by auto
    next
      case False
      with new(1) have nt: "offset u \<notin> offset ` set tmp" by auto
      have "offset current \<noteq> offset u"
      proof
        assume e: "offset current = offset u"
        with False new(2,3) have "offset current \<in> offset ` set tmp" by simp
        with e nt show False by simp
      qed
      with new nt show ?thesis by auto
    qed
  qed
qed



lemma sorted_hd_Min: "sorted xs \<Longrightarrow> xs \<noteq> [] \<Longrightarrow> hd xs = Min (set xs)"
  by (cases xs) (auto intro!: Min_eqI[symmetric])

lemma sorted_last_Max: "sorted xs \<Longrightarrow> xs \<noteq> [] \<Longrightarrow> last xs = Max (set xs)"
proof -
  assume s: "sorted xs" and n: "xs \<noteq> []"
  then have "xs = butlast xs @ [last xs]" by simp
  with s have "sorted (butlast xs @ [last xs])" by simp
  then have "\<forall>x\<in>set (butlast xs). x \<le> last xs" by (simp add: sorted_append)
  moreover have "set xs = insert (last xs) (set (butlast xs))"
    using n by (metis append_butlast_last_id list.set(1,2) set_append Un_insert_right sup_bot.right_neutral)
  ultimately show ?thesis
    by (auto intro!: Max_eqI[symmetric])
qed

lemma find_inRange:
  "0 \<le> x \<Longrightarrow> x \<le> 1 \<Longrightarrow>
     find (\<lambda>s. offset s = x) (inRangeStops stops) = find (\<lambda>s. offset s = x) stops"
  by (induction stops) (auto simp: inRangeStops_def)

text \<open>
  What finalization does when at least one stop has its offset in \<open>[0, 1]\<close>.  The stops outside
  that range do not pass the test \<^verbatim>\<open>current->offset >= 0 && current->offset <= 1\<close> and are
  left out.
\<close>

lemma finalizeColorStops_some_in_range:
  assumes inr: "\<exists>s \<in> set stops. 0 \<le> offset s \<and> offset s \<le> 1"
  shows "\<exists>out. tpGLFinalizeColorStops stops = Some out \<and>
           distinct (map offset out) \<and> sorted (map offset out) \<and> out \<noteq> [] \<and>
           offset (hd out) = 0 \<and> offset (last out) = 1 \<and>
           offset ` set out = insert 0 (insert 1 (offset ` set (inRangeStops stops))) \<and>
           (0 \<notin> offset ` set stops \<longrightarrow> color (hd out) = color (lowestStop (inRangeStops stops))) \<and>
           (1 \<notin> offset ` set stops \<longrightarrow> color (last out) = color (highestStop (inRangeStops stops)))"
proof -
  obtain tmp0 hs he where r: "removeDuplicateStops stops [] False False = (tmp0, hs, he)"
    by (metis prod_cases3)
  define tmp where "tmp = qsortStops tmp0"
  define R where "R = offset ` set (inRangeStops stops)"
  from inr have ne: "stops \<noteq> []" by auto
  from inr have Rne: "R \<noteq> {}" by (auto simp: R_def inRangeStops_def)
  have Rfin: "finite R" by (simp add: R_def)
  have Rrange: "\<And>x. x \<in> R \<Longrightarrow> 0 \<le> x \<and> x \<le> 1" by (auto simp: R_def inRangeStops_def)
  have hs: "hs \<longleftrightarrow> 0 \<in> offset ` set stops" and he: "he \<longleftrightarrow> 1 \<in> offset ` set stops"
    using removeDuplicateStops_flags[OF r] by simp_all
  have offs: "offset ` set tmp = R"
    using removeDuplicateStops_offsets[OF r] by (simp add: tmp_def qsortStops_set R_def)
  have dist: "distinct (map offset tmp)"
    using removeDuplicateStops_distinct[OF r] by (simp add: tmp_def qsortStops_distinct)
  have srt: "sorted (map offset tmp)" by (simp add: tmp_def qsortStops_sorted)
  have tne: "tmp \<noteq> []" using offs Rne by auto
  have first: "\<And>u. u \<in> set tmp \<Longrightarrow> find (\<lambda>s. offset s = offset u) (inRangeStops stops) = Some u"
  proof -
    fix u assume "u \<in> set tmp"
    then have "u \<in> set tmp0" by (simp add: tmp_def qsortStops_set)
    from removeDuplicateStops_first[OF r this]
    show "find (\<lambda>s. offset s = offset u) (inRangeStops stops) = Some u"
      by (simp add: find_inRange)
  qed
  have hdmin: "offset (hd tmp) = Min R"
    using sorted_hd_Min[OF srt] tne offs by (simp add: hd_map)
  have lastmax: "offset (last tmp) = Max R"
    using sorted_last_Max[OF srt] tne offs by (simp add: last_map)
  have low: "lowestStop (inRangeStops stops) = hd tmp"
    using first[of "hd tmp"] tne hdmin by (simp add: lowestStop_def R_def)
  have high: "highestStop (inRangeStops stops) = last tmp"
    using first[of "last tmp"] tne lastmax by (simp add: highestStop_def R_def)
  have zero_in: "0 \<in> offset ` set stops \<Longrightarrow> 0 \<in> R"
    by (auto simp: R_def inRangeStops_def)
  have one_in: "1 \<in> offset ` set stops \<Longrightarrow> 1 \<in> R"
    by (auto simp: R_def inRangeStops_def)
  have zero_notin: "0 \<notin> offset ` set stops \<Longrightarrow> 0 \<notin> R"
    by (auto simp: R_def inRangeStops_def)
  have one_notin: "1 \<notin> offset ` set stops \<Longrightarrow> 1 \<notin> R"
    by (auto simp: R_def inRangeStops_def)
  have min0: "0 \<in> R \<Longrightarrow> Min R = 0"
    using Rrange Rfin by (auto intro!: Min_eqI)
  have max1: "1 \<in> R \<Longrightarrow> Max R = 1"
    using Rrange Rfin by (auto intro!: Max_eqI)
  define pre where "pre = (if \<not> hs then [\<lparr> color = color (tmp ! 0), offset = 0 \<rparr>] else [])"
  define post where "post = (if \<not> he then [\<lparr> color = color (last tmp), offset = 1 \<rparr>] else [])"
  define out where "out = pre @ tmp @ post"
  have res: "tpGLFinalizeColorStops stops = Some out"
    using ne r tne
    by (auto simp: tpGLFinalizeColorStops_def tmp_def[symmetric] out_def pre_def post_def)
  have tmp_mem: "\<And>x. x \<in> set tmp \<Longrightarrow> 0 \<le> offset x \<and> offset x \<le> 1"
    using offs Rrange by auto
  have d: "distinct (map offset out)"
    using dist offs hs he zero_notin one_notin
    by (auto simp: out_def pre_def post_def)
  have s: "sorted (map offset out)"
    using srt tmp_mem by (auto simp: out_def pre_def post_def sorted_append)
  have h0: "offset (hd out) = 0"
    using tne hdmin min0 zero_in hs by (auto simp: out_def pre_def)
  have l1: "offset (last out) = 1"
    using tne lastmax max1 one_in he by (auto simp: out_def post_def)
  have c0: "0 \<notin> offset ` set stops \<Longrightarrow> color (hd out) = color (lowestStop (inRangeStops stops))"
    using hs tne low by (simp add: out_def pre_def hd_conv_nth)
  have c1: "1 \<notin> offset ` set stops \<Longrightarrow> color (last out) = color (highestStop (inRangeStops stops))"
    using he tne high by (simp add: out_def post_def)
  have os: "offset ` set out = insert 0 (insert 1 R)"
    using offs hs he zero_in one_in by (auto simp: out_def pre_def post_def)
  have one: "out \<noteq> []" using tne by (simp add: out_def)
  from res d s one h0 l1 os c0 c1 show ?thesis
    unfolding R_def by (intro exI[of _ out] conjI impI) assumption+
qed

lemma inRangeStops_all:
  "\<forall>s\<in>set stops. 0 \<le> offset s \<and> offset s \<le> 1 \<Longrightarrow> inRangeStops stops = stops"
  by (simp add: inRangeStops_def)

text \<open>
  Claim C7.  The offsets of gradient stops are numbers between \<open>0\<close> and \<open>1\<close> (so the API
  documents \<^verbatim>\<open>tpGradientAddColorStop\<close>).  For every gradient with a non-empty list of such
  stops, finalization returns a stop list that holds no two stops of the same offset, is sorted
  ascending by offset, begins with a stop at offset \<open>0\<close> and ends with a stop at offset \<open>1\<close>;
  its offsets are those of the gradient together with \<open>0\<close> and \<open>1\<close>.  If no stop was at offset
  \<open>0\<close>, the stop at \<open>0\<close> has the colour of the (first) stop of the lowest offset; if no stop
  was at offset \<open>1\<close>, the stop at \<open>1\<close> has the colour of the (first) stop of the highest offset.
\<close>

theorem finalizeColorStops_finalized:
  assumes ne: "stops \<noteq> []"
      and rng: "\<forall>s\<in>set stops. 0 \<le> offset s \<and> offset s \<le> 1"
  shows "\<exists>out. tpGLFinalizeColorStops stops = Some out \<and>
           distinct (map offset out) \<and> sorted (map offset out) \<and> out \<noteq> [] \<and>
           offset (hd out) = 0 \<and> offset (last out) = 1 \<and>
           offset ` set out = insert 0 (insert 1 (offset ` set stops)) \<and>
           (0 \<notin> offset ` set stops \<longrightarrow> color (hd out) = color (lowestStop stops)) \<and>
           (1 \<notin> offset ` set stops \<longrightarrow> color (last out) = color (highestStop stops))"
proof -
  from ne obtain s where "s \<in> set stops" by (cases stops) auto
  with rng have "\<exists>s \<in> set stops. 0 \<le> offset s \<and> offset s \<le> 1" by blast
  from finalizeColorStops_some_in_range[OF this] show ?thesis
    unfolding inRangeStops_all[OF rng] .
qed

text \<open>Red at \<open>7/10\<close> and blue at \<open>1/2\<close>: blue is copied to offset \<open>0\<close>, red to offset \<open>1\<close>.\<close>

theorem finalizeColorStops_finalized_witness:
  "[\<lparr> color = tpColorMake 1 0 0 1, offset = 7 / 10 \<rparr>,
    \<lparr> color = tpColorMake 0 0 1 1, offset = 1 / 2 \<rparr>] \<noteq> [] \<and>
   (\<exists>out. tpGLFinalizeColorStops [\<lparr> color = tpColorMake 1 0 0 1, offset = 7 / 10 \<rparr>,
                                   \<lparr> color = tpColorMake 0 0 1 1, offset = 1 / 2 \<rparr>] = Some out \<and>
      distinct (map offset out) \<and> sorted (map offset out) \<and>
      offset (hd out) = 0 \<and> offset (last out) = 1 \<and>
      offset ` set out = {0, 1 / 2, 7 / 10, 1} \<and>
      color (hd out) = tpColorMake 0 0 1 1 \<and> color (last out) = tpColorMake 1 0 0 1)"
proof -
  let ?ws = "[\<lparr> color = tpColorMake 1 0 0 1, offset = 7 / 10 \<rparr>,
              \<lparr> color = tpColorMake 0 0 1 1, offset = 1 / 2 \<rparr>]"
  have n: "?ws \<noteq> []" by simp
  have h: "\<forall>s \<in> set ?ws. 0 \<le> offset s \<and> offset s \<le> 1" by simp
  have lo: "lowestStop ?ws = \<lparr> color = tpColorMake 0 0 1 1, offset = 1 / 2 \<rparr>"
    by (simp add: lowestStop_def)
  have hi: "highestStop ?ws = \<lparr> color = tpColorMake 1 0 0 1, offset = 7 / 10 \<rparr>"
    by (simp add: highestStop_def)
  from finalizeColorStops_finalized[OF n h] obtain out where
    "tpGLFinalizeColorStops ?ws = Some out" "distinct (map offset out)" "sorted (map offset out)"
    "offset (hd out) = 0" "offset (last out) = 1"
    "offset ` set out = insert 0 (insert 1 (offset ` set ?ws))"
    "color (hd out) = color (lowestStop ?ws)"
    "color (last out) = color (highestStop ?ws)"
    by auto
  with lo hi show ?thesis
    by auto
qed

text \<open>
  Offsets outside \<open>[0, 1]\<close>, which the API does not reject: of the stops red at \<open>-1/2\<close> and
  blue at \<open>1/2\<close> only the blue one is kept, and both synthesized stops are blue.  When every
  stop lies outside \<open>[0, 1]\<close>, the code reads from the empty array.
\<close>

lemma finalizeColorStops_out_of_range:
  "tpGLFinalizeColorStops [\<lparr> color = tpColorMake 1 0 0 1, offset = - 1 / 2 \<rparr>,
                           \<lparr> color = tpColorMake 0 0 1 1, offset = 1 / 2 \<rparr>]
     = Some [\<lparr> color = tpColorMake 0 0 1 1, offset = 0 \<rparr>,
             \<lparr> color = tpColorMake 0 0 1 1, offset = 1 / 2 \<rparr>,
             \<lparr> color = tpColorMake 0 0 1 1, offset = 1 \<rparr>]"
  by (simp add: tpGLFinalizeColorStops_def qsortStops_def tpGLColorStopComp_def)

lemma finalizeColorStops_all_out_of_range:
  "tpGLFinalizeColorStops [\<lparr> color = tpColorMake 1 0 0 1, offset = 2 \<rparr>] = None"
  by (simp add: tpGLFinalizeColorStops_def qsortStops_def)

section \<open>Termination of curve flattening\<close>

text \<open>
  Bisecting a cubic at \<open>1 / 2\<close> halves the distances between consecutive control points, so
  that after finitely many bisections every piece passes the linearity test of
  \<^verbatim>\<open>_tpGLIsCurveFlatEnough\<close>, whatever the tolerance is.
\<close>

lemma scalar_halving:
  fixes a b c d D :: real
  assumes "\<bar>a - b\<bar> \<le> D" "\<bar>b - c\<bar> \<le> D" "\<bar>c - d\<bar> \<le> D"
  shows "\<bar>a - (a + b) / 2\<bar> \<le> D / 2"
    and "\<bar>(a + b) / 2 - (a + 2 * b + c) / 4\<bar> \<le> D / 2"
    and "\<bar>(a + 2 * b + c) / 4 - (a + 3 * b + 3 * c + d) / 8\<bar> \<le> D / 2"
    and "\<bar>(a + 3 * b + 3 * c + d) / 8 - (b + 2 * c + d) / 4\<bar> \<le> D / 2"
    and "\<bar>(b + 2 * c + d) / 4 - (c + d) / 2\<bar> \<le> D / 2"
    and "\<bar>(c + d) / 2 - d\<bar> \<le> D / 2"
proof -
  show "\<bar>a - (a + b) / 2\<bar> \<le> D / 2" using assms by argo
  show "\<bar>(a + b) / 2 - (a + 2 * b + c) / 4\<bar> \<le> D / 2" using assms by argo
  show "\<bar>(a + 2 * b + c) / 4 - (a + 3 * b + 3 * c + d) / 8\<bar> \<le> D / 2" using assms by argo
  show "\<bar>(a + 3 * b + 3 * c + d) / 8 - (b + 2 * c + d) / 4\<bar> \<le> D / 2" using assms by argo
  show "\<bar>(b + 2 * c + d) / 4 - (c + d) / 2\<bar> \<le> D / 2" using assms by argo
  show "\<bar>(c + d) / 2 - d\<bar> \<le> D / 2" using assms by argo
qed

lemma lerp_half: "tpVec2Lerp a b (1 / 2) = tpVec2Make ((vx a + vx b) / 2) ((vy a + vy b) / 2)"
  by (simp add: tpVec2Lerp_def tpVec2Add_def tpVec2MultScalar_def field_simps)

lemma subdivide_half:
  "tpGLSubdivideCurve c 0.5 =
    \<lparr> cp_first = Curve (c_p0 c)
        (tpVec2Make ((vx (c_p0 c) + vx (c_h0 c)) / 2) ((vy (c_p0 c) + vy (c_h0 c)) / 2))
        (tpVec2Make ((vx (c_p0 c) + 2 * vx (c_h0 c) + vx (c_h1 c)) / 4)
                    ((vy (c_p0 c) + 2 * vy (c_h0 c) + vy (c_h1 c)) / 4))
        (tpVec2Make ((vx (c_p0 c) + 3 * vx (c_h0 c) + 3 * vx (c_h1 c) + vx (c_p1 c)) / 8)
                    ((vy (c_p0 c) + 3 * vy (c_h0 c) + 3 * vy (c_h1 c) + vy (c_p1 c)) / 8)),
      cp_second = Curve
        (tpVec2Make ((vx (c_p0 c) + 3 * vx (c_h0 c) + 3 * vx (c_h1 c) + vx (c_p1 c)) / 8)
                    ((vy (c_p0 c) + 3 * vy (c_h0 c) + 3 * vy (c_h1 c) + vy (c_p1 c)) / 8))
        (tpVec2Make ((vx (c_h0 c) + 2 * vx (c_h1 c) + vx (c_p1 c)) / 4)
                    ((vy (c_h0 c) + 2 * vy (c_h1 c) + vy (c_p1 c)) / 4))
        (tpVec2Make ((vx (c_h1 c) + vx (c_p1 c)) / 2) ((vy (c_h1 c) + vy (c_p1 c)) / 2))
        (c_p1 c) \<rparr>"
  by (simp add: tpGLSubdivideCurve_def Let_def lerp_half add_divide_distrib)

lemma spread_bounds:
  "\<bar>vx (c_p0 c) - vx (c_h0 c)\<bar> \<le> curveSpread c" "\<bar>vy (c_p0 c) - vy (c_h0 c)\<bar> \<le> curveSpread c"
  "\<bar>vx (c_h0 c) - vx (c_h1 c)\<bar> \<le> curveSpread c" "\<bar>vy (c_h0 c) - vy (c_h1 c)\<bar> \<le> curveSpread c"
  "\<bar>vx (c_h1 c) - vx (c_p1 c)\<bar> \<le> curveSpread c" "\<bar>vy (c_h1 c) - vy (c_p1 c)\<bar> \<le> curveSpread c"
  by (simp_all add: curveSpread_def le_max_iff_disj)



lemma curveSpread_le_iff:
  "curveSpread c \<le> d \<longleftrightarrow>
     \<bar>vx (c_p0 c) - vx (c_h0 c)\<bar> \<le> d \<and> \<bar>vy (c_p0 c) - vy (c_h0 c)\<bar> \<le> d \<and>
     \<bar>vx (c_h0 c) - vx (c_h1 c)\<bar> \<le> d \<and> \<bar>vy (c_h0 c) - vy (c_h1 c)\<bar> \<le> d \<and>
     \<bar>vx (c_h1 c) - vx (c_p1 c)\<bar> \<le> d \<and> \<bar>vy (c_h1 c) - vy (c_p1 c)\<bar> \<le> d"
  by (simp only: curveSpread_def max.bounded_iff conj_assoc)

lemma spread_first:
  "curveSpread (cp_first (tpGLSubdivideCurve c 0.5)) \<le> curveSpread c / 2"
proof -
  note hx = scalar_halving(1,2,3)[OF spread_bounds(1,3,5)[of c]]
  note hy = scalar_halving(1,2,3)[OF spread_bounds(2,4,6)[of c]]
  show ?thesis
    unfolding subdivide_half curveSpread_le_iff tpGLCurvePair.simps tpGLCurve.sel tpVec2.sel
    by (intro conjI hx hy)
qed

lemma spread_second:
  "curveSpread (cp_second (tpGLSubdivideCurve c 0.5)) \<le> curveSpread c / 2"
proof -
  note hx = scalar_halving(4,5,6)[OF spread_bounds(1,3,5)[of c]]
  note hy = scalar_halving(4,5,6)[OF spread_bounds(2,4,6)[of c]]
  show ?thesis
    unfolding subdivide_half curveSpread_le_iff tpGLCurvePair.simps tpGLCurve.sel tpVec2.sel
    by (intro conjI hx hy)
qed

lemma spread_nonneg: "0 \<le> curveSpread c"
  using spread_bounds(1)[of c] by linarith

lemma FLT_EPSILON_pos: "0 < FLT_EPSILON"
  by (simp add: FLT_EPSILON_def)

lemma rank_exists: "\<exists>n. curveSpread c \<le> FLT_EPSILON * 2 ^ n"
proof -
  obtain n where "curveSpread c / FLT_EPSILON < 2 ^ n"
    using real_arch_pow[of 2 "curveSpread c / FLT_EPSILON"] by auto
  then have "curveSpread c < FLT_EPSILON * 2 ^ n"
    using FLT_EPSILON_pos by (simp add: field_simps)
  then show ?thesis by (intro exI[of _ n]) simp
qed

lemma rank_bound: "curveSpread c \<le> FLT_EPSILON * 2 ^ curveRank c"
  unfolding curveRank_def using rank_exists by (rule LeastI_ex)

lemma small_spread_linear: "curveSpread c \<le> FLT_EPSILON \<Longrightarrow> tpGLIsCurveLinear c"
proof -
  assume a: "curveSpread c \<le> FLT_EPSILON"
  have close: "\<And>u w. \<bar>u - w\<bar> \<le> FLT_EPSILON \<Longrightarrow> tpGLIsClose u w FLT_EPSILON"
  proof -
    fix u w :: real assume h: "\<bar>u - w\<bar> \<le> FLT_EPSILON"
    have "1 \<le> TARP_MAX 1 (TARP_MAX \<bar>u\<bar> \<bar>w\<bar>)" by (simp add: TARP_MAX_def)
    then have "FLT_EPSILON * 1 \<le> FLT_EPSILON * TARP_MAX 1 (TARP_MAX \<bar>u\<bar> \<bar>w\<bar>)"
      using FLT_EPSILON_pos by (intro mult_left_mono) simp_all
    with h show "tpGLIsClose u w FLT_EPSILON" by (simp add: tpGLIsClose_def Let_def)
  qed
  have "\<bar>vx (c_p1 c) - vx (c_h1 c)\<bar> \<le> curveSpread c" "\<bar>vy (c_p1 c) - vy (c_h1 c)\<bar> \<le> curveSpread c"
    using spread_bounds(5,6)[of c] by (simp_all add: abs_minus_commute)
  with a spread_bounds(1,2)[of c] show ?thesis
    unfolding tpGLIsCurveLinear_def by (intro conjI close) linarith+
qed

lemma not_flat_rank: "\<not> tpGLIsCurveFlatEnough c tol \<Longrightarrow> 0 < curveRank c"
proof (rule ccontr)
  assume nf: "\<not> tpGLIsCurveFlatEnough c tol" and "\<not> 0 < curveRank c"
  then have "curveRank c = 0" by simp
  with rank_bound[of c] have "curveSpread c \<le> FLT_EPSILON" by simp
  then have "tpGLIsCurveLinear c" by (rule small_spread_linear)
  with nf show False by (simp add: tpGLIsCurveFlatEnough_def)
qed

lemma rank_half:
  assumes "curveSpread h \<le> curveSpread c / 2" "0 < curveRank c"
  shows "curveRank h < curveRank c"
proof -
  obtain k where k: "curveRank c = Suc k" using assms(2) by (cases "curveRank c") auto
  have "curveSpread h \<le> FLT_EPSILON * 2 ^ curveRank c / 2"
    using assms(1) rank_bound[of c] by linarith
  then have "curveSpread h \<le> FLT_EPSILON * 2 ^ k" by (simp add: k)
  then have "curveRank h \<le> k" unfolding curveRank_def by (rule Least_le)
  with k show ?thesis by simp
qed

lemma two_le_power: "(2::nat) \<le> 2 ^ (n + 1)"
  by (induction n) simp_all

lemma weight_pos: "0 < curveWeight c"
proof -
  have "(2::nat) \<le> 2 ^ (curveRank c + 1)" by (rule two_le_power)
  then have "0 < (2::nat) ^ (curveRank c + 1) - 1" by linarith
  then show ?thesis by (simp only: curveWeight_def)
qed

lemma weight_halves:
  assumes "curveRank a < curveRank c" "curveRank b < curveRank c"
  shows "curveWeight a + curveWeight b < curveWeight c"
proof -
  define A :: nat where "A = 2 ^ (curveRank a + 1)"
  define B :: nat where "B = 2 ^ (curveRank b + 1)"
  define C :: nat where "C = 2 ^ curveRank c"
  have a: "A \<le> C"
    unfolding A_def C_def using assms(1) by (intro power_increasing) simp_all
  have b: "B \<le> C"
    unfolding B_def C_def using assms(2) by (intro power_increasing) simp_all
  have "2 \<le> A" "2 \<le> B"
    unfolding A_def B_def by (rule two_le_power)+
  with a b have "(A - 1) + (B - 1) < 2 * C - 1" by linarith
  then show ?thesis
    by (simp add: curveWeight_def A_def B_def C_def)
qed

lemma flattenStep_decreases:
  assumes "fs_stack s \<noteq> []"
  shows "stackMeasure (flattenStep curve tol cl lc s) < stackMeasure s"
proof -
  obtain current rest where st: "fs_stack s = current # rest"
    using assms by (cases "fs_stack s") auto
  show ?thesis
  proof (cases "length rest < TARP_MAX_CURVE_SUBDIVISIONS - 1 \<and> \<not> tpGLIsCurveFlatEnough current tol")
    case True
    then have r: "0 < curveRank current" using not_flat_rank by blast
    have "curveWeight (cp_first (tpGLSubdivideCurve current 0.5)) +
          curveWeight (cp_second (tpGLSubdivideCurve current 0.5)) < curveWeight current"
      by (intro weight_halves rank_half spread_first spread_second r)
    with True st show ?thesis
      by (simp add: flattenStep_def stackMeasure_def Let_def)
  next
    case False
    with st weight_pos[of current] show ?thesis
      by (auto simp: flattenStep_def stackMeasure_def Let_def)
  qed
qed

lemma flattenLoop_terminates:
  "\<exists>t. while_option (\<lambda>s. fs_stack s \<noteq> []) (flattenStep curve tol cl lc) s0 = Some t"
  by (rule measure_while_option_Some[where P = "\<lambda>_. True" and f = stackMeasure])
     (simp_all add: flattenStep_decreases)

lemma flattenCurve_terminates:
  "\<exists>out'. tpGLFlattenCurve curve tol cl fc lc out = Some out'"
  using flattenLoop_terminates[of curve tol cl lc "flattenInit curve fc out"]
  by (auto simp: tpGLFlattenCurve_def)

lemma flattenStep_stack_bound:
  "length (fs_stack s) \<le> TARP_MAX_CURVE_SUBDIVISIONS \<Longrightarrow>
   length (fs_stack (flattenStep curve tol cl lc s)) \<le> TARP_MAX_CURVE_SUBDIVISIONS"
  by (cases "fs_stack s")
     (auto simp: flattenStep_def Let_def TARP_MAX_CURVE_SUBDIVISIONS_def)

lemma flatten_stack_bound:
  "length (fs_stack ((flattenStep curve tol cl lc ^^ n) (flattenInit curve fc out)))
     \<le> TARP_MAX_CURVE_SUBDIVISIONS"
  by (induction n)
     (simp_all add: flattenStep_stack_bound, simp add: flattenInit_def TARP_MAX_CURVE_SUBDIVISIONS_def)

text \<open>
  The loop on floats.  On numbers it does what the loop on real numbers does, step by step.
\<close>

lemma nan_ops_num [simp]:
  "TARP_MAX_nan (Num a) (Num b) = Num (TARP_MAX a b)"
  "TARP_MIN_nan (Num a) (Num b) = Num (TARP_MIN a b)"
  by (simp_all add: TARP_MAX_nan_def TARP_MIN_nan_def TARP_MAX_def TARP_MIN_def)

lemma numVec_sel [simp]: "nx (numVec v) = Num (vx v)" "ny (numVec v) = Num (vy v)"
  by (simp_all add: numVec_def)

lemma numCurve_sel [simp]:
  "n_p0 (numCurve c) = numVec (c_p0 c)" "n_h0 (numCurve c) = numVec (c_h0 c)"
  "n_h1 (numCurve c) = numVec (c_h1 c)" "n_p1 (numCurve c) = numVec (c_p1 c)"
  by (simp_all add: numCurve_def)

lemma isClose_num: "tpGLIsClose_nan (Num a) (Num b) (Num e) = tpGLIsClose a b e"
  by (simp add: tpGLIsClose_nan_def tpGLIsClose_def Let_def)

lemma isLinear_num: "tpGLIsCurveLinear_nan (numCurve c) = tpGLIsCurveLinear c"
  by (simp add: tpGLIsCurveLinear_nan_def tpGLIsCurveLinear_def isClose_num)

lemma isFlat_num: "tpGLIsCurveFlatEnough_nan (numCurve c) (Num tol) = tpGLIsCurveFlatEnough c tol"
  by (simp add: tpGLIsCurveFlatEnough_nan_def tpGLIsCurveFlatEnough_def isLinear_num Let_def)

lemma lerp_num: "tpVec2Lerp_nan (numVec a) (numVec b) (Num s) = numVec (tpVec2Lerp a b s)"
  by (simp add: tpVec2Lerp_nan_def tpVec2Lerp_def tpVec2Add_nan_def tpVec2Add_def
        tpVec2MultScalar_nan_def tpVec2MultScalar_def numVec_def)

lemma subdivide_num:
  "tpGLSubdivideCurve_nan (numCurve c) (Num s) =
     (numCurve (cp_first (tpGLSubdivideCurve c s)), numCurve (cp_second (tpGLSubdivideCurve c s)))"
  by (simp add: tpGLSubdivideCurve_nan_def tpGLSubdivideCurve_def Let_def lerp_num numCurve_def)

lemma equals_num: "tpVec2Equals_nan (numVec a) (numVec b) = tpVec2Equals a b"
  by (simp add: tpVec2Equals_nan_def tpVec2Equals_def)

lemma bounds_num:
  "tpGLEvaluatePointForBounds_nan (numVec v) (numRect b) = numRect (tpGLEvaluatePointForBounds v b)"
  by (simp add: tpGLEvaluatePointForBounds_nan_def tpGLEvaluatePointForBounds_def numRect_def
        numVec_def)

lemma flattenStep_num:
  "flattenStep_nan (numCurve curve) (Num tol) cl lc (numState s) =
     numState (flattenStep curve tol cl lc s)"
proof (cases "fs_stack s")
  case Nil
  then show ?thesis by (simp add: flattenStep_nan_def flattenStep_def numState_def)
next
  case (Cons current rest)
  then show ?thesis
    by (simp add: flattenStep_nan_def flattenStep_def numState_def isFlat_num subdivide_num
          Let_def numOut_def equals_num bounds_num)
qed

lemma flattenCurve_num:
  "tpGLFlattenCurve_nan (numCurve curve) (Num tol) cl fc lc (numOut out) =
     map_option numOut (tpGLFlattenCurve curve tol cl fc lc out)"
proof -
  have i: "numState (flattenInit curve fc out) = flattenInit_nan (numCurve curve) fc (numOut out)"
    by (simp add: numState_def flattenInit_def flattenInit_nan_def)
  have "map_option numState
          (while_option (\<lambda>s. fs_stack s \<noteq> []) (flattenStep curve tol cl lc)
             (flattenInit curve fc out)) =
        while_option (\<lambda>s. fs_stack_nan s \<noteq> [])
          (flattenStep_nan (numCurve curve) (Num tol) cl lc)
          (numState (flattenInit curve fc out))"
    by (rule while_option_commute) (simp_all add: numState_def flattenStep_num[unfolded numState_def])
  then have w: "while_option (\<lambda>s. fs_stack_nan s \<noteq> [])
          (flattenStep_nan (numCurve curve) (Num tol) cl lc)
          (flattenInit_nan (numCurve curve) fc (numOut out)) =
        map_option numState
          (while_option (\<lambda>s. fs_stack s \<noteq> []) (flattenStep curve tol cl lc)
             (flattenInit curve fc out))"
    unfolding i by (rule sym)
  show ?thesis
    unfolding tpGLFlattenCurve_nan_def tpGLFlattenCurve_def w
    by (simp add: option.map_comp comp_def numState_def)
qed

lemma flattenStep_nan_stack_bound:
  "length (fs_stack_nan s) \<le> TARP_MAX_CURVE_SUBDIVISIONS \<Longrightarrow>
   length (fs_stack_nan (flattenStep_nan curve tol cl lc s)) \<le> TARP_MAX_CURVE_SUBDIVISIONS"
  by (cases "fs_stack_nan s")
     (auto simp: flattenStep_nan_def Let_def TARP_MAX_CURVE_SUBDIVISIONS_def)

lemma flatten_nan_stack_bound:
  "length (fs_stack_nan ((flattenStep_nan curve tol cl lc ^^ n) (flattenInit_nan curve fc out)))
     \<le> TARP_MAX_CURVE_SUBDIVISIONS"
  by (induction n)
     (simp_all add: flattenStep_nan_stack_bound,
      simp add: flattenInit_nan_def TARP_MAX_CURVE_SUBDIVISIONS_def)

text \<open>
  A curve whose start or end point has NaN as its \<open>x\<close> fails every comparison of the flatness
  test, and so do both halves of it: the point where they meet is NaN.  Such a curve is popped
  from a full stack only, which leaves fifteen curves of the same kind, and the loop never
  finds the stack empty.
\<close>

lemma nan_absorbs [simp]:
  "nanAdd NaN b = NaN" "nanAdd a NaN = NaN" "nanSub NaN b = NaN" "nanSub a NaN = NaN"
  "nanMult NaN b = NaN" "nanMult a NaN = NaN"
  "\<not> nanLess NaN b" "\<not> nanLess a NaN" "\<not> nanLessEq NaN b" "\<not> nanLessEq a NaN"
  by (cases a; cases b; simp)+

lemma nan_never_flat:
  assumes "nanInCurve c"
  shows "\<not> tpGLIsCurveFlatEnough_nan c tol"
proof -
  have nl: "\<not> tpGLIsCurveLinear_nan c"
    using assms
    by (auto simp: nanInCurve_def tpGLIsCurveLinear_nan_def tpGLIsClose_nan_def Let_def)
  have wx: "nanSub (nanSub (nanMult (nx (n_h1 c)) (Num 3)) (nanMult (nx (n_p1 c)) (Num 2)))
              (nx (n_p0 c)) = NaN"
    using assms by (auto simp: nanInCurve_def)
  show ?thesis
    using nl by (simp add: tpGLIsCurveFlatEnough_nan_def Let_def wx TARP_MAX_nan_def)
qed

lemma lerp_nan:
  "nx a = NaN \<or> nx b = NaN \<Longrightarrow> nx (tpVec2Lerp_nan a b s) = NaN"
  by (auto simp: tpVec2Lerp_nan_def tpVec2Add_nan_def tpVec2MultScalar_nan_def)

lemma subdivide_nan:
  assumes "nanInCurve c"
  shows "nanInCurve (fst (tpGLSubdivideCurve_nan c s))"
    and "nanInCurve (snd (tpGLSubdivideCurve_nan c s))"
  using assms
  by (auto simp: nanInCurve_def tpGLSubdivideCurve_nan_def Let_def lerp_nan)

lemma nanStack_step:
  assumes "nanStack s"
  shows "nanStack (flattenStep_nan curve tol cl lc s)"
proof -
  from assms obtain current rest where st: "fs_stack_nan s = current # rest"
    and bad: "nanInCurve current" "list_all nanInCurve rest"
    by (cases "fs_stack_nan s") (auto simp: nanStack_def)
  have nf: "\<not> tpGLIsCurveFlatEnough_nan current tol" using bad(1) by (rule nan_never_flat)
  show ?thesis
  proof (cases "length rest < TARP_MAX_CURVE_SUBDIVISIONS - 1")
    case True
    with st nf bad subdivide_nan[OF bad(1)] show ?thesis
      by (simp add: flattenStep_nan_def nanStack_def Let_def)
  next
    case False
    then have "rest \<noteq> []" by (auto simp: TARP_MAX_CURVE_SUBDIVISIONS_def)
    with st False bad show ?thesis
      by (simp add: flattenStep_nan_def nanStack_def Let_def)
  qed
qed

lemma nanStack_iterate:
  "nanStack s \<Longrightarrow> nanStack ((flattenStep_nan curve tol cl lc ^^ k) s)"
  by (induction k) (simp_all add: nanStack_step)

lemma flattenCurve_nan_loops:
  assumes "nanInCurve curve"
  shows "tpGLFlattenCurve_nan curve tol cl fc lc out = None"
proof -
  have "nanStack (flattenInit_nan curve fc out)"
    using assms by (simp add: nanStack_def flattenInit_nan_def)
  then have "\<And>k. fs_stack_nan ((flattenStep_nan curve tol cl lc ^^ k) (flattenInit_nan curve fc out)) \<noteq> []"
    using nanStack_iterate[where s = "flattenInit_nan curve fc out" and curve = curve
        and tol = tol and cl = cl and lc = lc]
    by (simp add: nanStack_def)
  then have "while_option (\<lambda>s. fs_stack_nan s \<noteq> []) (flattenStep_nan curve tol cl lc)
               (flattenInit_nan curve fc out) = None"
    by (simp add: while_option_def)
  then show ?thesis by (simp add: tpGLFlattenCurve_nan_def)
qed

text \<open>The loop on real numbers, with the bound of its stack and its two kinds of steps.\<close>

lemma flattenCurve_exact_loop:
  "(\<exists>out'. tpGLFlattenCurve curve tol cl fc lc out = Some out') \<and>
   TARP_MAX_CURVE_SUBDIVISIONS = 16 \<and>
   (\<forall>n. length (fs_stack ((flattenStep curve tol cl lc ^^ n) (flattenInit curve fc out)))
          \<le> TARP_MAX_CURVE_SUBDIVISIONS) \<and>
   (fs_stack s = current # rest \<and> length rest < TARP_MAX_CURVE_SUBDIVISIONS - 1 \<and>
    \<not> tpGLIsCurveFlatEnough current tol \<longrightarrow>
      flattenStep curve tol cl lc s =
        s\<lparr> fs_stack := cp_first (tpGLSubdivideCurve current (1 / 2)) #
                          cp_second (tpGLSubdivideCurve current (1 / 2)) # rest \<rparr> \<and>
      c_p0 (cp_first (tpGLSubdivideCurve current (1 / 2))) = c_p0 current \<and>
      c_p1 (cp_first (tpGLSubdivideCurve current (1 / 2))) =
        tpVec2Make
          ((vx (c_p0 current) + 3 * vx (c_h0 current) + 3 * vx (c_h1 current) +
            vx (c_p1 current)) / 8)
          ((vy (c_p0 current) + 3 * vy (c_h0 current) + 3 * vy (c_h1 current) +
            vy (c_p1 current)) / 8) \<and>
      c_p0 (cp_second (tpGLSubdivideCurve current (1 / 2))) =
        c_p1 (cp_first (tpGLSubdivideCurve current (1 / 2))) \<and>
      c_p1 (cp_second (tpGLSubdivideCurve current (1 / 2))) = c_p1 current) \<and>
   (fs_stack s = current # rest \<and> length rest = TARP_MAX_CURVE_SUBDIVISIONS - 1 \<longrightarrow>
      fs_stack (flattenStep curve tol cl lc s) = rest \<and>
      fo_vertices (fs_out (flattenStep curve tol cl lc s)) =
        fo_vertices (fs_out s) @
          (if fs_bFirstCurve s then [c_p0 current, c_p1 current] else [c_p1 current]))"
proof (intro conjI)
  show "\<exists>out'. tpGLFlattenCurve curve tol cl fc lc out = Some out'"
    by (rule flattenCurve_terminates)
  show "TARP_MAX_CURVE_SUBDIVISIONS = 16"
    by (rule TARP_MAX_CURVE_SUBDIVISIONS_def)
  show "\<forall>n. length (fs_stack ((flattenStep curve tol cl lc ^^ n) (flattenInit curve fc out)))
          \<le> TARP_MAX_CURVE_SUBDIVISIONS"
    using flatten_stack_bound by blast
  show "fs_stack s = current # rest \<and> length rest < TARP_MAX_CURVE_SUBDIVISIONS - 1 \<and>
    \<not> tpGLIsCurveFlatEnough current tol \<longrightarrow>
      flattenStep curve tol cl lc s =
        s\<lparr> fs_stack := cp_first (tpGLSubdivideCurve current (1 / 2)) #
                          cp_second (tpGLSubdivideCurve current (1 / 2)) # rest \<rparr> \<and>
      c_p0 (cp_first (tpGLSubdivideCurve current (1 / 2))) = c_p0 current \<and>
      c_p1 (cp_first (tpGLSubdivideCurve current (1 / 2))) =
        tpVec2Make
          ((vx (c_p0 current) + 3 * vx (c_h0 current) + 3 * vx (c_h1 current) +
            vx (c_p1 current)) / 8)
          ((vy (c_p0 current) + 3 * vy (c_h0 current) + 3 * vy (c_h1 current) +
            vy (c_p1 current)) / 8) \<and>
      c_p0 (cp_second (tpGLSubdivideCurve current (1 / 2))) =
        c_p1 (cp_first (tpGLSubdivideCurve current (1 / 2))) \<and>
      c_p1 (cp_second (tpGLSubdivideCurve current (1 / 2))) = c_p1 current"
  proof (intro impI conjI)
    assume a: "fs_stack s = current # rest \<and> length rest < TARP_MAX_CURVE_SUBDIVISIONS - 1 \<and>
      \<not> tpGLIsCurveFlatEnough current tol"
    then show "flattenStep curve tol cl lc s =
        s\<lparr> fs_stack := cp_first (tpGLSubdivideCurve current (1 / 2)) #
                          cp_second (tpGLSubdivideCurve current (1 / 2)) # rest \<rparr>"
      by (simp add: flattenStep_def Let_def)
  qed (simp_all add: subdivide_half[simplified])
  show "fs_stack s = current # rest \<and> length rest = TARP_MAX_CURVE_SUBDIVISIONS - 1 \<longrightarrow>
      fs_stack (flattenStep curve tol cl lc s) = rest \<and>
      fo_vertices (fs_out (flattenStep curve tol cl lc s)) =
        fo_vertices (fs_out s) @
          (if fs_bFirstCurve s then [c_p0 current, c_p1 current] else [c_p1 current])"
    by (simp add: flattenStep_def Let_def)
qed

text \<open>
  Claim C8.  For every cubic whose control points are numbers and every tolerance that is a
  number, the loop of \<^verbatim>\<open>_tpGLFlattenCurve\<close> ends with a result (in exact arithmetic): the loop
  on floats does step by step what the loop on real numbers does, and that one ends.  There, a
  step that subdivides bisects the current curve at \<open>1 / 2\<close>: the two halves meet in the point
  of the curve at \<open>1 / 2\<close>, the first (left) half is pushed on top and the second (right) half
  takes the place of the current frame.  When the stack is full, the current curve is not
  subdivided, whether it is flat or not: its end point (for the first curve, both its end
  points) is appended to the vertices and the frame is popped.

  In every state that the loop reaches, for numbers as for NaN, the stack holds at most
  \<^verbatim>\<open>TARP_MAX_CURVE_SUBDIVISIONS\<close> = 16 curves.  For a cubic whose start point or end point has
  NaN as its \<open>x\<close> coordinate the loop does not end, whatever the tolerance is.
\<close>

theorem flattenCurve_terminates_bounded:
  "(\<exists>out'. tpGLFlattenCurve curve tol cl fc lc out = Some out' \<and>
           tpGLFlattenCurve_nan (numCurve curve) (Num tol) cl fc lc (numOut out)
             = Some (numOut out')) \<and>
   flattenStep_nan (numCurve curve) (Num tol) cl lc (numState s) =
     numState (flattenStep curve tol cl lc s) \<and>
   (\<forall>n. length (fs_stack_nan ((flattenStep_nan c t cl lc ^^ n) (flattenInit_nan c fc ob)))
          \<le> TARP_MAX_CURVE_SUBDIVISIONS) \<and>
   (nx (n_p0 c) = NaN \<or> nx (n_p1 c) = NaN \<longrightarrow>
      tpGLFlattenCurve_nan c t cl fc lc ob = None) \<and>
   TARP_MAX_CURVE_SUBDIVISIONS = 16 \<and>
   (\<forall>n. length (fs_stack ((flattenStep curve tol cl lc ^^ n) (flattenInit curve fc out)))
          \<le> TARP_MAX_CURVE_SUBDIVISIONS) \<and>
   (fs_stack s = current # rest \<and> length rest < TARP_MAX_CURVE_SUBDIVISIONS - 1 \<and>
    \<not> tpGLIsCurveFlatEnough current tol \<longrightarrow>
      flattenStep curve tol cl lc s =
        s\<lparr> fs_stack := cp_first (tpGLSubdivideCurve current (1 / 2)) #
                          cp_second (tpGLSubdivideCurve current (1 / 2)) # rest \<rparr> \<and>
      c_p0 (cp_first (tpGLSubdivideCurve current (1 / 2))) = c_p0 current \<and>
      c_p1 (cp_first (tpGLSubdivideCurve current (1 / 2))) =
        tpVec2Make
          ((vx (c_p0 current) + 3 * vx (c_h0 current) + 3 * vx (c_h1 current) +
            vx (c_p1 current)) / 8)
          ((vy (c_p0 current) + 3 * vy (c_h0 current) + 3 * vy (c_h1 current) +
            vy (c_p1 current)) / 8) \<and>
      c_p0 (cp_second (tpGLSubdivideCurve current (1 / 2))) =
        c_p1 (cp_first (tpGLSubdivideCurve current (1 / 2))) \<and>
      c_p1 (cp_second (tpGLSubdivideCurve current (1 / 2))) = c_p1 current) \<and>
   (fs_stack s = current # rest \<and> length rest = TARP_MAX_CURVE_SUBDIVISIONS - 1 \<longrightarrow>
      fs_stack (flattenStep curve tol cl lc s) = rest \<and>
      fo_vertices (fs_out (flattenStep curve tol cl lc s)) =
        fo_vertices (fs_out s) @
          (if fs_bFirstCurve s then [c_p0 current, c_p1 current] else [c_p1 current]))"
proof -
  obtain out' where o: "tpGLFlattenCurve curve tol cl fc lc out = Some out'"
    using flattenCurve_terminates by blast
  have a: "\<exists>out'. tpGLFlattenCurve curve tol cl fc lc out = Some out' \<and>
           tpGLFlattenCurve_nan (numCurve curve) (Num tol) cl fc lc (numOut out)
             = Some (numOut out')"
    using o by (simp add: flattenCurve_num)
  have b: "\<forall>n. length (fs_stack_nan ((flattenStep_nan c t cl lc ^^ n) (flattenInit_nan c fc ob)))
          \<le> TARP_MAX_CURVE_SUBDIVISIONS"
    using flatten_nan_stack_bound by blast
  have d: "nx (n_p0 c) = NaN \<or> nx (n_p1 c) = NaN \<longrightarrow>
      tpGLFlattenCurve_nan c t cl fc lc ob = None"
    using flattenCurve_nan_loops[of c t cl fc lc ob] by (simp add: nanInCurve_def)
  note e = flattenCurve_exact_loop[of curve tol cl fc lc out s current rest]
  from a flattenStep_num b d e show ?thesis
    by (intro conjI) (erule conjE | assumption | rule flattenStep_num)+
qed

text \<open>
  The arch is not flat at the tolerance \<open>3 / 20\<close>: its flattening ends, the first step bisects
  it, and on a full stack it is emitted all the same.  With NaN as the \<open>x\<close> of its start point
  its flattening does not end.
\<close>

theorem flattenCurve_terminates_bounded_witness:
  "(\<exists>out'. tpGLFlattenCurve archCurve (3 / 20) False True True emptyOut = Some out' \<and>
           tpGLFlattenCurve_nan (numCurve archCurve) (Num (3 / 20)) False True True
             (numOut emptyOut) = Some (numOut out')) \<and>
   nx (n_p0 nanCurve) = NaN \<and>
   tpGLFlattenCurve_nan nanCurve (Num (3 / 20)) False True True (numOut emptyOut) = None \<and>
   \<not> tpGLIsCurveFlatEnough archCurve (3 / 20) \<and>
   fs_stack (flattenStep archCurve (3 / 20) False True (flattenInit archCurve True emptyOut)) =
     [Curve (tpVec2Make 0 0) (tpVec2Make 0 (1 / 2)) (tpVec2Make (1 / 4) (3 / 4))
            (tpVec2Make (1 / 2) (3 / 4)),
      Curve (tpVec2Make (1 / 2) (3 / 4)) (tpVec2Make (3 / 4) (3 / 4)) (tpVec2Make 1 (1 / 2))
            (tpVec2Make 1 0)] \<and>
   fs_stack (flattenStep archCurve (3 / 20) False True
      \<lparr> fs_stack = archCurve # replicate 15 archCurve, fs_bFirstCurve = False,
        fs_out = emptyOut \<rparr>) = replicate 15 archCurve \<and>
   fo_vertices (fs_out (flattenStep archCurve (3 / 20) False True
      \<lparr> fs_stack = archCurve # replicate 15 archCurve, fs_bFirstCurve = False,
        fs_out = emptyOut \<rparr>)) = [tpVec2Make 1 0]"
proof -
  have nf: "\<not> tpGLIsCurveFlatEnough archCurve (3 / 20)"
    by (simp add: tpGLIsCurveFlatEnough_def tpGLIsCurveLinear_def tpGLIsClose_def archCurve_def
          TARP_MAX_def FLT_EPSILON_def Let_def)
  have sub: "tpGLSubdivideCurve archCurve (1 / 2) =
     \<lparr> cp_first = Curve (tpVec2Make 0 0) (tpVec2Make 0 (1 / 2)) (tpVec2Make (1 / 4) (3 / 4))
            (tpVec2Make (1 / 2) (3 / 4)),
       cp_second = Curve (tpVec2Make (1 / 2) (3 / 4)) (tpVec2Make (3 / 4) (3 / 4))
            (tpVec2Make 1 (1 / 2)) (tpVec2Make 1 0) \<rparr>"
    by (simp add: subdivide_half[simplified] archCurve_def)
  note t1 = flattenCurve_terminates_bounded[where curve = archCurve and tol = "3 / 20"
      and cl = False and fc = True and lc = True and out = emptyOut
      and s = "flattenInit archCurve True emptyOut" and current = archCurve and rest = "[]"
      and c = nanCurve and t = "Num (3 / 20)" and ob = "numOut emptyOut"]
  note t2 = flattenCurve_terminates_bounded[where curve = archCurve and tol = "3 / 20"
      and cl = False and fc = True and lc = True and out = emptyOut
      and s = "\<lparr> fs_stack = archCurve # replicate 15 archCurve, fs_bFirstCurve = False,
                 fs_out = emptyOut \<rparr>"
      and current = archCurve and rest = "replicate 15 archCurve"]
  from t1 have a: "\<exists>out'. tpGLFlattenCurve archCurve (3 / 20) False True True emptyOut = Some out' \<and>
           tpGLFlattenCurve_nan (numCurve archCurve) (Num (3 / 20)) False True True
             (numOut emptyOut) = Some (numOut out')"
    by blast
  have n: "nx (n_p0 nanCurve) = NaN"
    by (simp add: nanCurve_def)
  from t1 n have l:
    "tpGLFlattenCurve_nan nanCurve (Num (3 / 20)) False True True (numOut emptyOut) = None"
    by blast
  from t1 nf have b:
    "flattenStep archCurve (3 / 20) False True (flattenInit archCurve True emptyOut) =
       (flattenInit archCurve True emptyOut)
         \<lparr> fs_stack := cp_first (tpGLSubdivideCurve archCurve (1 / 2)) #
                          cp_second (tpGLSubdivideCurve archCurve (1 / 2)) # [] \<rparr>"
    by (simp add: flattenInit_def TARP_MAX_CURVE_SUBDIVISIONS_def)
  from t2 have c:
    "fs_stack (flattenStep archCurve (3 / 20) False True
      \<lparr> fs_stack = archCurve # replicate 15 archCurve, fs_bFirstCurve = False,
        fs_out = emptyOut \<rparr>) = replicate 15 archCurve"
    "fo_vertices (fs_out (flattenStep archCurve (3 / 20) False True
      \<lparr> fs_stack = archCurve # replicate 15 archCurve, fs_bFirstCurve = False,
        fs_out = emptyOut \<rparr>)) = [c_p1 archCurve]"
    by (simp_all add: emptyOut_def TARP_MAX_CURVE_SUBDIVISIONS_def)
  show ?thesis
    using a n l nf c unfolding b sub by (simp add: archCurve_def)
qed

text \<open>
  The claim as stated, for every input curve, fails for the arch with NaN as the \<open>x\<close> of its
  start point.
\<close>

theorem flattenCurve_nan_counterexample:
  "tpGLFlattenCurve_nan nanCurve (Num (3 / 20)) False True True (numOut emptyOut) = None"
  by (rule flattenCurve_nan_loops) (simp add: nanInCurve_def nanCurve_def)

section \<open>Flattened contours\<close>












text \<open>Curves between corner segments are linear, and a flat curve is emitted in one step.\<close>

lemma tpGLIsClose_refl: "tpGLIsClose a a FLT_EPSILON"
  by (simp add: tpGLIsClose_def Let_def TARP_MAX_def FLT_EPSILON_def)

lemma corner_curve_flat:
  "tpGLIsCurveFlatEnough (segmentCurve (cornerSegment a b) (cornerSegment c d)) tol"
  by (simp add: tpGLIsCurveFlatEnough_def tpGLIsCurveLinear_def segmentCurve_def
        cornerSegment_def tpSegmentMake_def tpGLIsClose_refl)

lemma flattenCurve_flat:
  assumes "tpGLIsCurveFlatEnough curve tol"
  shows "tpGLFlattenCurve curve tol cl fc lc out =
           Some (fs_out (flattenStep curve tol cl lc (flattenInit curve fc out)))"
proof -
  have st: "fs_stack (flattenStep curve tol cl lc (flattenInit curve fc out)) = []"
    using assms by (simp add: flattenStep_def flattenInit_def Let_def)
  have "while_option (\<lambda>s. fs_stack s \<noteq> []) (flattenStep curve tol cl lc)
          (flattenInit curve fc out) =
        while_option (\<lambda>s. fs_stack s \<noteq> []) (flattenStep curve tol cl lc)
          (flattenStep curve tol cl lc (flattenInit curve fc out))"
    by (subst while_option_unfold) (simp add: flattenInit_def)
  also have "\<dots> = Some (flattenStep curve tol cl lc (flattenInit curve fc out))"
    by (subst while_option_unfold) (simp add: st)
  finally show ?thesis by (simp add: tpGLFlattenCurve_def)
qed








section \<open>Zero-length edges in the stroker\<close>

text \<open>
  \<^verbatim>\<open>tpVec2NormalizeSelf\<close> divides by the length of its argument.  The stroker calls it on the
  difference of two consecutive vertices without looking at them first.
\<close>

lemma normalize_zero_vector: "tpVec2NormalizeSelf (tpVec2Sub q q) = Inl DivisionByZero"
  by (simp add: tpVec2NormalizeSelf_def tpVec2Sub_def tpVec2Length_def)

lemma strokeEdge_zero_length:
  "vs ! nat j = vs ! nat (j + 1) \<Longrightarrow>
   strokeEdge contour style joints j (loc, vs) = Some (Inl DivisionByZero)"
  by (simp add: strokeEdge_def Let_def normalize_zero_vector)

text \<open>
  The stroker only appends to the vertex array, so that the fill vertices it reads are those it
  was called with.
\<close>

lemma circleSector_appends:
  assumes "tpGLMakeCircleSector c r0 r1 vs = Some vs'"
  shows "\<exists>ys. vs' = vs @ ys"
proof -
  define rot where "rot = tpMat2MakeRotation (TARP_PI / 16)"
  from assms obtain r l v where
    w: "while_option (\<lambda>(r, l, vertices). \<not> tpVec2Cross r r1 < 0) (circleSectorStep rot c)
          (tpMat2MultVec2 rot r0, tpVec2Add c r0, vs) = Some (r, l, v)"
    and v: "vs' = tpGLPushTriangle v c l (tpVec2Add c r1)"
    by (auto simp: tpGLMakeCircleSector_def Let_def rot_def split: option.splits)
  have "case (r, l, v) of (r, l, v) \<Rightarrow> \<exists>ys. v = vs @ ys"
    by (rule while_option_rule[OF _ w])
       (auto simp: circleSectorStep_def Let_def tpGLPushTriangle_def)
  with v show ?thesis by (auto simp: tpGLPushTriangle_def)
qed

lemma makeCap_appends:
  assumes "tpGLMakeCap type q dir perp le re b vs = Some (Inr vs')"
  shows "\<exists>ys. vs' = vs @ ys"
  using assms circleSector_appends
  by (cases type) (auto simp: tpGLMakeCap_def tpGLMakeCapSquare_def tpGLPushQuad_def)

lemma makeJoin_appends:
  assumes "tpGLMakeJoin type q dir0 dir1 perp0 perp1 lePrev rePrev le re crs mLimit vs
             = Some (Inr vs')"
  shows "\<exists>ys. vs' = vs @ ys"
  using assms circleSector_appends
  by (cases type)
     (auto simp: tpGLMakeJoin_def tpGLMakeJoinMiter_def tpGLMakeJoinBevel_def tpGLPushQuad_def
        tpGLPushTriangle_def Let_def split: if_splits option.splits)

lemma strokeBind_Inr:
  "strokeBind r f = Some (Inr v) \<Longrightarrow> \<exists>u. r = Some (Inr u) \<and> f u = Some (Inr v)"
  by (auto simp: strokeBind_def split: option.splits sum.splits)

lemma strokeEdge_appends:
  assumes "strokeEdge contour style joints j (loc, vs) = Some (Inr (loc', vs'))"
  shows "\<exists>ys. vs' = vs @ ys"
  using assms
  by (auto simp: strokeEdge_def strokeEdgeStart_def strokeEdgeEnd_def Let_def
        tpGLMakeJoinBevel_def tpGLPushTriangle_def tpGLPushQuad_def split: sum.splits if_splits
        dest!: strokeBind_Inr makeCap_appends makeJoin_appends)

lemma strokeEdges_zero_edge:
  assumes "j \<in> set js" "\<forall>i\<in>set js. 0 \<le> i \<and> nat (i + 1) < length vs0"
          "vs0 ! nat j = vs0 ! nat (j + 1)"
  shows "strokeEdges contour style joints js (loc, vs0 @ ys) \<noteq> Some (Inr r)"
  using assms
proof (induction js arbitrary: loc ys)
  case Nil
  then show ?case by simp
next
  case (Cons i js)
  show ?case
  proof (cases "i = j")
    case True
    from Cons.prems(2) True have "0 \<le> j" "nat (j + 1) < length vs0" by simp_all
    then have "(vs0 @ ys) ! nat j = vs0 ! nat j" "(vs0 @ ys) ! nat (j + 1) = vs0 ! nat (j + 1)"
      by (simp_all add: nth_append nat_add_distrib)
    with Cons.prems(3) have "(vs0 @ ys) ! nat j = (vs0 @ ys) ! nat (j + 1)" by simp
    then have "strokeEdge contour style joints j (loc, vs0 @ ys) = Some (Inl DivisionByZero)"
      by (rule strokeEdge_zero_length)
    with True show ?thesis by (simp add: strokeBind_def)
  next
    case False
    with Cons.prems(1) have jin: "j \<in> set js" by simp
    from Cons.prems(2) have all: "\<forall>i\<in>set js. 0 \<le> i \<and> nat (i + 1) < length vs0" by simp
    show ?thesis
    proof
      assume a: "strokeEdges contour style joints (i # js) (loc, vs0 @ ys) = Some (Inr r)"
      then obtain u where u: "strokeEdge contour style joints i (loc, vs0 @ ys) = Some (Inr u)"
        "strokeEdges contour style joints js u = Some (Inr r)"
        by (auto dest: strokeBind_Inr)
      obtain loc1 vs1 where p: "u = (loc1, vs1)" by (cases u)
      with strokeEdge_appends u(1) obtain zs where "vs1 = (vs0 @ ys) @ zs" by blast
      with Cons.IH[OF jin all Cons.prems(3), of loc1 "ys @ zs"] u(2) p show False by simp
    qed
  qed
qed

text \<open>What the builder and the flattener make of \<^verbatim>\<open>moveTo(0, 0); lineTo(x, y)\<close>.\<close>

lemma lineScenario_segments:
  "fst (lineScenario x y) = False \<and>
   scenarioSegments (lineScenario x y) = [cornerSegment 0 0, cornerSegment x y]"
  unfolding lineScenario_def scenarioSegments_def moveTo_fresh
  by (simp add: tpPathLineTo_def noContourStarted_def tpGLCurrentContour_def freshState_def
        tpGLContourAddSegment_def tpGLContourAddSegments_def Let_def cornerSegment_def)

lemma flatten_line_contour:
  "\<exists>f. tpGLFlattenContour [cornerSegment 0 0, cornerSegment x y] False tol None [] []
          tpGLInitBounds = Some f \<and>
        fr_vertices f = [tpVec2Make 0 0, tpVec2Make x y] \<and>
        fr_joints f = [False, True] \<and>
        fr_outContour f = \<lparr> fillVertexOffset = 0, fillVertexCount = 2, strokeVertexOffset = 0,
                             strokeVertexCount = 0, rc_bIsClosed = False \<rparr> \<and>
        fr_contourBounds f = boundsOfPoints [tpVec2Make 0 0, tpVec2Make x y]"
  by (simp add: tpGLFlattenContour_def loopCurve_def corner_curve_flat
        flattenCurve_flat flattenStep_def flattenInit_def Let_def finishFlatten_def
        boundsOfPoints_def)
     (simp add: segmentCurve_def cornerSegment_def tpSegmentMake_def tpVec2Equals_def)

text \<open>
  Claim C10.  When the fill vertices of a contour hold two consecutive equal vertices (an edge
  of length zero), \<^verbatim>\<open>_tpGLRenderCacheContourContinousStrokeGeometry\<close> does not complete within
  the real numbers, for any style: an earlier edge has already failed, or the edge is reached
  and its direction is normalized by a division by zero.  When the edge is the first one, the
  division by zero is what happens.
\<close>

theorem stroke_zero_length_edge:
  assumes off: "0 \<le> fillVertexOffset contour"
      and len: "fillVertexOffset contour + fillVertexCount contour \<le> int (length vs)"
      and lo: "fillVertexOffset contour \<le> j"
      and hi: "j + 1 < fillVertexOffset contour + fillVertexCount contour"
      and eq: "vs ! nat j = vs ! nat (j + 1)"
  shows "(\<forall>r. tpGLRenderCacheContourContinousStrokeGeometry contour style vs joints
               \<noteq> Some (Inr r)) \<and>
         (j = fillVertexOffset contour \<longrightarrow>
            tpGLRenderCacheContourContinousStrokeGeometry contour style vs joints
              = Some (Inl DivisionByZero))"
proof -
  define contour1 where "contour1 = contour\<lparr> strokeVertexOffset := int (length vs) \<rparr>"
  define js where "js = [fillVertexOffset contour .. fillVertexOffset contour + fillVertexCount contour - 2]"
  have cnt: "\<not> fillVertexCount contour \<le> 1" using lo hi by simp
  have unfold: "tpGLRenderCacheContourContinousStrokeGeometry contour style vs joints =
      strokeBind (strokeEdges contour1 style joints js (strokeLocalsInit, vs))
        (\<lambda>(loc, vs'). Some (Inr (contour1\<lparr> strokeVertexCount := int (length vs') - int (length vs) \<rparr>, vs')))"
    using cnt
    by (simp add: tpGLRenderCacheContourContinousStrokeGeometry_def Let_def contour1_def js_def)
  have jin: "j \<in> set js" using lo hi by (simp add: js_def)
  have all: "\<forall>i\<in>set js. 0 \<le> i \<and> nat (i + 1) < length vs"
    using off len by (auto simp: js_def)
  have ne: "strokeEdges contour1 style joints js (strokeLocalsInit, vs) \<noteq> Some (Inr u)" for u
    using strokeEdges_zero_edge[OF jin all eq, of contour1 style joints strokeLocalsInit "[]" u]
    by simp
  have first: "strokeEdges contour1 style joints js (strokeLocalsInit, vs) = Some (Inl DivisionByZero)"
    if "j = fillVertexOffset contour"
  proof -
    have "js = j # [j + 1 .. fillVertexOffset contour + fillVertexCount contour - 2]"
      unfolding js_def using that hi by (subst upto.simps) simp
    then show ?thesis
      using strokeEdge_zero_length[OF eq] by (simp add: strokeBind_def)
  qed
  show ?thesis
  proof (intro conjI allI impI)
    fix r
    show "tpGLRenderCacheContourContinousStrokeGeometry contour style vs joints \<noteq> Some (Inr r)"
    proof
      assume "tpGLRenderCacheContourContinousStrokeGeometry contour style vs joints = Some (Inr r)"
      then obtain u where
        "strokeEdges contour1 style joints js (strokeLocalsInit, vs) = Some (Inr u)"
        unfolding unfold by (auto dest: strokeBind_Inr)
      with ne show False by blast
    qed
  next
    assume "j = fillVertexOffset contour"
    from first[OF this]
    show "tpGLRenderCacheContourContinousStrokeGeometry contour style vs joints
            = Some (Inl DivisionByZero)"
      unfolding unfold by (simp add: strokeBind_def)
  qed
qed

text \<open>
  The edge is reachable from the API: \<^verbatim>\<open>tpPathMoveTo(path, 0, 0); tpPathLineTo(path, 0, 0);\<close>
  succeeds, the contour flattens to the two vertices \<open>(0, 0)\<close>, \<open>(0, 0)\<close>, and stroking them
  with the default style divides by zero.
\<close>

theorem stroke_zero_length_edge_witness:
  "fst (lineScenario 0 0) = False \<and>
   scenarioSegments (lineScenario 0 0) = [cornerSegment 0 0, cornerSegment 0 0] \<and>
   map_option fr_vertices
     (tpGLFlattenContour (scenarioSegments (lineScenario 0 0)) False (15 / 100) None [] []
        tpGLInitBounds) = Some [tpVec2Make 0 0, tpVec2Make 0 0] \<and>
   strokeOpenContour (scenarioSegments (lineScenario 0 0)) tpStyleMake
     = Some (Inl DivisionByZero)"
proof -
  obtain f where f:
    "tpGLFlattenContour [cornerSegment 0 0, cornerSegment 0 0] False (3 / 20) None [] []
          tpGLInitBounds = Some f"
    "fr_vertices f = [tpVec2Make 0 0, tpVec2Make 0 0]"
    "fr_outContour f = \<lparr> fillVertexOffset = 0, fillVertexCount = 2, strokeVertexOffset = 0,
                             strokeVertexCount = 0, rc_bIsClosed = False \<rparr>"
    using flatten_line_contour[of 0 0 "3 / 20"] by blast
  have "tpGLRenderCacheContourContinousStrokeGeometry (fr_outContour f) tpStyleMake
          (fr_vertices f) (fr_joints f) = Some (Inl DivisionByZero)"
    using stroke_zero_length_edge[where contour = "fr_outContour f" and vs = "fr_vertices f"
        and j = 0 and style = tpStyleMake and joints = "fr_joints f"]
    by (simp add: f)
  then show ?thesis
    by (simp add: lineScenario_segments strokeOpenContour_def f)
qed

section \<open>Stroke bounds\<close>









end
